(* ===== verification/Prelude.thy ===== *)
theory Prelude
  imports Complex_Main "HOL-Library.Multiset"
begin

text \<open>
  Shared vocabulary of the model of \<open>src/model.py\<close>: the error values that stand for the
  exceptions the pipeline and its libraries raise, the result type \<open>error + 'a\<close> with its
  bind, NumPy arrays as lists of rows of reals, and the list lemmas the component theories
  share. The collection \<open>model_simps\<close> gathers the unfolding rules of the small numeric
  helpers, so that a component proof says \<open>simp add: model_simps\<close>.
\<close>

named_theorems model_simps "unfolding rules of the array helpers of the model"

section \<open>Errors as values\<close>

text \<open>
  One constructor per exception the code can meet. \<open>NotTrained\<close> is the code's own
  \<open>ValueError("Model has not been trained yet...")\<close>; the others are the exceptions of
  scikit-learn, NumPy and Keras that the code propagates unchanged.
\<close>

datatype error =
    NotTrained        \<comment> \<open>\<open>predict\<close>/\<open>plot_training_history\<close> before \<open>fit\<close>\<close>
  | NotFitted         \<comment> \<open>scikit-learn \<open>NotFittedError\<close> of a transformer\<close>
  | UnseenLabel       \<comment> \<open>\<open>LabelEncoder\<close>: "y contains previously unseen labels"\<close>
  | EmptyInput        \<comment> \<open>\<open>check_array\<close>: "Found array with 0 sample(s)"\<close>
  | FeatureMismatch   \<comment> \<open>\<open>transform\<close> with another number of features than \<open>fit\<close>\<close>
  | BadNComponents    \<comment> \<open>\<open>PCA\<close>: \<open>n_components\<close> out of range\<close>
  | BadSplit          \<comment> \<open>\<open>train_test_split\<close>: empty train or test part\<close>
  | ZeroDivision      \<comment> \<open>Python \<open>//\<close> by zero\<close>
  | OneHotIndex       \<comment> \<open>\<open>np.eye(k)[y]\<close> with a label \<open>\<ge> k\<close>\<close>
  | EmptyArgmax       \<comment> \<open>\<open>np.argmax\<close> of an empty row\<close>
  | ShapeMismatch     \<comment> \<open>Keras: incompatible tensor shapes\<close>
  | LengthMismatch    \<comment> \<open>\<open>check_consistent_length\<close>: inputs with different numbers of samples\<close>
  | SingleClass       \<comment> \<open>imbalanced-learn: "The target 'y' needs to have more than 1 class"\<close>
  | NoFeatures        \<comment> \<open>\<open>check_array\<close>: "Found array with 0 feature(s)"\<close>
  | NoneAttribute     \<comment> \<open>Python \<open>AttributeError\<close> on an attribute that is \<open>None\<close>\<close>
  | BadArgument       \<comment> \<open>Keras layer constructor: \<open>units \<le> 0\<close> or a dropout rate outside \<open>[0, 1]\<close>\<close>

type_synonym 'a result = "error + 'a"

definition rbind :: "'a result \<Rightarrow> ('a \<Rightarrow> 'b result) \<Rightarrow> 'b result" where
  "rbind m f = (case m of Inl e \<Rightarrow> Inl e | Inr v \<Rightarrow> f v)"

section \<open>Arrays\<close>

text \<open>
  A 1-D float array is a \<open>real list\<close>, a 2-D array a list of its rows. Python floats are
  modelled as reals: rounding is not modelled. The column count of a 2-D array is passed
  explicitly where it matters, because an array with no rows still has one.
\<close>

type_synonym vec = "real list"
type_synonym matrix = "real list list"

definition is_matrix :: "nat \<Rightarrow> matrix \<Rightarrow> bool" where
  "is_matrix d X \<longleftrightarrow> list_all (\<lambda>r. length r = d) X"

definition col :: "matrix \<Rightarrow> nat \<Rightarrow> vec" where
  "col X j = map (\<lambda>r. r ! j) X"

definition mean :: "vec \<Rightarrow> real" where
  "mean xs = sum_list xs / real (length xs)"

definition dot :: "vec \<Rightarrow> vec \<Rightarrow> real" where
  "dot xs ys = sum_list (map2 (*) xs ys)"

text \<open>\<open>np.dot(x, W)\<close> for a row vector \<open>x\<close> and a matrix \<open>W\<close> with \<open>m\<close> columns.\<close>

definition vec_mat :: "nat \<Rightarrow> vec \<Rightarrow> matrix \<Rightarrow> vec" where
  "vec_mat m x W = map (\<lambda>j. dot x (col W j)) [0..<m]"

declare col_def [model_simps] mean_def [model_simps] dot_def [model_simps]
  vec_mat_def [model_simps]

section \<open>Lemmas on results and arrays\<close>

lemma rbind_Inl [simp]: "rbind (Inl e) f = Inl e"
  by (simp add: rbind_def)

lemma rbind_Inr [simp]: "rbind (Inr v) f = f v"
  by (simp add: rbind_def)

lemma rbind_eq_Inr_iff: "rbind m f = Inr y \<longleftrightarrow> (\<exists>v. m = Inr v \<and> f v = Inr y)"
  by (cases m) (auto simp: rbind_def)

lemma rbind_eq_Inl_iff: "rbind m f = Inl e \<longleftrightarrow> m = Inl e \<or> (\<exists>v. m = Inr v \<and> f v = Inl e)"
  by (cases m) (auto simp: rbind_def)

lemma is_matrix_Nil [simp]: "is_matrix d []"
  by (simp add: is_matrix_def)

lemma is_matrix_Cons [simp]: "is_matrix d (r # X) \<longleftrightarrow> length r = d \<and> is_matrix d X"
  by (simp add: is_matrix_def)

lemma is_matrix_append [simp]: "is_matrix d (X @ Y) \<longleftrightarrow> is_matrix d X \<and> is_matrix d Y"
  by (simp add: is_matrix_def)

lemma is_matrix_iff: "is_matrix d X \<longleftrightarrow> (\<forall>r \<in> set X. length r = d)"
  by (simp add: is_matrix_def list_all_iff)

lemma is_matrix_map [intro]: "(\<And>r. r \<in> set X \<Longrightarrow> length (f r) = d) \<Longrightarrow> is_matrix d (map f X)"
  by (simp add: is_matrix_iff)

lemma length_col [simp]: "length (col X j) = length X"
  by (simp add: col_def)

lemma length_vec_mat [simp]: "length (vec_mat m x W) = m"
  by (simp add: vec_mat_def)

lemma nth_vec_mat [simp]: "j < m \<Longrightarrow> vec_mat m x W ! j = dot x (col W j)"
  by (simp add: vec_mat_def)

lemma mean_singleton [simp]: "mean [x] = x"
  by (simp add: mean_def)

section \<open>Counting\<close>

lemma count_list_replicate [simp]: "count_list (replicate n x) y = (if x = y then n else 0)"
  by (induction n) auto

section \<open>Sums and means\<close>

lemma sum_list_map_div: "sum_list (map (\<lambda>x. f x / c) xs) = sum_list (map f xs) / (c::real)"
  by (induction xs) (simp_all add: add_divide_distrib)

lemma sum_list_map_const: "sum_list (map (\<lambda>x. c) xs) = real (length xs) * (c::real)"
  by (induction xs) (simp_all add: algebra_simps)

lemma sum_list_map_minus_const:
  "sum_list (map (\<lambda>x. x - c) xs) = sum_list xs - real (length xs) * (c::real)"
  by (induction xs) (simp_all add: algebra_simps)

lemma sum_list_centered: "sum_list (map (\<lambda>x. x - mean xs) xs) = 0"
proof -
  have "sum_list (map (\<lambda>x. x - mean xs) xs) = sum_list xs - real (length xs) * mean xs"
    by (rule sum_list_map_minus_const)
  also have "\<dots> = 0" by (cases "xs = []") (simp_all add: mean_def)
  finally show ?thesis .
qed

lemma mean_centered: "mean (map (\<lambda>x. x - mean xs) xs) = 0"
  unfolding mean_def [of "map (\<lambda>x. x - mean xs) xs"] by (simp add: sum_list_centered)

lemma mean_map_div: "mean (map (\<lambda>x. f x / c) xs) = mean (map f xs) / (c::real)"
  by (simp add: mean_def sum_list_map_div)

lemma col_map_rows:
  "j < d \<Longrightarrow> col (map (\<lambda>r. map (\<lambda>i. f r i) [0..<d]) X) j = map (\<lambda>r. f r j) X"
  by (simp add: col_def)

end
