(* ===== verification/Squeeze_Excitation.thy ===== *)
theory Squeeze_Excitation
  imports Prelude
begin

text \<open>
  \<open>HybridLSTMTransformerModel.squeeze_and_excitation\<close> (\<open>src/model.py\<close>, lines 89-125),
  the channel recalibration applied after PCA. Its two weight matrices are drawn from
  NumPy's process-wide generator (\<open>np.random.normal\<close>, never seeded by the class) on every
  call. The generator is modelled as a stream of standard normal draws \<open>g :: nat \<Rightarrow> real\<close>
  and a position \<open>p\<close>, the number of draws consumed so far; the function returns the new
  position with its result, so that successive calls read successive parts of the stream.
  The theory shows that the "squeeze" averages over an axis of length one and so is the
  identity, that each row is multiplied by a gate in the open interval (0, 1) computed from
  that row alone, how many draws a call consumes, and that two calls on the same input can
  differ.
\<close>

type_synonym rng = "nat \<Rightarrow> real"

type_synonym tensor3 = "real list list list"

definition relu :: "real \<Rightarrow> real" where
  "relu x = max 0 x"

definition sigmoid :: "real \<Rightarrow> real" where
  "sigmoid z = 1 / (1 + exp (- z))"

text \<open>\<open>np.random.normal(size=(rows, cols))\<close> at stream position \<open>p\<close>, row-major.\<close>

definition normal_matrix :: "rng \<Rightarrow> nat \<Rightarrow> nat \<Rightarrow> nat \<Rightarrow> matrix" where
  "normal_matrix g p rows cols = map (\<lambda>i. map (\<lambda>j. g (p + i * cols + j)) [0..<cols]) [0..<rows]"

text \<open>\<open>features.reshape(n, 1, c)\<close>: each sample becomes a one-row block.\<close>

definition se_reshape :: "matrix \<Rightarrow> tensor3" where
  "se_reshape X = map (\<lambda>r. [r]) X"

text \<open>\<open>np.mean(T, axis=1, keepdims=True)\<close> for a tensor of shape \<open>(n, t, c)\<close>.\<close>

definition mean_axis1 :: "nat \<Rightarrow> tensor3 \<Rightarrow> tensor3" where
  "mean_axis1 c T = map (\<lambda>s. [map (\<lambda>j. mean (map (\<lambda>t. t ! j) s)) [0..<c]]) T"

text \<open>\<open>np.dot(T, W)\<close> for a 3-D tensor and a matrix with \<open>m\<close> columns.\<close>

definition dot3 :: "nat \<Rightarrow> tensor3 \<Rightarrow> matrix \<Rightarrow> tensor3" where
  "dot3 m T W = map (map (\<lambda>v. vec_mat m v W)) T"

text \<open>\<open>reduced_dim = max(1, c // ratio)\<close>; Python's \<open>//\<close> raises on a zero divisor.\<close>

definition se_reduced_dim :: "nat \<Rightarrow> nat \<Rightarrow> nat result" where
  "se_reduced_dim c ratio = (if ratio = 0 then Inl ZeroDivision else Inr (max 1 (c div ratio)))"

text \<open>
  The whole method, in the order of the source: reshape, squeeze, draw \<open>w1\<close>, ReLU of the
  first product, draw \<open>w2\<close>, sigmoid of the second product, element-wise scaling, reshape
  back to \<open>(n, c)\<close>. \<open>c\<close> is \<open>features.shape[1]\<close>.
\<close>

definition squeeze_and_excitation ::
  "rng \<Rightarrow> nat \<Rightarrow> nat \<Rightarrow> matrix \<Rightarrow> nat \<Rightarrow> (matrix \<times> nat) result" where
  "squeeze_and_excitation g ratio c features p =
     rbind (se_reduced_dim c ratio) (\<lambda>r.
       let se_input = se_reshape features;
           squeeze = mean_axis1 c se_input;
           w1 = normal_matrix g p c r;
           excitation = map (map (map relu)) (dot3 r squeeze w1);
           w2 = normal_matrix g (p + c * r) r c;
           excitation = map (map (map sigmoid)) (dot3 c excitation w2);
           scaled = map2 (map2 (map2 (*))) se_input excitation
       in Inr (map concat scaled, p + c * r + r * c))"

text \<open>The gate of one sample, as the closed form below computes it.\<close>

definition se_gate :: "matrix \<Rightarrow> matrix \<Rightarrow> nat \<Rightarrow> nat \<Rightarrow> vec \<Rightarrow> vec" where
  "se_gate w1 w2 r c x = map sigmoid (vec_mat c (map relu (vec_mat r x w1)) w2)"

section \<open>The activations\<close>

lemma sigmoid_pos: "0 < sigmoid z"
  by (simp add: sigmoid_def add_pos_pos)

lemma sigmoid_less_1: "sigmoid z < 1"
  by (simp add: sigmoid_def add_pos_pos)

lemma sigmoid_0 [simp]: "sigmoid 0 = 1 / 2"
  by (simp add: sigmoid_def)

lemma sigmoid_eq_half_iff: "sigmoid z = 1 / 2 \<longleftrightarrow> z = 0"
proof
  assume "sigmoid z = 1 / 2"
  then have "exp (- z) = exp 0" by (simp add: sigmoid_def field_simps)
  then show "z = 0" by simp
qed simp

lemma relu_nonneg: "0 \<le> relu x"
  by (simp add: relu_def)

section \<open>The squeeze is the identity\<close>

lemma mean_axis1_reshape:
  "is_matrix c X \<Longrightarrow> mean_axis1 c (se_reshape X) = se_reshape X"
  by (auto simp: mean_axis1_def se_reshape_def is_matrix_iff intro!: nth_equalityI)

section \<open>Closed form\<close>

lemma length_normal_matrix [simp]: "length (normal_matrix g p rows cols) = rows"
  by (simp add: normal_matrix_def)

lemma se_reduced_dim_pos: "se_reduced_dim c ratio = Inr r \<Longrightarrow> 0 < r"
  by (auto simp: se_reduced_dim_def split: if_splits)

lemma squeeze_and_excitation_closed:
  assumes "is_matrix c X" and "0 < ratio"
  defines "r \<equiv> max 1 (c div ratio)"
  shows "squeeze_and_excitation g ratio c X p =
           Inr (map (\<lambda>x. map2 (*) x (se_gate (normal_matrix g p c r)
                                              (normal_matrix g (p + c * r) r c) r c x)) X,
                p + 2 * c * r)"
proof -
  have "mean_axis1 c (se_reshape X) = se_reshape X"
    using assms(1) by (rule mean_axis1_reshape)
  then have sq: "mean_axis1 c (map (\<lambda>r. [r]) X) = map (\<lambda>r. [r]) X"
    by (simp add: se_reshape_def)
  show ?thesis
    using assms(2)
    by (simp add: squeeze_and_excitation_def se_reduced_dim_def r_def sq Let_def
        se_reshape_def dot3_def se_gate_def zip_map2 zip_same_conv_map o_def)
qed

lemma se_gate_bounds:
  "length (se_gate w1 w2 r c x) = c \<and> (\<forall>v \<in> set (se_gate w1 w2 r c x). 0 < v \<and> v < 1)"
  by (auto simp: se_gate_def sigmoid_pos sigmoid_less_1)

lemma nth_map2_gate:
  assumes "length x = c" "j < c"
  shows "\<exists>s. 0 < s \<and> s < 1 \<and> map2 (*) x (se_gate w1 w2 r c x) ! j = s * x ! j"
proof -
  let ?s = "se_gate w1 w2 r c x ! j"
  from se_gate_bounds [of w1 w2 r c x] assms have "0 < ?s \<and> ?s < 1"
    by (metis nth_mem)
  moreover from se_gate_bounds [of w1 w2 r c x] assms
  have "map2 (*) x (se_gate w1 w2 r c x) ! j = ?s * x ! j" by simp
  ultimately show ?thesis by blast
qed

lemma squeeze_and_excitation_length:
  "squeeze_and_excitation g ratio c X p = Inr (Y, q) \<Longrightarrow> length Y = length X"
  by (auto simp: squeeze_and_excitation_def rbind_eq_Inr_iff Let_def se_reshape_def mean_axis1_def dot3_def)

text \<open>
  With a constant stream (fixed weights) the output does not depend on the position of the
  generator.
\<close>

lemma normal_matrix_const:
  "(\<And>i. g i = v) \<Longrightarrow> normal_matrix g p rows cols = replicate rows (replicate cols v)"
  by (simp add: normal_matrix_def map_replicate_const)

lemma squeeze_and_excitation_const:
  assumes "\<And>i. g i = v"
  shows "map_sum id fst (squeeze_and_excitation g ratio c X p) =
         map_sum id fst (squeeze_and_excitation g ratio c X p')"
  by (simp add: squeeze_and_excitation_def rbind_def Let_def normal_matrix_const [of g v, OF assms]
      split: sum.splits)

lemma squeeze_and_excitation_shape:
  assumes "is_matrix c X" and "0 < ratio" and "squeeze_and_excitation g ratio c X p = Inr (Y, q)"
  shows "is_matrix c Y \<and> length Y = length X \<and> q = p + 2 * c * max 1 (c div ratio)"
  using assms(3) squeeze_and_excitation_closed [OF assms(1,2), of g p] assms(1) se_gate_bounds
  by (auto simp: is_matrix_iff)

section \<open>Properties of the recalibration\<close>

text \<open>
  C29. For a positive ratio the method returns, keeps the shape \<open>(n, c)\<close> of its input and
  scales every entry by a factor strictly between 0 and 1: the sign of every feature is kept
  and its magnitude does not grow.
\<close>

theorem squeeze_and_excitation_gate:
  assumes "is_matrix c X" and "0 < ratio"
  shows "\<exists>Y p'. squeeze_and_excitation g ratio c X p = Inr (Y, p') \<and>
           length Y = length X \<and> is_matrix c Y \<and>
           (\<forall>i < length X. \<forall>j < c. \<exists>s. 0 < s \<and> s < 1 \<and> Y ! i ! j = s * X ! i ! j)"
proof -
  define r where "r = max 1 (c div ratio)"
  define G where "G = se_gate (normal_matrix g p c r) (normal_matrix g (p + c * r) r c) r c"
  define Y where "Y = map (\<lambda>x. map2 (*) x (G x)) X"
  from assms(1) have len: "\<And>i. i < length X \<Longrightarrow> length (X ! i) = c"
    by (simp add: is_matrix_iff)
  have eq: "squeeze_and_excitation g ratio c X p = Inr (Y, p + 2 * c * r)"
    using squeeze_and_excitation_closed [OF assms, of g p] by (simp add: Y_def G_def r_def)
  have "is_matrix c Y"
    using assms(1) se_gate_bounds by (auto simp: Y_def G_def is_matrix_iff)
  moreover have "\<forall>i < length X. \<forall>j < c. \<exists>s. 0 < s \<and> s < 1 \<and> Y ! i ! j = s * X ! i ! j"
    using len nth_map2_gate by (simp add: Y_def G_def)
  ultimately show ?thesis
    using eq by (simp add: Y_def)
qed

theorem squeeze_and_excitation_gate_witness:
  "is_matrix 1 [[1]] \<and> (0::nat) < 16 \<and>
   (\<exists>Y p'. squeeze_and_excitation (\<lambda>_. 0) 16 1 [[1]] 0 = Inr (Y, p') \<and>
      length Y = length [[1::real]] \<and> is_matrix 1 Y \<and>
      (\<forall>i < length [[1::real]]. \<forall>j < 1. \<exists>s. 0 < s \<and> s < 1 \<and> Y ! i ! j = s * [[1::real]] ! i ! j))"
proof -
  have h: "is_matrix 1 [[1::real]]" "(0::nat) < 16" by simp_all
  show ?thesis using squeeze_and_excitation_gate [OF h, of "\<lambda>_. 0" 0] h by simp
qed

text \<open>
  The only exception of the method is Python's \<open>ZeroDivisionError\<close> of
  \<open>c // ratio\<close>: it fails exactly when the ratio is zero.
\<close>

theorem squeeze_and_excitation_error:
  "squeeze_and_excitation g ratio c X p = Inl e \<longleftrightarrow> ratio = 0 \<and> e = ZeroDivision"
  by (auto simp: squeeze_and_excitation_def se_reduced_dim_def Let_def)

text \<open>
  C8. The recalibration is not reproducible: the weights are fresh draws of the unseeded
  global generator, so two successive calls on the same features (as \<open>fit\<close> makes for the
  train and the validation part, and \<open>predict\<close> on every call) can return different
  features. Here one feature, the default ratio 16, and a stream whose first two draws are
  0 and the next ones 1.
\<close>

theorem squeeze_and_excitation_not_reproducible:
  "\<exists>g Y1 Y2 p1 p2. squeeze_and_excitation g 16 1 [[1]] 0 = Inr (Y1, p1) \<and>
      squeeze_and_excitation g 16 1 [[1]] p1 = Inr (Y2, p2) \<and> Y1 \<noteq> Y2"
proof -
  define g :: rng where "g = (\<lambda>i. if i < 2 then 0 else 1)"
  have m: "is_matrix 1 [[1::real]]" "(0::nat) < 16" by simp_all
  have c1: "squeeze_and_excitation g 16 1 [[1]] 0 = Inr ([[1 / 2]], 2)"
    unfolding squeeze_and_excitation_closed [OF m]
    by (simp add: se_gate_def normal_matrix_def
        g_def model_simps relu_def)
  have c2: "squeeze_and_excitation g 16 1 [[1]] 2 = Inr ([[sigmoid 1]], 4)"
    unfolding squeeze_and_excitation_closed [OF m]
    by (simp add: se_gate_def normal_matrix_def
        g_def model_simps relu_def)
  have "sigmoid 1 \<noteq> 1 / 2" by (simp only: sigmoid_eq_half_iff)
  then have "[[1 / 2]] \<noteq> [[sigmoid 1]]" by (metis list.inject)
  with c1 c2 show ?thesis by blast
qed

end
