(* ===== verification/Network.thy ===== *)
theory Network
  imports Squeeze_Excitation
begin

text \<open>
  The network that \<open>build_model\<close> (\<open>src/model.py\<close>, lines 183-228) assembles with the
  Keras functional API, through \<open>transformer_block\<close> (lines 127-156) and
  \<open>additive_attention\<close> (lines 158-181). Constructing a layer checks its arguments as
  Keras' constructors do (\<open>ValueError\<close> for \<open>units \<le> 0\<close> and for a dropout rate outside
  \<open>[0, 1]\<close>, \<open>BadArgument\<close>); calling a layer on symbolic tensors appends a
  node to the computation graph and computes the node's output shape, failing at build time
  when the input shapes do not fit, as Keras does. A symbolic tensor is the id of its node
  and its shape without the batch axis; the graph is the list of nodes in the order the
  calls create them. The builders thread the graph through the calls (a state monad over
  \<open>result\<close>, \<open>gbind\<close>). The theory proves that the built graph is well formed (every
  node reads only earlier nodes), that \<open>build_model\<close> succeeds exactly on the
  configurations the constructors accept and then maps inputs of shape \<open>(t, f)\<close> to
  \<open>num_classes\<close> probabilities, and, with the numeric meaning of
  Dense layers and softmax, that the additive attention block computes the identity on its
  value: its \<open>Dense(1, activation='softmax')\<close> normalises over a single unit.
\<close>

datatype activation = Linear | ReluAct | TanhAct | SoftmaxAct

datatype layer =
    Input "nat list"
  | LSTM nat bool                      \<comment> \<open>units, \<open>return_sequences\<close>\<close>
  | MultiHeadAttention nat nat         \<comment> \<open>\<open>num_heads\<close>, \<open>key_dim\<close>; called on (query, value)\<close>
  | Dropout real
  | Add
  | LayerNormalization real            \<comment> \<open>epsilon\<close>
  | Dense nat activation
  | Concatenate                        \<comment> \<open>on the last axis\<close>
  | Multiply

type_synonym shape = "nat list"
type_synonym sym = "nat \<times> shape"
type_synonym graph = "(layer \<times> nat list) list"
type_synonym 'a builder = "graph \<Rightarrow> ('a \<times> graph) result"

section \<open>Shapes of layer outputs\<close>

text \<open>
  Element-wise merges (\<open>Add\<close>, \<open>Multiply\<close>) broadcast axes of length 1, as Keras'
  merge layers do; only inputs of equal rank occur in this network and only those are
  modelled.
\<close>

fun bcast_dims :: "nat list \<Rightarrow> nat list \<Rightarrow> shape result" where
  "bcast_dims [] [] = Inr []"
| "bcast_dims (a # as) (b # bs) =
     (if a = b \<or> b = 1 then rbind (bcast_dims as bs) (\<lambda>r. Inr (a # r))
      else if a = 1 then rbind (bcast_dims as bs) (\<lambda>r. Inr (b # r))
      else Inl ShapeMismatch)"
| "bcast_dims _ _ = Inl ShapeMismatch"

fun concat_last :: "shape list \<Rightarrow> shape result" where
  "concat_last [] = Inl ShapeMismatch"
| "concat_last [s] = (if s = [] then Inl ShapeMismatch else Inr s)"
| "concat_last (s # ss) =
     rbind (concat_last ss) (\<lambda>r.
       if s \<noteq> [] \<and> butlast s = butlast r then Inr (butlast s @ [last s + last r])
       else Inl ShapeMismatch)"

text \<open>Arity and rank checks of a layer call.\<close>

fun one_in :: "(shape \<Rightarrow> shape result) \<Rightarrow> shape list \<Rightarrow> shape result" where
  "one_in f [s] = f s"
| "one_in f _ = Inl ShapeMismatch"

fun two_in :: "(shape \<Rightarrow> shape \<Rightarrow> shape result) \<Rightarrow> shape list \<Rightarrow> shape result" where
  "two_in f [s1, s2] = f s1 s2"
| "two_in f _ = Inl ShapeMismatch"

fun rank2 :: "(nat \<Rightarrow> nat \<Rightarrow> shape result) \<Rightarrow> shape \<Rightarrow> shape result" where
  "rank2 f [t, d] = f t d"
| "rank2 f _ = Inl ShapeMismatch"

definition layer_out_shape :: "layer \<Rightarrow> shape list \<Rightarrow> shape result" where
  "layer_out_shape l ss =
     (case l of
        Input s \<Rightarrow> if ss = [] then Inr s else Inl ShapeMismatch
      | LSTM u rs \<Rightarrow> one_in (rank2 (\<lambda>t f. Inr (if rs then [t, u] else [u]))) ss
      | MultiHeadAttention h kd \<Rightarrow>
          two_in (\<lambda>q v. rank2 (\<lambda>t d. rank2 (\<lambda>_ _. Inr [t, d]) v) q) ss
      | Dropout r \<Rightarrow> one_in Inr ss
      | Add \<Rightarrow> two_in bcast_dims ss
      | LayerNormalization e \<Rightarrow> one_in Inr ss
      | Dense u a \<Rightarrow>
          one_in (\<lambda>s. if s = [] then Inl ShapeMismatch else Inr (butlast s @ [u])) ss
      | Concatenate \<Rightarrow> if length ss < 2 then Inl ShapeMismatch else concat_last ss
      | Multiply \<Rightarrow> two_in bcast_dims ss)"

section \<open>Building the graph\<close>

definition gbind :: "'a builder \<Rightarrow> ('a \<Rightarrow> 'b builder) \<Rightarrow> 'b builder" where
  "gbind m f G = rbind (m G) (\<lambda>(x, G'). f x G')"

text \<open>
  \<open>Layer(...)(x1, ..., xn)\<close>: the constructor checks its arguments (Keras raises
  \<open>ValueError\<close> for \<open>LSTM\<close> or \<open>Dense\<close> with \<open>units \<le> 0\<close> and for \<open>Dropout\<close> with a rate
  outside \<open>[0, 1]\<close>), then the call adds a new node reading the given tensors.
\<close>

abbreviation bad_layer_args :: "layer \<Rightarrow> bool" where
  "bad_layer_args l \<equiv>
     (case l of LSTM u rs \<Rightarrow> u = 0 | Dense u a \<Rightarrow> u = 0 | Dropout r \<Rightarrow> r < 0 \<or> 1 < r | _ \<Rightarrow> False)"

definition call_layer :: "layer \<Rightarrow> sym list \<Rightarrow> sym builder" where
  "call_layer l xs G =
     (if bad_layer_args l then Inl BadArgument
      else rbind (layer_out_shape l (map snd xs)) (\<lambda>s. Inr ((length G, s), G @ [(l, map fst xs)])))"

text \<open>Keras' \<open>LayerNormalization(epsilon=1e-6)\<close>.\<close>

definition ln_eps :: real where
  "ln_eps = 1 / 1000000"

definition transformer_block :: "nat \<Rightarrow> real \<Rightarrow> nat \<Rightarrow> sym \<Rightarrow> sym builder" where
  "transformer_block num_heads dropout_rate ff_dim inputs =
     gbind (call_layer (MultiHeadAttention num_heads (last (snd inputs))) [inputs, inputs]) (\<lambda>a.
     gbind (call_layer (Dropout dropout_rate) [a]) (\<lambda>a.
     gbind (call_layer Add [inputs, a]) (\<lambda>a.
     gbind (call_layer (LayerNormalization ln_eps) [a]) (\<lambda>a.
     gbind (call_layer (Dense ff_dim ReluAct) [a]) (\<lambda>f.
     gbind (call_layer (Dropout dropout_rate) [f]) (\<lambda>f.
     gbind (call_layer (Dense (last (snd inputs)) Linear) [f]) (\<lambda>f.
     gbind (call_layer Add [a, f]) (\<lambda>f.
     call_layer (LayerNormalization ln_eps) [f]))))))))"

definition additive_attention :: "sym \<Rightarrow> sym \<Rightarrow> sym \<Rightarrow> sym builder" where
  "additive_attention query key value =
     gbind (call_layer Concatenate [query, key]) (\<lambda>qk.
     gbind (call_layer (Dense 32 TanhAct) [qk]) (\<lambda>score.
     gbind (call_layer (Dense 1 SoftmaxAct) [score]) (\<lambda>attention_weights.
     call_layer Multiply [attention_weights, value])))"

text \<open>
  The hyperparameters \<open>build_model\<close> reads from \<open>self\<close>, and the compiled model: the graph,
  its input and output tensors and the \<open>compile\<close> arguments.
\<close>

record net_config =
  lstm_units :: nat
  num_heads :: nat
  ff_dim :: nat
  dropout_rate :: real

datatype loss_fn = CategoricalCrossentropy

record compiled_model =
  graph :: graph
  inputs :: sym
  outputs :: sym
  learning_rate :: real
  loss :: loss_fn

definition build_layers :: "'c net_config_scheme \<Rightarrow> shape \<Rightarrow> nat \<Rightarrow> (sym \<times> sym) builder" where
  "build_layers cfg input_shape num_classes =
     gbind (call_layer (Input input_shape) []) (\<lambda>inputs.
     gbind (call_layer (LSTM (lstm_units cfg) True) [inputs]) (\<lambda>x.
     gbind (transformer_block (num_heads cfg) (dropout_rate cfg) (ff_dim cfg) x) (\<lambda>transformer_output.
     gbind (call_layer (Dense (lstm_units cfg) Linear) [transformer_output]) (\<lambda>query.
     gbind (call_layer (Dense (lstm_units cfg) Linear) [transformer_output]) (\<lambda>key.
     gbind (additive_attention query key transformer_output) (\<lambda>attention_output.
     gbind (call_layer (LSTM (lstm_units cfg) False) [attention_output]) (\<lambda>x.
     gbind (call_layer (Dense 128 ReluAct) [x]) (\<lambda>x.
     gbind (call_layer (Dropout (dropout_rate cfg)) [x]) (\<lambda>x.
     gbind (call_layer (Dense num_classes SoftmaxAct) [x]) (\<lambda>x.
     (\<lambda>G. Inr ((inputs, x), G))))))))))))"

definition build_model :: "'c net_config_scheme \<Rightarrow> shape \<Rightarrow> nat \<Rightarrow> compiled_model result" where
  "build_model cfg input_shape num_classes =
     rbind (build_layers cfg input_shape num_classes []) (\<lambda>((i, x), G).
       Inr \<lparr>graph = G, inputs = i, outputs = x, learning_rate = 1 / 1000,
            loss = CategoricalCrossentropy\<rparr>)"

section \<open>Well-formed graphs\<close>

text \<open>Every node reads only nodes created before it: the graph is acyclic and its list order
  is a topological order.\<close>

fun wf_nodes :: "nat \<Rightarrow> graph \<Rightarrow> bool" where
  "wf_nodes n [] = True"
| "wf_nodes n ((l, ins) # G) = (list_all (\<lambda>j. j < n) ins \<and> wf_nodes (Suc n) G)"

definition wf_graph :: "graph \<Rightarrow> bool" where
  "wf_graph G = wf_nodes 0 G"

section \<open>Numeric meaning of the attention head\<close>

text \<open>
  A Dense layer with \<open>u\<close> units applied to one vector, Keras' activations (softmax on the
  last axis), and Keras' broadcasting \<open>Multiply\<close> of a one-unit weight with a vector. The
  additive attention of \<open>additive_attention\<close> evaluated on one sample, a sequence of
  time steps: the score network on the concatenation of query and key, the one-unit
  softmax weight per step, and the product with the value.
\<close>

definition softmax :: "vec \<Rightarrow> vec" where
  "softmax zs = map (\<lambda>z. exp z / sum_list (map exp zs)) zs"

definition activate :: "activation \<Rightarrow> vec \<Rightarrow> vec" where
  "activate a v =
     (case a of Linear \<Rightarrow> v | ReluAct \<Rightarrow> map relu v | TanhAct \<Rightarrow> map tanh v
      | SoftmaxAct \<Rightarrow> softmax v)"

record dense_params =
  kernel :: matrix
  bias :: vec

definition dense_eval :: "nat \<Rightarrow> activation \<Rightarrow> dense_params \<Rightarrow> vec \<Rightarrow> vec" where
  "dense_eval u a P x = activate a (map (\<lambda>j. dot x (col (kernel P) j) + bias P ! j) [0..<u])"

definition bcast_mul :: "vec \<Rightarrow> vec \<Rightarrow> vec" where
  "bcast_mul w v = (if length w = 1 then map (\<lambda>x. w ! 0 * x) v else map2 (*) w v)"

definition additive_attention_eval ::
  "dense_params \<Rightarrow> dense_params \<Rightarrow> vec list \<Rightarrow> vec list \<Rightarrow> vec list \<Rightarrow> vec list" where
  "additive_attention_eval score_p weight_p query key value =
     (let score = map (dense_eval 32 TanhAct score_p) (map2 (@) query key);
          attention_weights = map (dense_eval 1 SoftmaxAct weight_p) score
      in map2 bcast_mul attention_weights value)"

section \<open>Builder lemmas\<close>

lemma gbind_Inr_iff:
  "gbind m f G = Inr r \<longleftrightarrow> (\<exists>x G'. m G = Inr (x, G') \<and> f x G' = Inr r)"
  by (auto simp: gbind_def rbind_eq_Inr_iff)

lemma call_layer_Inr_iff:
  "call_layer l xs G = Inr r \<longleftrightarrow>
     \<not> bad_layer_args l \<and>
     (\<exists>s. layer_out_shape l (map snd xs) = Inr s \<and> r = ((length G, s), G @ [(l, map fst xs)]))"
  by (auto simp: call_layer_def rbind_eq_Inr_iff)

lemma gbind_call_layer:
  "\<not> bad_layer_args l \<Longrightarrow> layer_out_shape l (map snd xs) = Inr s \<Longrightarrow>
   gbind (call_layer l xs) f G = f (length G, s) (G @ [(l, map fst xs)])"
  by (simp add: gbind_def call_layer_def)

lemma transformer_block_eq:
  "0 < d \<Longrightarrow> 0 < ff \<Longrightarrow> 0 \<le> r \<Longrightarrow> r \<le> 1 \<Longrightarrow>
   transformer_block h r ff (i, [t, d]) G =
     Inr ((length G + 8, [t, d]),
          G @ [(MultiHeadAttention h d, [i, i]), (Dropout r, [length G]),
               (Add, [i, length G + 1]), (LayerNormalization ln_eps, [length G + 2]),
               (Dense ff ReluAct, [length G + 3]), (Dropout r, [length G + 4]),
               (Dense d Linear, [length G + 5]), (Add, [length G + 3, length G + 6]),
               (LayerNormalization ln_eps, [length G + 7])])"
  by (simp add: transformer_block_def gbind_def call_layer_def layer_out_shape_def)

lemma additive_attention_eq:
  "additive_attention (iq, [t, u]) (ik, [t, u]) (iv, [t, u]) G =
     Inr ((length G + 3, [t, u]),
          G @ [(Concatenate, [iq, ik]), (Dense 32 TanhAct, [length G]),
               (Dense 1 SoftmaxAct, [length G + 1]), (Multiply, [length G + 2, iv])])"
  by (simp add: additive_attention_def gbind_def call_layer_def layer_out_shape_def)

lemma additive_attention_weights_shape:
  "layer_out_shape (Dense 1 SoftmaxAct) [[t, 32]] = Inr [t, 1]"
  by (simp add: layer_out_shape_def)

lemma build_layers_eq:
  "0 < lstm_units cfg \<Longrightarrow> 0 < ff_dim cfg \<Longrightarrow> 0 \<le> dropout_rate cfg \<Longrightarrow> dropout_rate cfg \<le> 1 \<Longrightarrow>
   0 < nc \<Longrightarrow> build_layers cfg [t, f] nc [] =
     (let u = lstm_units cfg; h = num_heads cfg; r = dropout_rate cfg; ff = ff_dim cfg in
      Inr (((0, [t, f]), (20, [nc])),
        [(Input [t, f], []), (LSTM u True, [0]),
         (MultiHeadAttention h u, [1, 1]), (Dropout r, [2]), (Add, [1, 3]),
         (LayerNormalization ln_eps, [4]), (Dense ff ReluAct, [5]), (Dropout r, [6]),
         (Dense u Linear, [7]), (Add, [5, 8]), (LayerNormalization ln_eps, [9]),
         (Dense u Linear, [10]), (Dense u Linear, [10]),
         (Concatenate, [11, 12]), (Dense 32 TanhAct, [13]), (Dense 1 SoftmaxAct, [14]),
         (Multiply, [15, 10]),
         (LSTM u False, [16]), (Dense 128 ReluAct, [17]), (Dropout r, [18]),
         (Dense nc SoftmaxAct, [19])]))"
  by (simp add: build_layers_def Let_def transformer_block_eq additive_attention_eq
      call_layer_def layer_out_shape_def gbind_def)

lemma build_layers_bad_args:
  assumes "\<not> (0 < lstm_units cfg \<and> 0 < ff_dim cfg \<and> 0 \<le> dropout_rate cfg \<and> dropout_rate cfg \<le> 1 \<and> 0 < nc)"
  shows "build_layers cfg [t, f] nc [] = Inl BadArgument"
proof -
  consider "lstm_units cfg = 0" | "0 < lstm_units cfg" "\<not> (0 \<le> dropout_rate cfg \<and> dropout_rate cfg \<le> 1)"
    | "0 < lstm_units cfg" "0 \<le> dropout_rate cfg" "dropout_rate cfg \<le> 1" "ff_dim cfg = 0"
    | "0 < lstm_units cfg" "0 \<le> dropout_rate cfg" "dropout_rate cfg \<le> 1" "0 < ff_dim cfg" "nc = 0"
    using assms by fastforce
  then show ?thesis
  proof cases
    case 1
    then show ?thesis unfolding build_layers_def by (simp add: gbind_def call_layer_def layer_out_shape_def)
  next
    case 2
    then show ?thesis unfolding build_layers_def
      by (auto simp: gbind_def call_layer_def layer_out_shape_def transformer_block_def not_le)
  next
    case 3
    then show ?thesis unfolding build_layers_def
      by (simp add: gbind_def call_layer_def layer_out_shape_def transformer_block_def)
  next
    case 4
    then show ?thesis unfolding build_layers_def
      by (simp add: gbind_def call_layer_def layer_out_shape_def transformer_block_eq additive_attention_eq)
  qed
qed

lemma wf_nodes_iff:
  "wf_nodes n G \<longleftrightarrow> (\<forall>i < length G. \<forall>j \<in> set (snd (G ! i)). j < n + i)"
proof (induction G arbitrary: n)
  case Nil
  then show ?case by simp
next
  case (Cons nd G)
  obtain l ins where nd: "nd = (l, ins)" by fastforce
  have "(\<forall>i < length (nd # G). \<forall>j \<in> set (snd ((nd # G) ! i)). j < n + i) \<longleftrightarrow>
        (\<forall>j \<in> set ins. j < n) \<and> (\<forall>i < length G. \<forall>j \<in> set (snd (G ! i)). j < Suc n + i)"
    by (simp add: nd All_less_Suc2)
  with Cons.IH [of "Suc n"] show ?case by (simp add: nd list_all_iff)
qed

lemma wf_graph_iff: "wf_graph G \<longleftrightarrow> (\<forall>i < length G. \<forall>j \<in> set (snd (G ! i)). j < i)"
  by (simp add: wf_graph_def wf_nodes_iff)

lemma rank2_Inr: "rank2 f s = Inr r \<Longrightarrow> \<exists>t d. s = [t, d]"
  by (induction f s rule: rank2.induct) auto

lemma build_layers_not_rank2:
  assumes "\<forall>t f. s \<noteq> [t, f]" and "0 < lstm_units cfg"
  shows "build_layers cfg s nc [] = Inl ShapeMismatch"
proof -
  have "rank2 (\<lambda>t f. Inr [t, lstm_units cfg]) s = Inl ShapeMismatch"
    using assms by (cases "rank2 (\<lambda>t f. Inr [t, lstm_units cfg]) s")
      (auto dest: rank2_Inr elim: rank2.elims)
  then show ?thesis using assms(2)
    by (simp add: build_layers_def gbind_def call_layer_def layer_out_shape_def)
qed

section \<open>Properties of the architecture\<close>

lemma build_model_Inr:
  assumes "build_model cfg [t, f] num_classes = Inr M"
  shows "(0 < lstm_units cfg \<and> 0 < ff_dim cfg \<and> 0 \<le> dropout_rate cfg \<and> dropout_rate cfg \<le> 1 \<and>
          0 < num_classes) \<and>
         inputs M = (0, [t, f]) \<and> snd (outputs M) = [num_classes] \<and> learning_rate M = 1 / 1000 \<and>
         loss M = CategoricalCrossentropy \<and> wf_graph (graph M)"
proof (cases "0 < lstm_units cfg \<and> 0 < ff_dim cfg \<and> 0 \<le> dropout_rate cfg \<and> dropout_rate cfg \<le> 1 \<and>
              0 < num_classes")
  case True
  with assms show ?thesis
    by (auto simp: build_model_def build_layers_eq Let_def wf_graph_def)
next
  case False
  with assms show ?thesis
    by (simp add: build_model_def build_layers_bad_args)
qed

lemma build_model_bad_args:
  "\<not> (0 < lstm_units cfg \<and> 0 < ff_dim cfg \<and> 0 \<le> dropout_rate cfg \<and> dropout_rate cfg \<le> 1 \<and> 0 < num_classes) \<Longrightarrow>
   build_model cfg [t, f] num_classes = Inl BadArgument"
  by (simp add: build_model_def build_layers_bad_args)

lemma build_model_valid:
  "0 < lstm_units cfg \<Longrightarrow> 0 < ff_dim cfg \<Longrightarrow> 0 \<le> dropout_rate cfg \<Longrightarrow> dropout_rate cfg \<le> 1 \<Longrightarrow>
   0 < num_classes \<Longrightarrow> \<exists>M. build_model cfg [t, f] num_classes = Inr M"
  by (simp add: build_model_def build_layers_eq Let_def)

text \<open>
  C4. For every input shape \<open>(t, f)\<close>, \<open>build_model\<close> succeeds exactly when the
  configuration passes Keras' constructor checks (positive \<open>lstm_units\<close>, \<open>ff_dim\<close> and
  \<open>num_classes\<close>, a dropout rate in \<open>[0, 1]\<close>), and otherwise raises Keras'
  \<open>ValueError\<close>. When it succeeds, every layer call fits its inputs, the model reads a
  tensor of shape \<open>(t, f)\<close>, its output has \<open>num_classes\<close> units, it is compiled with
  learning rate 0.001 and categorical cross-entropy, and its computation graph is well
  formed.
\<close>

theorem build_model_ok:
  "((\<exists>M. build_model cfg [t, f] num_classes = Inr M) \<longleftrightarrow>
      0 < lstm_units cfg \<and> 0 < ff_dim cfg \<and> 0 \<le> dropout_rate cfg \<and> dropout_rate cfg \<le> 1 \<and> 0 < num_classes) \<and>
   (case build_model cfg [t, f] num_classes of
      Inl e \<Rightarrow> e = BadArgument
    | Inr M \<Rightarrow> inputs M = (0, [t, f]) \<and> snd (outputs M) = [num_classes] \<and> learning_rate M = 1 / 1000 \<and>
               loss M = CategoricalCrossentropy \<and> wf_graph (graph M))"
proof (cases "build_model cfg [t, f] num_classes")
  case (Inl e)
  then show ?thesis
    using build_model_valid [of cfg num_classes t f] build_model_bad_args [of cfg num_classes t f]
    by (cases "0 < lstm_units cfg \<and> 0 < ff_dim cfg \<and> 0 \<le> dropout_rate cfg \<and> dropout_rate cfg \<le> 1 \<and>
                0 < num_classes") auto
next
  case (Inr M)
  then show ?thesis using build_model_Inr [OF Inr] by auto
qed

text \<open>
  \<open>build_model\<close> fails at build time, with a shape error, for an input shape that is not
  of rank two (a time axis and a feature axis): the first LSTM needs a sequence.
\<close>

theorem build_model_rank_error:
  "\<forall>t f. input_shape \<noteq> [t, f] \<Longrightarrow> 0 < lstm_units cfg \<Longrightarrow>
   build_model cfg input_shape num_classes = Inl ShapeMismatch"
  by (simp add: build_model_def build_layers_not_rank2)

theorem build_model_rank_error_witness:
  "(\<forall>t f. [3::nat] \<noteq> [t, f]) \<and> 0 < lstm_units \<lparr>lstm_units = 64, num_heads = 4, ff_dim = 128, dropout_rate = 1 / 5\<rparr> \<and>
   build_model \<lparr>lstm_units = 64, num_heads = 4, ff_dim = 128, dropout_rate = 1 / 5\<rparr> [3] 2 =
     Inl ShapeMismatch"
proof -
  have h: "\<forall>t f. [3::nat] \<noteq> [t, f]" by simp
  have u: "0 < lstm_units \<lparr>lstm_units = 64, num_heads = 4, ff_dim = 128, dropout_rate = 1 / 5\<rparr>" by simp
  show ?thesis using h u build_model_rank_error [OF h u] by blast
qed

lemma softmax_singleton [simp]: "softmax [z] = [1]"
  by (simp add: softmax_def)

lemma dense_eval_softmax_one: "dense_eval 1 SoftmaxAct P = (\<lambda>x. [1])"
  by (simp add: dense_eval_def activate_def fun_eq_iff)

text \<open>Every weight of the attention block is the one-element vector \<open>[1]\<close>.\<close>

lemma additive_attention_eval_ones:
  "additive_attention_eval score_p weight_p query key value =
     map2 bcast_mul (replicate (min (length query) (length key)) [1]) value"
proof -
  have w: "map (dense_eval 1 SoftmaxAct weight_p) xs = replicate (length xs) [1]" for xs
    by (simp only: dense_eval_softmax_one map_replicate_const)
  show ?thesis
    by (simp only: additive_attention_eval_def Let_def w length_map length_zip)
qed

lemma bcast_mul_ones: "length value \<le> n \<Longrightarrow> map2 bcast_mul (replicate n [1]) value = value"
proof -
  assume "length value \<le> n"
  then have "map2 bcast_mul (replicate n [1]) value = map (bcast_mul [1]) value"
    by (simp add: zip_replicate1)
  also have "\<dots> = value"
    by (rule map_idI) (simp add: bcast_mul_def map_idI)
  finally show ?thesis .
qed

text \<open>
  C6. The additive attention block is the identity on its value: \<open>Dense(1,
  activation='softmax')\<close> normalises over its single unit, so every attention weight is 1
  whatever the score network computes, and \<open>Multiply\<close> returns the value unchanged.
\<close>

theorem additive_attention_identity:
  assumes "length query = length value" and "length key = length value"
  shows "additive_attention_eval score_p weight_p query key value = value"
  using assms by (simp add: additive_attention_eval_ones bcast_mul_ones)

theorem additive_attention_identity_witness:
  "length [[0::real]] = length [[5::real]] \<and> length [[0::real]] = length [[5::real]] \<and>
   additive_attention_eval \<lparr>kernel = [], bias = []\<rparr> \<lparr>kernel = [], bias = []\<rparr>
     [[0]] [[0]] [[5]] = [[5]]"
proof -
  have h: "length [[0::real]] = length [[5::real]]" by simp
  show ?thesis using additive_attention_identity [OF h h] by simp
qed

end
