(* ===== verification/Transformer.thy ===== *)
theory Transformer
  imports Network
begin

text \<open>
  The numeric meaning of \<open>transformer_block\<close> (\<open>src/model.py\<close>, lines 127-156) on one
  sample, a sequence of time steps of width \<open>d\<close>, at inference (Keras' \<open>Dropout\<close> is
  the identity outside training): Keras' \<open>MultiHeadAttention\<close> with \<open>key_dim = d\<close>
  called on \<open>(inputs, inputs)\<close> (so the key is the value), the residual \<open>Add\<close>, the
  two \<open>LayerNormalization\<close>s and the feed-forward pair of \<open>Dense\<close> layers. The weights
  of the layers are records of the model's parameters. The theory proves that the block
  keeps the shape of its input, that its output is bounded independently of the input
  (the last layer normalisation), and that it is equivariant under any reordering of the
  time steps: the attention has no positional information and no mask.
\<close>

section \<open>Layer parameters\<close>

text \<open>
  One attention head: the query, key and value projections (Keras' \<open>EinsumDense\<close>
  layers, one slice per head). The attention layer: its heads and the output projection
  that combines the concatenated heads.
\<close>

record head_params =
  q_proj :: dense_params
  k_proj :: dense_params
  v_proj :: dense_params

record mha_params =
  mha_heads :: "head_params list"
  out_proj :: dense_params

record ln_params =
  gamma :: vec
  beta :: vec

record transformer_params =
  mha :: mha_params
  ln1 :: ln_params
  ff1 :: dense_params
  ff2 :: dense_params
  ln2 :: ln_params

section \<open>Layers\<close>

text \<open>Keras' \<open>Add\<close> on two tensors of one shape.\<close>

definition vec_add :: "vec \<Rightarrow> vec \<Rightarrow> vec" where
  "vec_add x y = map2 (+) x y"

text \<open>
  Scaled dot-product attention of one head for one query: the query is scaled by
  \<open>1 / sqrt key_dim\<close>, the scores are softmax-normalised over the keys, and the
  context is the weighted sum of the values.
\<close>

definition attend :: "nat \<Rightarrow> vec \<Rightarrow> vec list \<Rightarrow> vec list \<Rightarrow> vec" where
  "attend kd q ks vs =
     (let q = map (\<lambda>x. x / sqrt (real kd)) q;
          w = softmax (map (dot q) ks)
      in map (\<lambda>j. sum_list (map2 (\<lambda>a v. a * v ! j) w vs)) [0..<kd])"

text \<open>
  \<open>MultiHeadAttention(num_heads, key_dim)(query, value)\<close>: every query step attends,
  in each head, over all steps of the value, which also serves as key.
\<close>

definition mha_row :: "nat \<Rightarrow> nat \<Rightarrow> mha_params \<Rightarrow> vec list \<Rightarrow> vec \<Rightarrow> vec" where
  "mha_row kd d P value x =
     dense_eval d Linear (out_proj P)
       (concat (map (\<lambda>H. attend kd (dense_eval kd Linear (q_proj H) x)
                            (map (dense_eval kd Linear (k_proj H)) value)
                            (map (dense_eval kd Linear (v_proj H)) value))
                  (mha_heads P)))"

definition mha_eval :: "nat \<Rightarrow> nat \<Rightarrow> mha_params \<Rightarrow> vec list \<Rightarrow> vec list \<Rightarrow> vec list" where
  "mha_eval kd d P query value = map (mha_row kd d P value) query"

text \<open>
  \<open>LayerNormalization(epsilon=1e-6)\<close> on the last axis: centre and scale each step by its
  mean and (biased) variance, then apply the learnt scale \<open>gamma\<close> and offset \<open>beta\<close>.
\<close>

definition layer_norm :: "ln_params \<Rightarrow> vec \<Rightarrow> vec" where
  "layer_norm P x =
     (let mu = mean x; var = mean (map (\<lambda>v. (v - mu)\<^sup>2) x)
      in map (\<lambda>j. (x ! j - mu) / sqrt (var + ln_eps) * gamma P ! j + beta P ! j)
           [0..<length x])"

text \<open>
  \<open>transformer_block(inputs)\<close> with \<open>d = inputs.shape[-1]\<close> and \<open>ff = self.ff_dim\<close>; the two
  \<open>Dropout\<close> calls are the identity at inference.
\<close>

definition transformer_block_eval :: "nat \<Rightarrow> nat \<Rightarrow> transformer_params \<Rightarrow> vec list \<Rightarrow> vec list" where
  "transformer_block_eval d ff P xs =
     (let attention_output = mha_eval d d (mha P) xs xs;
          attention_output = map2 vec_add xs attention_output;
          attention_output = map (layer_norm (ln1 P)) attention_output;
          ff_output = map (dense_eval ff ReluAct (ff1 P)) attention_output;
          ff_output = map (dense_eval d Linear (ff2 P)) ff_output;
          ff_output = map2 vec_add attention_output ff_output
      in map (layer_norm (ln2 P)) ff_output)"

section \<open>Lemmas\<close>

lemma zip_map_same: "zip xs (map g xs) = map (\<lambda>x. (x, g x)) xs"
  by (induction xs) auto

lemma zip_map_map_same: "zip (map f xs) (map g xs) = map (\<lambda>x. (f x, g x)) xs"
  by (induction xs) auto

lemma length_dense_eval [simp]: "length (dense_eval u a P x) = u"
  by (simp add: dense_eval_def activate_def softmax_def split: activation.splits)

lemma length_vec_add [simp]: "length (vec_add x y) = min (length x) (length y)"
  by (simp add: vec_add_def)

lemma length_layer_norm [simp]: "length (layer_norm P x) = length x"
  by (simp add: layer_norm_def Let_def)

lemma nth_layer_norm:
  "j < length x \<Longrightarrow> layer_norm P x ! j =
     (x ! j - mean x) / sqrt (mean (map (\<lambda>v. (v - mean x)\<^sup>2) x) + ln_eps) * gamma P ! j + beta P ! j"
  by (simp add: layer_norm_def Let_def)

text \<open>A block's output, one time step at a time, given the whole sequence as value.\<close>

lemma transformer_block_eval_rows:
  "transformer_block_eval d ff P xs =
     map (\<lambda>x. let a = layer_norm (ln1 P) (vec_add x (mha_row d d (mha P) xs x))
              in layer_norm (ln2 P) (vec_add a (dense_eval d Linear (ff2 P) (dense_eval ff ReluAct (ff1 P) a)))) xs"
  by (simp add: transformer_block_eval_def mha_eval_def zip_map_same zip_map_map_same Let_def)

section \<open>Reordering the time steps\<close>

lemma sum_list_map_mset: "mset V = mset V' \<Longrightarrow> sum_list (map (h :: _ \<Rightarrow> real) V) = sum_list (map h V')"
proof -
  assume "mset V = mset V'"
  then have "mset (map h V) = mset (map h V')"
    by simp
  then show ?thesis
    by (metis sum_mset_sum_list)
qed

text \<open>One head's context as a sum over the steps of the value.\<close>

lemma attend_map:
  "attend kd q (map fk V) (map fv V) =
     (let q = map (\<lambda>x. x / sqrt (real kd)) q;
          S = sum_list (map (\<lambda>v. exp (dot q (fk v))) V)
      in map (\<lambda>j. sum_list (map (\<lambda>v. exp (dot q (fk v)) / S * fv v ! j) V)) [0..<kd])"
  by (simp add: attend_def softmax_def Let_def zip_map_map_same comp_def)

lemma attend_mset:
  "mset V = mset V' \<Longrightarrow> attend kd q (map fk V) (map fv V) = attend kd q (map fk V') (map fv V')"
  by (simp add: attend_map sum_list_map_mset [of V V'])

lemma mha_row_mset: "mset V = mset V' \<Longrightarrow> mha_row kd d P V = mha_row kd d P V'"
  unfolding mha_row_def by (simp only: attend_mset [of V V'])

lemma mset_map_nth_perm:
  assumes "mset p = mset [0..<length xs]"
  shows "mset (map ((!) xs) p) = mset xs"
proof -
  have "mset (map ((!) xs) p) = image_mset ((!) xs) (mset [0..<length xs])"
    by (simp add: assms)
  also have "\<dots> = mset (map ((!) xs) [0..<length xs])"
    by (simp only: mset_map)
  finally show ?thesis
    by (simp add: map_nth)
qed

lemma perm_upt_bound: "mset p = mset [0..<n] \<Longrightarrow> i \<in> set p \<Longrightarrow> i < n"
  by (metis atLeastLessThan_iff set_mset_mset set_upt)

text \<open>
  C11. The transformer block is equivariant under every reordering of the time steps:
  permuting the steps of its input permutes the steps of its output in the same way,
  since the self-attention has neither positions nor a mask and every other layer acts on
  one step at a time.
\<close>

theorem transformer_block_eval_permute:
  assumes p: "mset p = mset [0..<length xs]"
  shows "transformer_block_eval d ff P (map ((!) xs) p) = map ((!) (transformer_block_eval d ff P xs)) p"
proof -
  have V: "mha_row d d (mha P) (map ((!) xs) p) = mha_row d d (mha P) xs"
    by (rule mha_row_mset) (rule mset_map_nth_perm [OF p])
  show ?thesis
    unfolding transformer_block_eval_rows V map_map
  proof (rule map_cong [OF refl])
    fix i
    assume "i \<in> set p"
    then have "i < length xs"
      by (rule perm_upt_bound [OF p])
    then show "((\<lambda>x. let a = layer_norm (ln1 P) (vec_add x (mha_row d d (mha P) xs x))
                 in layer_norm (ln2 P) (vec_add a (dense_eval d Linear (ff2 P) (dense_eval ff ReluAct (ff1 P) a))))
                \<circ> (!) xs) i =
               map (\<lambda>x. let a = layer_norm (ln1 P) (vec_add x (mha_row d d (mha P) xs x))
                 in layer_norm (ln2 P) (vec_add a (dense_eval d Linear (ff2 P) (dense_eval ff ReluAct (ff1 P) a)))) xs ! i"
      by (simp only: nth_map comp_apply)
  qed
qed

section \<open>Bounds\<close>

lemma ln_eps_pos: "0 < ln_eps"
  by (simp add: ln_eps_def)

lemma sq_le_sum_list:
  "j < length x \<Longrightarrow> (x ! j - c)\<^sup>2 \<le> sum_list (map (\<lambda>v. (v - c)\<^sup>2) (x :: vec))"
proof (induction x arbitrary: j)
  case Nil
  then show ?case by simp
next
  case (Cons a x)
  have "0 \<le> sum_list (map (\<lambda>v. (v - c)\<^sup>2) x)"
    by (rule sum_list_nonneg) auto
  moreover have "0 \<le> (a - c)\<^sup>2"
    by simp
  ultimately show ?case
    using Cons by (cases j) (auto intro: add_increasing)
qed

lemma abs_div_sqrt: "0 < (W::real) \<Longrightarrow> \<bar>e / sqrt W\<bar> = sqrt (e\<^sup>2 / W)"
  by (simp add: real_sqrt_divide abs_divide)

lemma layer_norm_bound:
  assumes j: "j < length x"
  shows "\<bar>layer_norm P x ! j - beta P ! j\<bar> \<le> \<bar>gamma P ! j\<bar> * sqrt (real (length x))"
proof -
  define mu where "mu = mean x"
  define V where "V = mean (map (\<lambda>v. (v - mu)\<^sup>2) x)"
  define e where "e = x ! j - mu"
  have n: "0 < real (length x)" using j by (cases x) auto
  have nV: "real (length x) * V = sum_list (map (\<lambda>v. (v - mu)\<^sup>2) x)"
    using n by (simp add: V_def mean_def)
  have V0: "0 \<le> V"
    unfolding V_def mean_def by (intro divide_nonneg_nonneg sum_list_nonneg) auto
  have pos: "0 < V + ln_eps" using V0 ln_eps_pos by linarith
  have "e\<^sup>2 \<le> real (length x) * V"
    unfolding nV e_def using j by (rule sq_le_sum_list)
  also have "\<dots> \<le> real (length x) * (V + ln_eps)"
    using n ln_eps_pos by (intro mult_left_mono) auto
  finally have "e\<^sup>2 / (V + ln_eps) \<le> real (length x)"
    using pos by (simp add: divide_le_eq)
  then have z: "\<bar>e / sqrt (V + ln_eps)\<bar> \<le> sqrt (real (length x))"
    unfolding abs_div_sqrt [OF pos] by (rule real_sqrt_le_mono)
  have "layer_norm P x ! j - beta P ! j = e / sqrt (V + ln_eps) * gamma P ! j"
    using j by (simp only: nth_layer_norm e_def V_def mu_def add_diff_cancel_right')
  then have "\<bar>layer_norm P x ! j - beta P ! j\<bar> = \<bar>e / sqrt (V + ln_eps)\<bar> * \<bar>gamma P ! j\<bar>"
    by (simp only: abs_mult)
  also have "\<dots> \<le> sqrt (real (length x)) * \<bar>gamma P ! j\<bar>"
    by (rule mult_right_mono [OF z]) simp
  finally show ?thesis
    by (simp only: mult.commute)
qed

lemma length_mha_row [simp]: "length (mha_row kd d P V x) = d"
  by (simp add: mha_row_def)

text \<open>
  C28. On a sequence of width \<open>d\<close>, every output value of the transformer block lies within
  \<open>|gamma j| * sqrt d\<close> of the final layer normalisation's offset \<open>beta j\<close>, whatever the
  input and the other weights: the normalised values have a mean square below 1.
\<close>

theorem transformer_block_eval_bounded:
  assumes m: "is_matrix d xs" and i: "i < length xs" and j: "j < d"
  shows "\<bar>transformer_block_eval d ff P xs ! i ! j - beta (ln2 P) ! j\<bar> \<le> \<bar>gamma (ln2 P) ! j\<bar> * sqrt (real d)"
proof -
  have l: "length (xs ! i) = d"
    using m i by (simp add: is_matrix_iff)
  define a where "a = layer_norm (ln1 P) (vec_add (xs ! i) (mha_row d d (mha P) xs (xs ! i)))"
  define f where "f = vec_add a (dense_eval d Linear (ff2 P) (dense_eval ff ReluAct (ff1 P) a))"
  have out: "transformer_block_eval d ff P xs ! i = layer_norm (ln2 P) f"
    using i by (simp add: transformer_block_eval_rows a_def f_def Let_def)
  have "length f = d"
    using l by (simp add: a_def f_def)
  then show ?thesis
    using layer_norm_bound [of j f] j out by simp
qed

theorem transformer_block_eval_bounded_witness:
  "is_matrix 2 [[1, 3::real]] \<and> 0 < length [[1, 3::real]] \<and> (1::nat) < 2 \<and>
   \<bar>transformer_block_eval 2 1 (\<lparr>mha = \<lparr>mha_heads = [], out_proj = \<lparr>kernel = [], bias = [0, 0]\<rparr>\<rparr>,
          ln1 = \<lparr>gamma = [1, 1], beta = [0, 0]\<rparr>, ff1 = \<lparr>kernel = [], bias = [0]\<rparr>,
          ff2 = \<lparr>kernel = [], bias = [0, 0]\<rparr>, ln2 = \<lparr>gamma = [1, 1], beta = [0, 0]\<rparr>\<rparr>) [[1, 3]] ! 0 ! 1 - beta (ln2 (\<lparr>mha = \<lparr>mha_heads = [], out_proj = \<lparr>kernel = [], bias = [0, 0]\<rparr>\<rparr>,
          ln1 = \<lparr>gamma = [1, 1], beta = [0, 0]\<rparr>, ff1 = \<lparr>kernel = [], bias = [0]\<rparr>,
          ff2 = \<lparr>kernel = [], bias = [0, 0]\<rparr>, ln2 = \<lparr>gamma = [1, 1], beta = [0, 0]\<rparr>\<rparr>)) ! 1\<bar> \<le> \<bar>gamma (ln2 (\<lparr>mha = \<lparr>mha_heads = [], out_proj = \<lparr>kernel = [], bias = [0, 0]\<rparr>\<rparr>,
          ln1 = \<lparr>gamma = [1, 1], beta = [0, 0]\<rparr>, ff1 = \<lparr>kernel = [], bias = [0]\<rparr>,
          ff2 = \<lparr>kernel = [], bias = [0, 0]\<rparr>, ln2 = \<lparr>gamma = [1, 1], beta = [0, 0]\<rparr>\<rparr>)) ! 1\<bar> * sqrt (real 2)"
proof -
  have m: "is_matrix 2 [[1, 3::real]]" by (simp add: is_matrix_def)
  have i: "0 < length [[1, 3::real]]" by simp
  have j: "(1::nat) < 2" by simp
  show ?thesis using m i j transformer_block_eval_bounded [OF m i j, of 1 "\<lparr>mha = \<lparr>mha_heads = [], out_proj = \<lparr>kernel = [], bias = [0, 0]\<rparr>\<rparr>,
          ln1 = \<lparr>gamma = [1, 1], beta = [0, 0]\<rparr>, ff1 = \<lparr>kernel = [], bias = [0]\<rparr>,
          ff2 = \<lparr>kernel = [], bias = [0, 0]\<rparr>, ln2 = \<lparr>gamma = [1, 1], beta = [0, 0]\<rparr>\<rparr>"] by simp
qed

theorem transformer_block_eval_permute_witness:
  "mset [1, 0] = mset [0..<length [[1::real], [2]]] \<and>
   transformer_block_eval 1 1 (\<lparr>mha = \<lparr>mha_heads = [], out_proj = \<lparr>kernel = [], bias = [0, 0]\<rparr>\<rparr>,
          ln1 = \<lparr>gamma = [1, 1], beta = [0, 0]\<rparr>, ff1 = \<lparr>kernel = [], bias = [0]\<rparr>,
          ff2 = \<lparr>kernel = [], bias = [0, 0]\<rparr>, ln2 = \<lparr>gamma = [1, 1], beta = [0, 0]\<rparr>\<rparr>) (map ((!) [[1], [2]]) [1, 0]) =
     map ((!) (transformer_block_eval 1 1 (\<lparr>mha = \<lparr>mha_heads = [], out_proj = \<lparr>kernel = [], bias = [0, 0]\<rparr>\<rparr>,
          ln1 = \<lparr>gamma = [1, 1], beta = [0, 0]\<rparr>, ff1 = \<lparr>kernel = [], bias = [0]\<rparr>,
          ff2 = \<lparr>kernel = [], bias = [0, 0]\<rparr>, ln2 = \<lparr>gamma = [1, 1], beta = [0, 0]\<rparr>\<rparr>) [[1], [2]])) [1, 0]"
proof -
  have p: "mset [1, 0] = mset [0..<length [[1::real], [2]]]" by (simp add: upt_rec)
  show ?thesis using p transformer_block_eval_permute [OF p, of 1 1 "\<lparr>mha = \<lparr>mha_heads = [], out_proj = \<lparr>kernel = [], bias = [0, 0]\<rparr>\<rparr>,
          ln1 = \<lparr>gamma = [1, 1], beta = [0, 0]\<rparr>, ff1 = \<lparr>kernel = [], bias = [0]\<rparr>,
          ff2 = \<lparr>kernel = [], bias = [0, 0]\<rparr>, ln2 = \<lparr>gamma = [1, 1], beta = [0, 0]\<rparr>\<rparr>"] by simp
qed

end
