(* ===== verification/Scaler.thy ===== *)
theory Scaler
  imports Prelude
begin

text \<open>
  scikit-learn's \<open>StandardScaler\<close>, the attribute \<open>self.scaler\<close> of \<open>src/model.py\<close>:
  \<open>fit_transform\<close> on the training part in \<open>fit\<close> (line 273), \<open>transform\<close> of the
  validation part (line 274) and of the inputs of \<open>predict\<close> (line 327). The fitted state
  is the per-column mean and scale (square root of the population variance, a zero scale
  replaced by 1); a scaler that was never fitted has none. \<open>transform\<close> checks, in
  scikit-learn's order, that the scaler is fitted, that the input has a sample and a
  feature (\<open>check_array\<close>) and that it has as many features as the fit saw; \<open>fit\<close>
  makes the same two \<open>check_array\<close> checks. The number of features \<open>d\<close> of an input is passed
  explicitly (\<open>X.shape[1]\<close>). scikit-learn replaces scales below ten machine epsilons
  by 1; over the reals this is the exact zero test.
\<close>

record scaler_params =
  means :: vec
  scales :: vec

type_synonym scaler = "scaler_params option"

definition var :: "vec \<Rightarrow> real" where
  "var xs = mean (map (\<lambda>x. (x - mean xs)\<^sup>2) xs)"

definition handle_zeros_in_scale :: "real \<Rightarrow> real" where
  "handle_zeros_in_scale s = (if s = 0 then 1 else s)"

definition scaler_fit :: "nat \<Rightarrow> matrix \<Rightarrow> scaler result" where
  "scaler_fit d X =
     (if X = [] then Inl EmptyInput
      else if d = 0 then Inl NoFeatures
      else Inr (Some \<lparr>means = map (\<lambda>j. mean (col X j)) [0..<d],
                      scales = map (\<lambda>j. handle_zeros_in_scale (sqrt (var (col X j)))) [0..<d]\<rparr>))"

definition scaler_transform :: "scaler \<Rightarrow> nat \<Rightarrow> matrix \<Rightarrow> matrix result" where
  "scaler_transform sc d X =
     (case sc of
        None \<Rightarrow> Inl NotFitted
      | Some P \<Rightarrow>
          if X = [] then Inl EmptyInput
          else if d = 0 then Inl NoFeatures
          else if d \<noteq> length (means P) then Inl FeatureMismatch
          else Inr (map (\<lambda>r. map (\<lambda>j. (r ! j - means P ! j) / scales P ! j) [0..<d]) X))"

definition scaler_fit_transform :: "nat \<Rightarrow> matrix \<Rightarrow> (scaler \<times> matrix) result" where
  "scaler_fit_transform d X =
     rbind (scaler_fit d X) (\<lambda>sc. rbind (scaler_transform sc d X) (\<lambda>Y. Inr (sc, Y)))"

section \<open>Lemmas\<close>

lemma handle_zeros_in_scale_nonzero: "handle_zeros_in_scale s \<noteq> 0"
  by (simp add: handle_zeros_in_scale_def)

lemma var_nonneg: "0 \<le> var xs"
  unfolding var_def mean_def by (rule divide_nonneg_nonneg, rule sum_list_nonneg) auto

lemma scaler_fit_Inr:
  "X \<noteq> [] \<Longrightarrow> 0 < d \<Longrightarrow> scaler_fit d X =
     Inr (Some \<lparr>means = map (\<lambda>j. mean (col X j)) [0..<d],
                scales = map (\<lambda>j. handle_zeros_in_scale (sqrt (var (col X j)))) [0..<d]\<rparr>)"
  by (simp add: scaler_fit_def)

lemma scaler_transform_Some:
  "X \<noteq> [] \<Longrightarrow> 0 < d \<Longrightarrow> d = length (means P) \<Longrightarrow>
   scaler_transform (Some P) d X =
     Inr (map (\<lambda>r. map (\<lambda>j. (r ! j - means P ! j) / scales P ! j) [0..<d]) X)"
  by (simp add: scaler_transform_def)

lemma scaler_transform_shape:
  "scaler_transform sc d X = Inr Y \<Longrightarrow> length Y = length X \<and> is_matrix d Y"
  by (auto simp: scaler_transform_def is_matrix_iff split: option.splits if_splits)

lemma scaler_fit_transform_eq:
  "X \<noteq> [] \<Longrightarrow> 0 < d \<Longrightarrow> \<exists>P. scaler_fit_transform d X =
     Inr (Some P, map (\<lambda>r. map (\<lambda>j. (r ! j - mean (col X j)) / scales P ! j) [0..<d]) X) \<and>
     means P = map (\<lambda>j. mean (col X j)) [0..<d] \<and>
     scales P = map (\<lambda>j. handle_zeros_in_scale (sqrt (var (col X j)))) [0..<d]"
  by (simp add: scaler_fit_transform_def scaler_fit_Inr scaler_transform_Some)

text \<open>A column standardised with its own statistics has mean 0.\<close>

lemma standardised_col_mean:
  "mean (map (\<lambda>x. (x - mean xs) / s) xs) = 0"
  by (simp add: mean_map_div mean_centered)

text \<open>... and population variance 1 unless the column is constant.\<close>

lemma standardised_col_var:
  assumes "var xs \<noteq> 0"
  shows "var (map (\<lambda>x. (x - mean xs) / handle_zeros_in_scale (sqrt (var xs))) xs) = 1"
proof -
  let ?s = "sqrt (var xs)"
  have s: "handle_zeros_in_scale ?s = ?s" "?s \<noteq> 0"
    using assms by (simp_all add: handle_zeros_in_scale_def)
  have m: "mean (map (\<lambda>x. (x - mean xs) / ?s) xs) = 0"
    by (rule standardised_col_mean)
  have sq: "?s\<^sup>2 = var xs" using var_nonneg by simp
  have "var (map (\<lambda>x. (x - mean xs) / ?s) xs) =
        mean (map (\<lambda>y. (y - 0)\<^sup>2) (map (\<lambda>x. (x - mean xs) / ?s) xs))"
    unfolding var_def [of "map (\<lambda>x. (x - mean xs) / ?s) xs"] m ..
  also have "\<dots> = mean (map (\<lambda>x. (x - mean xs)\<^sup>2 / ?s\<^sup>2) xs)"
    by (simp add: o_def power_divide)
  also have "\<dots> = var xs / ?s\<^sup>2"
    by (simp only: mean_map_div var_def)
  also have "\<dots> = 1" using sq assms by simp
  finally show ?thesis by (simp add: s)
qed

lemma scaler_fit_transform_Inr:
  "scaler_fit_transform d X = Inr (sc, Y) \<Longrightarrow> scaler_transform sc d X = Inr Y \<and> sc \<noteq> None"
  by (auto simp: scaler_fit_transform_def scaler_fit_def rbind_eq_Inr_iff split: if_splits)

lemma col_standardise:
  "j < d \<Longrightarrow> col (map (\<lambda>r. map (\<lambda>j. (r ! j - m j) / sc j) [0..<d]) X) j =
     map (\<lambda>x. (x - m j) / sc j) (col X j)"
  by (simp add: col_def)

text \<open>The fitted scaler standardises the data it was fitted on.\<close>

lemma scaler_fit_transform_standardises:
  assumes "scaler_fit_transform d X = Inr (sc, Y)"
  shows "(\<forall>j < d. mean (col Y j) = 0) \<and> (\<forall>j < d. var (col X j) \<noteq> 0 \<longrightarrow> var (col Y j) = 1)"
proof -
  from assms have ne: "X \<noteq> []" "0 < d"
    by (auto simp: scaler_fit_transform_def scaler_fit_def split: if_splits)
  from scaler_fit_transform_eq [OF ne] obtain P where
    eq: "scaler_fit_transform d X =
           Inr (Some P, map (\<lambda>r. map (\<lambda>j. (r ! j - mean (col X j)) / scales P ! j) [0..<d]) X)"
    and s: "scales P = map (\<lambda>j. handle_zeros_in_scale (sqrt (var (col X j)))) [0..<d]"
    by blast
  from eq assms have Y: "Y = map (\<lambda>r. map (\<lambda>j. (r ! j - mean (col X j)) / scales P ! j) [0..<d]) X"
    by simp
  have c: "col Y j = map (\<lambda>x. (x - mean (col X j)) / handle_zeros_in_scale (sqrt (var (col X j)))) (col X j)"
    if "j < d" for j
    using that col_standardise [of j d "\<lambda>j. mean (col X j)" "\<lambda>j. scales P ! j" X] by (simp add: Y s)
  show ?thesis
    by (simp add: c standardised_col_mean standardised_col_var)
qed

end
