(* ===== verification/Label_Encoder.thy ===== *)
theory Label_Encoder
  imports Prelude
begin

text \<open>
  scikit-learn's \<open>LabelEncoder\<close> as \<open>src/model.py\<close> uses it (\<open>self.label_encoder\<close>):
  \<open>fit_transform\<close> in \<open>fit\<close>, \<open>inverse_transform\<close> in \<open>predict\<close>, \<open>transform\<close> in
  \<open>evaluate\<close>. The fitted state is the attribute \<open>classes_\<close>, the sorted distinct labels
  (\<open>np.unique\<close>); an encoder that was never fitted has none (\<open>None\<close>). Encoding is
  \<open>np.searchsorted\<close> into \<open>classes_\<close> after the check for unseen labels; decoding is
  indexing into \<open>classes_\<close> after the check that every index is in range. Labels are of any
  linearly ordered type, as \<open>np.unique\<close> needs them comparable.
\<close>

definition np_unique :: "'a::linorder list \<Rightarrow> 'a list" where
  "np_unique ys = sort (remdups ys)"

type_synonym 'a label_encoder = "'a list option"

definition searchsorted :: "'a::linorder list \<Rightarrow> 'a \<Rightarrow> nat" where
  "searchsorted cls y = length (takeWhile (\<lambda>c. c < y) cls)"

definition le_fit :: "'a::linorder list \<Rightarrow> 'a label_encoder" where
  "le_fit ys = Some (np_unique ys)"

definition le_transform :: "'a::linorder label_encoder \<Rightarrow> 'a list \<Rightarrow> nat list result" where
  "le_transform enc ys =
     (case enc of
        None \<Rightarrow> Inl NotFitted
      | Some cls \<Rightarrow>
          if list_all (\<lambda>y. y \<in> set cls) ys then Inr (map (searchsorted cls) ys)
          else Inl UnseenLabel)"

definition le_fit_transform :: "'a::linorder list \<Rightarrow> 'a label_encoder \<times> nat list" where
  "le_fit_transform ys = (le_fit ys, map (searchsorted (np_unique ys)) ys)"

definition le_inverse_transform :: "'a label_encoder \<Rightarrow> nat list \<Rightarrow> 'a list result" where
  "le_inverse_transform enc is =
     (case enc of
        None \<Rightarrow> Inl NotFitted
      | Some cls \<Rightarrow>
          if list_all (\<lambda>i. i < length cls) is then Inr (map ((!) cls) is)
          else Inl UnseenLabel)"

section \<open>The classes\<close>

lemma set_np_unique [simp]: "set (np_unique ys) = set ys"
  by (simp add: np_unique_def)

lemma sorted_np_unique [simp]: "sorted (np_unique ys)"
  by (simp add: np_unique_def)

lemma distinct_np_unique [simp]: "distinct (np_unique ys)"
  by (simp add: np_unique_def)

lemma np_unique_set_eq: "set xs = set ys \<Longrightarrow> np_unique xs = np_unique ys"
  by (rule sorted_distinct_set_unique) simp_all

lemma np_unique_Nil [simp]: "np_unique [] = []"
  by (simp add: np_unique_def)

lemma np_unique_Nil_iff [simp]: "np_unique ys = [] \<longleftrightarrow> ys = []"
  by (metis set_empty set_np_unique)

lemma length_np_unique: "length (np_unique ys) = card (set ys)"
  by (simp add: np_unique_def length_remdups_card_conv)

section \<open>searchsorted on a sorted distinct list\<close>

lemma searchsorted_le_length: "searchsorted cls y \<le> length cls"
  by (simp add: searchsorted_def length_takeWhile_le)

lemma searchsorted_Cons:
  "searchsorted (c # cls) y = (if c < y then Suc (searchsorted cls y) else 0)"
  by (simp add: searchsorted_def)

lemma searchsorted_nth:
  "sorted cls \<Longrightarrow> distinct cls \<Longrightarrow> i < length cls \<Longrightarrow> searchsorted cls (cls ! i) = i"
proof (induction cls arbitrary: i)
  case Nil
  then show ?case by simp
next
  case (Cons c cls)
  show ?case
  proof (cases i)
    case 0
    then show ?thesis by (simp add: searchsorted_Cons)
  next
    case (Suc j)
    with Cons.prems have "c < cls ! j"
      by (auto simp: nth_mem order.strict_iff_order)
    with Cons.IH [of j] Cons.prems Suc show ?thesis
      by (simp add: searchsorted_Cons)
  qed
qed

lemma searchsorted_mem:
  assumes "sorted cls" "distinct cls" "y \<in> set cls"
  shows "searchsorted cls y < length cls \<and> cls ! searchsorted cls y = y"
proof -
  from assms(3) obtain i where i: "i < length cls" "cls ! i = y"
    by (auto simp: in_set_conv_nth)
  with searchsorted_nth [OF assms(1,2) i(1)] show ?thesis by simp
qed

lemma searchsorted_strict_mono:
  assumes "sorted cls" "distinct cls" "x \<in> set cls" "y \<in> set cls" "x < y"
  shows "searchsorted cls x < searchsorted cls y"
proof -
  let ?i = "searchsorted cls x" and ?j = "searchsorted cls y"
  from searchsorted_mem [OF assms(1,2,3)] have i: "?i < length cls" "cls ! ?i = x" by auto
  from searchsorted_mem [OF assms(1,2,4)] have j: "?j < length cls" "cls ! ?j = y" by auto
  show ?thesis
  proof (rule ccontr)
    assume "\<not> ?i < ?j"
    then have "?j \<le> ?i" by simp
    with assms(1) i(1) have "cls ! ?j \<le> cls ! ?i" by (simp add: sorted_iff_nth_mono)
    with i(2) j(2) assms(5) show False by simp
  qed
qed

lemmas classes_facts = sorted_np_unique distinct_np_unique set_np_unique

section \<open>Encoding and decoding\<close>

lemma le_transform_Some:
  "le_transform (Some cls) ys =
     (if set ys \<subseteq> set cls then Inr (map (searchsorted cls) ys) else Inl UnseenLabel)"
  by (auto simp: le_transform_def list_all_iff)

lemma le_inverse_transform_Some:
  "le_inverse_transform (Some cls) is =
     (if \<forall>i \<in> set is. i < length cls then Inr (map ((!) cls) is) else Inl UnseenLabel)"
  by (simp add: le_inverse_transform_def list_all_iff)

lemma le_fit_transform_eq:
  "le_transform (le_fit ys) ys = Inr (snd (le_fit_transform ys)) \<and> fst (le_fit_transform ys) = le_fit ys"
  by (simp add: le_fit_transform_def le_fit_def le_transform_Some)

lemma le_fit_transform_codes_bound:
  "i \<in> set (snd (le_fit_transform ys)) \<Longrightarrow> i < length (np_unique ys)"
  using searchsorted_mem [OF sorted_np_unique distinct_np_unique]
  by (auto simp: le_fit_transform_def)


text \<open>The codes of \<open>fit_transform\<close> are exactly \<open>0, ..., k - 1\<close> for \<open>k\<close> classes.\<close>

lemma set_codes: "set (snd (le_fit_transform ys)) = {0..<length (np_unique ys)}"
proof
  show "set (snd (le_fit_transform ys)) \<subseteq> {0..<length (np_unique ys)}"
    using le_fit_transform_codes_bound by auto
next
  show "{0..<length (np_unique ys)} \<subseteq> set (snd (le_fit_transform ys))"
  proof
    fix i assume "i \<in> {0..<length (np_unique ys)}"
    then have i: "i < length (np_unique ys)" by simp
    then have "np_unique ys ! i \<in> set ys" using nth_mem by fastforce
    moreover have "searchsorted (np_unique ys) (np_unique ys ! i) = i"
      using i by (simp add: searchsorted_nth)
    ultimately show "i \<in> set (snd (le_fit_transform ys))"
      by (force simp: le_fit_transform_def)
  qed
qed

lemma np_unique_codes: "np_unique (snd (le_fit_transform ys)) = [0..<length (np_unique ys)]"
  by (rule sorted_distinct_set_unique) (simp_all add: set_codes)

section \<open>Refinement of the rank encoding\<close>

text \<open>
  The abstract encoding: a label's code is its rank among the classes seen at fit time,
  the number of classes below it.
\<close>

lemma sorted_takeWhile_less:
  "sorted xs \<Longrightarrow> takeWhile (\<lambda>c. c < v) xs = filter (\<lambda>c. c < v) xs"
proof (induction xs)
  case Nil
  then show ?case by simp
next
  case (Cons x xs)
  show ?case
  proof (cases "x < v")
    case True
    then show ?thesis using Cons by simp
  next
    case False
    then have "\<forall>c \<in> set xs. \<not> c < v"
      using Cons.prems by (auto dest: order.trans [rotated])
    with False show ?thesis by simp
  qed
qed

lemma searchsorted_np_unique: "searchsorted (np_unique ys) v = card {x \<in> set ys. x < v}"
proof -
  have "searchsorted (np_unique ys) v = length (filter (\<lambda>c. c < v) (np_unique ys))"
    by (simp add: searchsorted_def sorted_takeWhile_less)
  also have "\<dots> = card (set (filter (\<lambda>c. c < v) (np_unique ys)))"
    by (intro distinct_card [symmetric] distinct_filter distinct_np_unique)
  also have "\<dots> = card {x \<in> set ys. x < v}"
    by (rule arg_cong [where f = card]) auto
  finally show ?thesis .
qed

end
