(* ===== verification/Resampling.thy ===== *)
theory Resampling
  imports Label_Encoder
begin

text \<open>
  The two library calls of \<open>fit\<close> (\<open>src/model.py\<close>, lines 258-270) that reorder samples:
  imbalanced-learn's \<open>RandomOverSampler(random_state=42).fit_resample\<close> and
  scikit-learn's \<open>train_test_split(..., test_size=validation_split, random_state=42,
  shuffle=True)\<close>. Both are re-seeded with 42 on every call, so their random choices are a
  fixed function of the input sizes: the oversampler's \<open>k\<close>-th draw of an index below
  \<open>n\<close> is \<open>ch k n\<close>, the split's shuffle of \<open>n\<close> samples is \<open>perm n\<close>. The
  oversampler follows imbalanced-learn's default strategy ("not majority"): the class
  counts in sorted class order, the first class of maximal count is the majority, every
  other class gets \<open>n_max - count\<close> bootstrap copies of its own samples, drawn class by
  class and appended after the original samples. The split takes
  \<open>n_test = ceil(test_size * n)\<close> shuffled samples for the test part and the next
  \<open>n - n_test\<close> for the training part, after scikit-learn's checks.
\<close>

type_synonym choice = "nat \<Rightarrow> nat \<Rightarrow> nat"

definition list_max :: "nat list \<Rightarrow> nat" where
  "list_max xs = foldr max xs 0"

text \<open>\<open>_count_class_sample\<close>: the classes in sorted order with their counts.\<close>

definition class_counts :: "nat list \<Rightarrow> (nat \<times> nat) list" where
  "class_counts y = map (\<lambda>c. (c, count_list y c)) (np_unique y)"

text \<open>\<open>max(target_stats, key=target_stats.get)\<close>: the first class of maximal count.\<close>

definition class_majority :: "nat list \<Rightarrow> nat" where
  "class_majority y =
     (let st = class_counts y; m = list_max (map snd st)
      in fst (hd (filter (\<lambda>cn. snd cn = m) st)))"

definition sampling_strategy :: "nat list \<Rightarrow> (nat \<times> nat) list" where
  "sampling_strategy y =
     (let st = class_counts y; m = list_max (map snd st)
      in map (\<lambda>cn. (fst cn, m - snd cn)) (filter (\<lambda>cn. fst cn \<noteq> class_majority y) st))"

text \<open>\<open>np.flatnonzero(y == c)\<close>.\<close>

definition flatnonzero :: "nat list \<Rightarrow> nat \<Rightarrow> nat list" where
  "flatnonzero y c = filter (\<lambda>i. y ! i = c) [0..<length y]"

text \<open>\<open>random_state.choice(idxs, size=num, replace=True)\<close> from draw \<open>k\<close> on.\<close>

fun ros_draws :: "choice \<Rightarrow> nat \<Rightarrow> nat list \<Rightarrow> nat \<Rightarrow> nat list" where
  "ros_draws ch k idxs 0 = []"
| "ros_draws ch k idxs (Suc n) = idxs ! ch k (length idxs) # ros_draws ch (Suc k) idxs n"

fun ros_loop :: "choice \<Rightarrow> nat \<Rightarrow> nat list \<Rightarrow> (nat \<times> nat) list \<Rightarrow> nat list" where
  "ros_loop ch k y [] = []"
| "ros_loop ch k y ((c, num) # rest) =
     ros_draws ch k (flatnonzero y c) num @ ros_loop ch (k + num) y rest"

text \<open>
  \<open>fit_resample\<close>: scikit-learn's \<open>check_X_y\<close> (at least one sample, at least one
  feature, as many labels as samples), then \<open>check_sampling_strategy\<close> (more than one
  class), then the draws.
\<close>

definition ros_fit_resample :: "choice \<Rightarrow> 'a list list \<Rightarrow> nat list \<Rightarrow> ('a list list \<times> nat list) result" where
  "ros_fit_resample ch X y =
     (if X = [] then Inl EmptyInput
      else if hd X = [] then Inl NoFeatures
      else if length X \<noteq> length y then Inl LengthMismatch
      else if length (np_unique y) \<le> 1 then Inl SingleClass
      else let sample_indices = [0..<length y] @ ros_loop ch 0 y (sampling_strategy y)
           in Inr (map ((!) X) sample_indices, map ((!) y) sample_indices))"

type_synonym permutation = "nat \<Rightarrow> nat list"

definition n_test_of :: "real \<Rightarrow> nat \<Rightarrow> nat" where
  "n_test_of test_size n = nat \<lceil>test_size * real n\<rceil>"

definition train_test_split ::
  "permutation \<Rightarrow> real \<Rightarrow> 'x list \<Rightarrow> 'y list \<Rightarrow> ('x list \<times> 'x list \<times> 'y list \<times> 'y list) result" where
  "train_test_split perm test_size X y =
     (if length X \<noteq> length y then Inl LengthMismatch
      else if test_size \<le> 0 \<or> 1 \<le> test_size then Inl BadSplit
      else let n = length y; n_test = n_test_of test_size n; n_train = n - n_test in
        if n_train = 0 then Inl BadSplit
        else let p = perm n; test = take n_test p; train = take n_train (drop n_test p)
             in Inr (map ((!) X) train, map ((!) X) test, map ((!) y) train, map ((!) y) test))"

text \<open>The seeded generators' contracts: draws are in range, shuffles are permutations.\<close>

definition choice_ok :: "choice \<Rightarrow> bool" where
  "choice_ok ch \<longleftrightarrow> (\<forall>k n. 0 < n \<longrightarrow> ch k n < n)"

definition permutation_ok :: "permutation \<Rightarrow> bool" where
  "permutation_ok perm \<longleftrightarrow> (\<forall>n. mset (perm n) = mset [0..<n])"

section \<open>The oversampler\<close>

lemma set_flatnonzero: "set (flatnonzero y c) = {i. i < length y \<and> y ! i = c}"
  by (auto simp: flatnonzero_def)

lemma flatnonzero_nonempty: "c \<in> set y \<Longrightarrow> flatnonzero y c \<noteq> []"
  by (auto simp: flatnonzero_def filter_empty_conv in_set_conv_nth)

lemma length_ros_draws [simp]: "length (ros_draws ch k idxs n) = n"
  by (induction n arbitrary: k) auto

lemma ros_draws_in:
  "choice_ok ch \<Longrightarrow> idxs \<noteq> [] \<Longrightarrow> set (ros_draws ch k idxs n) \<subseteq> set idxs"
  by (induction n arbitrary: k) (auto simp: choice_ok_def)

lemma labels_ros_draws:
  assumes "choice_ok ch" "c \<in> set y"
  shows "map ((!) y) (ros_draws ch k (flatnonzero y c) n) = replicate n c"
proof -
  have "\<forall>i \<in> set (ros_draws ch k (flatnonzero y c) n). y ! i = c"
    using ros_draws_in [OF assms(1) flatnonzero_nonempty [OF assms(2)]]
    by (auto simp: set_flatnonzero)
  then have "map ((!) y) (ros_draws ch k (flatnonzero y c) n) =
             map (\<lambda>_. c) (ros_draws ch k (flatnonzero y c) n)"
    by (intro map_cong) auto
  then show ?thesis by (simp add: map_replicate_const)
qed

lemma ros_draws_bound:
  assumes "choice_ok ch" "c \<in> set y"
  shows "\<forall>i \<in> set (ros_draws ch k (flatnonzero y c) n). i < length y"
proof -
  have "set (ros_draws ch k (flatnonzero y c) n) \<subseteq> set (flatnonzero y c)"
    using ros_draws_in [OF assms(1) flatnonzero_nonempty [OF assms(2)]] .
  then show ?thesis by (auto simp: set_flatnonzero)
qed

lemma ros_loop_bound:
  "choice_ok ch \<Longrightarrow> \<forall>cn \<in> set st. fst cn \<in> set y \<Longrightarrow>
   \<forall>i \<in> set (ros_loop ch k y st). i < length y"
  by (induction ch k y st rule: ros_loop.induct) (auto dest: ros_draws_bound)

lemma count_ros_loop:
  "choice_ok ch \<Longrightarrow> \<forall>cn \<in> set st. fst cn \<in> set y \<Longrightarrow>
   count_list (map ((!) y) (ros_loop ch k y st)) c =
     sum_list (map snd (filter (\<lambda>cn. fst cn = c) st))"
  by (induction ch k y st rule: ros_loop.induct) (auto simp: labels_ros_draws)

lemma list_max_ge: "x \<in> set xs \<Longrightarrow> x \<le> list_max xs"
  by (induction xs) (auto simp: list_max_def)

lemma list_max_mem: "xs \<noteq> [] \<Longrightarrow> list_max xs \<in> set xs"
proof (induction xs)
  case (Cons a xs)
  show ?case
  proof (cases "xs = []")
    case False
    with Cons.IH show ?thesis by (auto simp: list_max_def max_def)
  qed (simp add: list_max_def)
qed simp

lemma class_counts_count:
  "c \<in> set y \<Longrightarrow> count_list y c \<le> list_max (map snd (class_counts y))"
  by (rule list_max_ge) (auto simp: class_counts_def)

lemma class_majority_props:
  assumes "y \<noteq> []"
  shows "class_majority y \<in> set y \<and>
         count_list y (class_majority y) = list_max (map snd (class_counts y))"
proof -
  define F where "F = filter (\<lambda>cn. snd cn = list_max (map snd (class_counts y))) (class_counts y)"
  have "list_max (map snd (class_counts y)) \<in> set (map snd (class_counts y))"
    using assms by (intro list_max_mem) (simp add: class_counts_def)
  then have "F \<noteq> []"
    by (force simp: filter_empty_conv F_def)
  then have "hd F \<in> set F"
    by (rule hd_in_set)
  then have "fst (hd F) \<in> set y \<and> count_list y (fst (hd F)) = list_max (map snd (class_counts y))"
    by (auto simp: F_def class_counts_def)
  then show ?thesis
    by (simp add: class_majority_def Let_def F_def)
qed

lemma strategy_classes: "\<forall>cn \<in> set (sampling_strategy y). fst cn \<in> set y"
  by (auto simp: sampling_strategy_def class_counts_def Let_def)

lemma sum_filter_strategy:
  "distinct us \<Longrightarrow>
   sum_list (map snd (filter (\<lambda>cn. fst cn = c)
     (map (\<lambda>cn. (fst cn, m - snd cn)) (filter (\<lambda>cn. fst cn \<noteq> a) (map (\<lambda>c. (c, f c)) us))))) =
   (if c \<in> set us \<and> c \<noteq> a then m - f c else (0::nat))"
proof (induction us)
  case (Cons u us)
  then show ?case by (cases "u = c") auto
qed simp

lemma strategy_count:
  "c \<in> set y \<Longrightarrow> sum_list (map snd (filter (\<lambda>cn. fst cn = c) (sampling_strategy y))) =
     (if c = class_majority y then 0
      else list_max (map snd (class_counts y)) - count_list y c)"
  using sum_filter_strategy [OF distinct_np_unique [of y], of c "list_max (map snd (class_counts y))"
      "class_majority y" "count_list y"]
  by (simp add: sampling_strategy_def class_counts_def Let_def)

lemma map_nth_upt_append:
  "map ((!) xs) ([0..<length xs] @ L) = xs @ map ((!) xs) L"
  by (simp add: map_nth)

lemma ros_fit_resample_eq:
  assumes "ros_fit_resample ch X y = Inr (X', y')"
  shows "X \<noteq> [] \<and> hd X \<noteq> [] \<and> length X = length y \<and> 1 < length (np_unique y) \<and>
         X' = X @ map ((!) X) (ros_loop ch 0 y (sampling_strategy y)) \<and>
         y' = y @ map ((!) y) (ros_loop ch 0 y (sampling_strategy y))"
proof -
  have ne: "X \<noteq> []" "hd X \<noteq> []" and l: "length X = length y" and u: "1 < length (np_unique y)"
    using assms by (auto simp: ros_fit_resample_def split: if_splits)
  have "map ((!) X) [0..<length y] = X" using l by (metis map_nth)
  with assms ne l u show ?thesis
    by (auto simp: ros_fit_resample_def Let_def map_nth)
qed

text \<open>The oversampler's result: the original samples first, then copies of original
  samples with their labels, every class as frequent as the majority class.\<close>

lemma ros_fit_resample_balanced:
  assumes ch: "choice_ok ch" and r: "ros_fit_resample ch X y = Inr (X', y')"
  shows "length X' = length y' \<and> take (length y) y' = y \<and> take (length X) X' = X \<and>
         set y' = set y \<and>
         (\<forall>c \<in> set y. count_list y' c = list_max (map snd (class_counts y))) \<and>
         (\<forall>i < length y'. \<exists>j < length y. X' ! i = X ! j \<and> y' ! i = y ! j)"
proof -
  define L where "L = ros_loop ch 0 y (sampling_strategy y)"
  from ros_fit_resample_eq [OF r] have l: "length X = length y" and u: "1 < length (np_unique y)"
    and X': "X' = X @ map ((!) X) L" and y': "y' = y @ map ((!) y) L"
    by (simp_all add: L_def)
  have ne: "y \<noteq> []" using u by (cases y) auto
  have bnd: "\<forall>i \<in> set L. i < length y"
    unfolding L_def by (rule ros_loop_bound [OF ch strategy_classes])
  have cnt: "count_list y' c = list_max (map snd (class_counts y))" if c: "c \<in> set y" for c
  proof -
    have "count_list y' c = count_list y c +
            sum_list (map snd (filter (\<lambda>cn. fst cn = c) (sampling_strategy y)))"
      by (simp add: y' L_def count_ros_loop [OF ch strategy_classes])
    also have "\<dots> = list_max (map snd (class_counts y))"
      using strategy_count [OF c] class_counts_count [OF c] class_majority_props [OF ne]
      by auto
    finally show ?thesis .
  qed
  have "set (map ((!) y) L) \<subseteq> set y" using bnd by auto
  then have set: "set y' = set y" by (auto simp: y')
  have pairs: "\<exists>j < length y. X' ! i = X ! j \<and> y' ! i = y ! j" if i: "i < length y'" for i
  proof (cases "i < length y")
    case True
    then show ?thesis using l by (auto simp: X' y' nth_append)
  next
    case False
    with i have k: "i - length y < length L" by (simp add: y')
    then have "L ! (i - length y) < length y" using bnd by simp
    with False k show ?thesis using l
      by (auto simp: X' y' nth_append)
  qed
  show ?thesis using l set cnt pairs by (simp add: X' y')
qed

section \<open>The split\<close>

lemma train_test_split_eq:
  assumes "train_test_split perm ts X y = Inr (Xtr, Xte, ytr, yte)"
  defines "n \<equiv> length y"
  defines "nt \<equiv> n_test_of ts n"
  shows "length X = n \<and> 0 < ts \<and> ts < 1 \<and> nt < n \<and>
         Xtr = map ((!) X) (take (n - nt) (drop nt (perm n))) \<and>
         Xte = map ((!) X) (take nt (perm n)) \<and>
         ytr = map ((!) y) (take (n - nt) (drop nt (perm n))) \<and>
         yte = map ((!) y) (take nt (perm n))"
  using assms by (auto simp: train_test_split_def Let_def split: if_splits)

lemma mset_zip_map_nth:
  "mset (zip (map ((!) X) I) (map ((!) y) I)) = image_mset (\<lambda>i. (X ! i, y ! i)) (mset I)"
  by (induction I) auto

lemma train_test_split_partition:
  assumes p: "permutation_ok perm"
    and r: "train_test_split perm ts X y = Inr (Xtr, Xte, ytr, yte)"
  shows "length Xtr = length ytr \<and> length Xte = length yte \<and>
         length yte = n_test_of ts (length y) \<and>
         length ytr = length y - n_test_of ts (length y) \<and> 0 < length ytr \<and> 0 < length yte \<and>
         mset (zip Xtr ytr) + mset (zip Xte yte) = mset (zip X y)"
proof -
  let ?n = "length y" let ?nt = "n_test_of ts ?n" let ?p = "perm ?n"
  note eq = train_test_split_eq [OF r]
  have lp: "length ?p = ?n" using p by (metis permutation_ok_def size_mset length_upt minus_nat.diff_0)
  have "0 < ?n" using eq by auto
  then have "0 < ts * real ?n" using eq by simp
  then have pos: "0 < ?nt" by (simp add: n_test_of_def)
  have split: "take ?nt ?p @ take (?n - ?nt) (drop ?nt ?p) = ?p"
    using lp by simp
  have "mset (zip Xtr ytr) + mset (zip Xte yte) =
        image_mset (\<lambda>i. (X ! i, y ! i)) (mset (take ?nt ?p @ take (?n - ?nt) (drop ?nt ?p)))"
    using eq by (simp add: mset_zip_map_nth add.commute)
  also have "\<dots> = image_mset (\<lambda>i. (X ! i, y ! i)) (mset [0..<?n])"
    using p by (simp only: split permutation_ok_def)
  also have "\<dots> = mset (zip X y)"
  proof -
    have "map ((!) X) [0..<?n] = X" using eq by (metis map_nth)
    then show ?thesis using mset_zip_map_nth [of X "[0..<?n]" y] by (simp add: map_nth)
  qed
  finally have m: "mset (zip Xtr ytr) + mset (zip Xte yte) = mset (zip X y)" .
  show ?thesis using eq lp pos m by (simp add: min_def)
qed

lemma train_test_split_labels:
  assumes "permutation_ok perm" and "train_test_split perm ts X y = Inr (Xtr, Xte, ytr, yte)"
  shows "set ytr \<subseteq> set y \<and> set yte \<subseteq> set y"
proof -
  note part = train_test_split_partition [OF assms]
  have l: "length X = length y" using train_test_split_eq [OF assms(2)] by simp
  have sub: "set (zip Xtr ytr) \<subseteq> set (zip X y)" "set (zip Xte yte) \<subseteq> set (zip X y)"
    using part by (metis Un_iff set_mset_mset set_mset_union subsetI)+
  have "set ytr = snd ` set (zip Xtr ytr)" "set yte = snd ` set (zip Xte yte)"
    "set y = snd ` set (zip X y)"
    using part l by (metis map_snd_zip set_map)+
  with sub show ?thesis by blast
qed

lemma train_test_split_counts:
  assumes "permutation_ok perm" and "train_test_split perm ts X y = Inr (Xtr, Xte, ytr, yte)"
  shows "count_list ytr c + count_list yte c = count_list y c"
proof -
  note part = train_test_split_partition [OF assms]
  have l: "length X = length y" using train_test_split_eq [OF assms(2)] by simp
  from part have "mset (zip Xtr ytr) + mset (zip Xte yte) = mset (zip X y)" by simp
  then have "mset (map snd (zip Xtr ytr)) + mset (map snd (zip Xte yte)) = mset (map snd (zip X y))"
    by (metis image_mset_union mset_map)
  then have "mset ytr + mset yte = mset y"
    using part l by (simp add: map_snd_zip)
  then show ?thesis
    by (metis count_mset count_union)
qed

lemma count_two_classes:
  "set ys \<subseteq> {0, 1} \<Longrightarrow> count_list ys (0::nat) + count_list ys 1 = length ys"
  by (induction ys) auto

end
