(* ===== verification/PCA.thy ===== *)
theory PCA
  imports Prelude
begin

text \<open>
  Dimensionality reduction: scikit-learn's \<open>PCA\<close> and
  \<open>HybridLSTMTransformerModel.apply_pca\<close> (\<open>src/model.py\<close>, lines 65-87), which assigns a
  new unfitted \<open>PCA(n_components, random_state)\<close> to \<open>self.pca\<close>, fits it on the training
  part and projects both parts. The principal axes come from a singular value
  decomposition, which the model takes as a parameter \<open>svd\<close> (the \<open>k\<close> axes of centred
  data with \<open>d\<close> features); everything else is explicit: the check of
  \<open>n_components\<close> against \<open>min(n_samples, n_features)\<close>, centring by the training means,
  and projection onto the axes. Because \<open>self.pca\<close> is assigned before the fit, a fit that
  raises leaves an unfitted PCA in the attribute; \<open>apply_pca\<close> returns the attribute's new
  value with its result. The theory proves that the projected training part is centred.
\<close>

record pca_params =
  pca_mean :: vec
  components :: matrix

datatype pca_obj = PCA_unfit nat | PCA_fitted nat pca_params

type_synonym pca_solver = "nat \<Rightarrow> nat \<Rightarrow> matrix \<Rightarrow> matrix"

definition centre :: "vec \<Rightarrow> matrix \<Rightarrow> matrix" where
  "centre mu X = map (\<lambda>r. map2 (-) r mu) X"

definition pca_fit :: "pca_solver \<Rightarrow> nat \<Rightarrow> nat \<Rightarrow> matrix \<Rightarrow> pca_params result" where
  "pca_fit svd k d X =
     (if X = [] then Inl EmptyInput
      else if d = 0 then Inl NoFeatures
      else if min (length X) d < k then Inl BadNComponents
      else let mu = map (\<lambda>j. mean (col X j)) [0..<d]
           in Inr \<lparr>pca_mean = mu, components = svd k d (centre mu X)\<rparr>)"

definition pca_project :: "pca_params \<Rightarrow> matrix \<Rightarrow> matrix" where
  "pca_project P X = map (\<lambda>r. map (dot (map2 (-) r (pca_mean P))) (components P)) X"

definition pca_transform :: "pca_obj \<Rightarrow> nat \<Rightarrow> matrix \<Rightarrow> matrix result" where
  "pca_transform obj d X =
     (case obj of
        PCA_unfit k \<Rightarrow> Inl NotFitted
      | PCA_fitted k P \<Rightarrow>
          if X = [] then Inl EmptyInput
          else if d = 0 then Inl NoFeatures
          else if d \<noteq> length (pca_mean P) then Inl FeatureMismatch
          else Inr (pca_project P X))"

definition pca_fit_transform :: "pca_solver \<Rightarrow> nat \<Rightarrow> nat \<Rightarrow> matrix \<Rightarrow> (pca_obj \<times> matrix) result" where
  "pca_fit_transform svd k d X = rbind (pca_fit svd k d X) (\<lambda>P. Inr (PCA_fitted k P, pca_project P X))"

text \<open>
  \<open>apply_pca\<close>: the result and the new value of \<open>self.pca\<close>. The fitted attribute is
  written even when the projection of the test part fails.
\<close>

definition apply_pca ::
  "pca_solver \<Rightarrow> nat \<Rightarrow> nat \<Rightarrow> matrix \<Rightarrow> matrix \<Rightarrow> (matrix \<times> matrix) result \<times> pca_obj" where
  "apply_pca svd n_components d X_train X_test =
     (let pca = PCA_unfit n_components in
      case pca_fit_transform svd n_components d X_train of
        Inl e \<Rightarrow> (Inl e, pca)
      | Inr (pca, X_train_pca) \<Rightarrow>
          (case pca_transform pca d X_test of
             Inl e \<Rightarrow> (Inl e, pca)
           | Inr X_test_pca \<Rightarrow> (Inr (X_train_pca, X_test_pca), pca)))"

text \<open>The solver's contract: \<open>k\<close> axes, each with \<open>d\<close> coordinates.\<close>

definition pca_solver_ok :: "pca_solver \<Rightarrow> bool" where
  "pca_solver_ok svd \<longleftrightarrow> (\<forall>k d Xc. length (svd k d Xc) = k \<and> is_matrix d (svd k d Xc))"

section \<open>Lemmas\<close>

lemma pca_project_shape:
  "length (pca_project P X) = length X \<and> is_matrix (length (components P)) (pca_project P X)"
  by (auto simp: pca_project_def is_matrix_iff)

lemma pca_fit_Inr_iff:
  "pca_fit svd k d X = Inr P \<longleftrightarrow>
     X \<noteq> [] \<and> 0 < d \<and> k \<le> min (length X) d \<and>
     P = \<lparr>pca_mean = map (\<lambda>j. mean (col X j)) [0..<d],
          components = svd k d (centre (map (\<lambda>j. mean (col X j)) [0..<d]) X)\<rparr>"
  by (auto simp: pca_fit_def Let_def)

lemma pca_fit_error:
  "X \<noteq> [] \<Longrightarrow> 0 < d \<Longrightarrow> min (length X) d < k \<Longrightarrow> pca_fit svd k d X = Inl BadNComponents"
  by (simp add: pca_fit_def)

lemma apply_pca_Inr:
  assumes "pca_fit svd k d X_train = Inr P" and "X_test \<noteq> []"
  shows "apply_pca svd k d X_train X_test =
           (Inr (pca_project P X_train, pca_project P X_test), PCA_fitted k P)"
proof -
  from assms(1) have "length (pca_mean P) = d" "0 < d" by (auto simp: pca_fit_Inr_iff)
  with assms show ?thesis
    by (simp add: apply_pca_def pca_fit_transform_def pca_transform_def)
qed

lemma apply_pca_Inr_transform:
  assumes "apply_pca svd k d A B = (Inr (A', B'), P)"
  shows "pca_transform P d A = Inr A' \<and> pca_transform P d B = Inr B' \<and> (\<exists>Q. P = PCA_fitted k Q)"
proof -
  from assms obtain Q where f: "pca_fit svd k d A = Inr Q" and P: "P = PCA_fitted k Q"
    and A': "A' = pca_project Q A" and B': "pca_transform P d B = Inr B'"
    by (auto simp: apply_pca_def pca_fit_transform_def rbind_eq_Inr_iff split: sum.splits)
  from f have "A \<noteq> []" "0 < d" "length (pca_mean Q) = d" by (auto simp: pca_fit_Inr_iff)
  with P A' B' show ?thesis by (simp add: pca_transform_def)
qed

lemma apply_pca_shape:
  assumes "pca_solver_ok svd" and "apply_pca svd k d A B = (Inr (A', B'), P)"
  shows "is_matrix k A' \<and> is_matrix k B' \<and> length A' = length A \<and> length B' = length B \<and>
         (\<exists>Q. P = PCA_fitted k Q \<and> length (components Q) = k)"
proof -
  from apply_pca_Inr_transform [OF assms(2)] obtain Q where P: "P = PCA_fitted k Q"
    and tA: "pca_transform P d A = Inr A'" and tB: "pca_transform P d B = Inr B'" by blast
  from assms(2) P have "pca_fit svd k d A = Inr Q"
    by (auto simp: apply_pca_def pca_fit_transform_def rbind_eq_Inr_iff split: sum.splits)
  then have c: "length (components Q) = k" using assms(1) by (auto simp: pca_fit_Inr_iff pca_solver_ok_def)
  from tA tB P have "A' = pca_project Q A" "B' = pca_project Q B"
    by (auto simp: pca_transform_def split: if_splits)
  with c P show ?thesis using pca_project_shape [of Q A] pca_project_shape [of Q B] by simp
qed

lemma dot_index:
  "length x = d \<Longrightarrow> length c = d \<Longrightarrow> dot x c = sum_list (map (\<lambda>i. x ! i * c ! i) [0..<d])"
proof -
  assume "length x = d" "length c = d"
  then have "map2 (*) x c = map (\<lambda>i. x ! i * c ! i) [0..<d]" by (intro nth_equalityI) auto
  then show ?thesis by (simp add: dot_def)
qed

lemma sum_list_swap:
  fixes f :: "'a \<Rightarrow> 'b \<Rightarrow> real"
  shows "sum_list (map (\<lambda>r. sum_list (map (\<lambda>i. f r i) I)) X) = sum_list (map (\<lambda>i. sum_list (map (\<lambda>r. f r i) X)) I)"
  by (induction X) (simp_all add: sum_list_addf)

text \<open>Projections of the centred data onto any axis of length \<open>d\<close> sum to zero.\<close>

lemma sum_project_centred:
  assumes "is_matrix d X" and "length c = d"
  shows "sum_list (map (\<lambda>r. dot (map2 (-) r (map (\<lambda>j. mean (col X j)) [0..<d])) c) X) = 0"
proof -
  let ?mu = "map (\<lambda>j. mean (col X j)) [0..<d]"
  have row: "dot (map2 (-) r ?mu) c = sum_list (map (\<lambda>i. (r ! i - mean (col X i)) * c ! i) [0..<d])"
    if "length r = d" for r
    using that assms(2) by (auto simp: dot_index intro!: arg_cong [where f = sum_list] map_cong)
  have "sum_list (map (\<lambda>r. dot (map2 (-) r ?mu) c) X) =
        sum_list (map (\<lambda>r. sum_list (map (\<lambda>i. (r ! i - mean (col X i)) * c ! i) [0..<d])) X)"
    using assms(1) row by (intro arg_cong [where f = sum_list] map_cong refl) (simp add: is_matrix_iff)
  also have "\<dots> = sum_list (map (\<lambda>i. sum_list (map (\<lambda>r. (r ! i - mean (col X i)) * c ! i) X)) [0..<d])"
    by (rule sum_list_swap)
  also have "\<dots> = sum_list (map (\<lambda>i. sum_list (map (\<lambda>x. x - mean (col X i)) (col X i)) * c ! i) [0..<d])"
    by (simp add: col_def sum_list_mult_const o_def)
  also have "\<dots> = 0" by (simp add: sum_list_centered)
  finally show ?thesis .
qed

section \<open>Properties of apply_pca\<close>

text \<open>
  C26. What \<open>apply_pca\<close> returns for the training part is centred: for a solver meeting
  its contract, the training part is mapped to one row of \<open>n_components\<close> coordinates
  per sample, and every coordinate has mean 0 over the training part.
\<close>

theorem apply_pca_train_centred:
  assumes s: "pca_solver_ok svd" and m: "is_matrix d X_train"
    and r: "apply_pca svd k d X_train X_test = (Inr (A, B), P)"
  shows "length A = length X_train \<and> is_matrix k A \<and> (\<forall>j < k. mean (col A j) = 0)"
proof -
  from r obtain Q where f: "pca_fit svd k d X_train = Inr Q" and A: "A = pca_project Q X_train"
    by (auto simp: apply_pca_def pca_fit_transform_def rbind_eq_Inr_iff split: sum.splits)
  from f s have mu: "pca_mean Q = map (\<lambda>j. mean (col X_train j)) [0..<d]"
    and c: "length (components Q) = k" "is_matrix d (components Q)"
    by (auto simp: pca_fit_Inr_iff pca_solver_ok_def)
  have "mean (col A j) = 0" if j: "j < k" for j
  proof -
    have cj: "length (components Q ! j) = d" using c j by (simp add: is_matrix_iff)
    have "col A j = map (\<lambda>r. dot (map2 (-) r (pca_mean Q)) (components Q ! j)) X_train"
      using j c by (simp add: A pca_project_def col_def)
    then show ?thesis using sum_project_centred [OF m cj] by (simp add: mean_def mu)
  qed
  then show ?thesis using pca_project_shape [of Q X_train] c by (simp add: A)
qed

theorem apply_pca_train_centred_witness:
  "pca_solver_ok (\<lambda>k d Xc. replicate k (replicate d 1)) \<and> is_matrix 1 [[0], [2]] \<and>
   apply_pca (\<lambda>k d Xc. replicate k (replicate d 1)) 1 1 [[0], [2]] [[1]] =
     (Inr ([[-1], [1]], [[0]]), PCA_fitted 1 \<lparr>pca_mean = [1], components = [[1]]\<rparr>) \<and>
   mean (col [[-1], [1]] 0) = 0"
proof -
  have s: "pca_solver_ok (\<lambda>k d Xc. replicate k (replicate d 1))"
    by (simp add: pca_solver_ok_def is_matrix_def list_all_iff)
  have m: "is_matrix 1 [[0::real], [2]]" by simp
  have r: "apply_pca (\<lambda>k d Xc. replicate k (replicate d 1)) 1 1 [[0], [2]] [[1]] =
     (Inr ([[-1], [1]], [[0]]), PCA_fitted 1 \<lparr>pca_mean = [1], components = [[1]]\<rparr>)"
    by (simp add: apply_pca_def pca_fit_transform_def pca_fit_def pca_transform_def pca_project_def
        centre_def mean_def col_def dot_def)
  show ?thesis using s m r apply_pca_train_centred [OF s m r] by simp
qed

end
