(* ===== verification/Metrics.thy ===== *)
theory Metrics
  imports Label_Encoder
begin

text \<open>
  The scikit-learn metrics that \<open>evaluate\<close> and \<open>plot_confusion_matrix\<close>
  (\<open>src/model.py\<close>, lines 349-382 and 417-446) call. \<open>confusion_matrix(y_true, y_pred)\<close>
  indexes rows and columns by the sorted labels occurring in either argument
  (\<open>unique_labels\<close>); entry \<open>(i, j)\<close> counts the samples whose true label is the
  \<open>i\<close>-th and predicted label the \<open>j\<close>-th. \<open>classification_report(...,
  output_dict=True)\<close> is modelled by its per-label precision, recall, F1 score and support
  (zero where scikit-learn divides by zero and warns), its \<open>'accuracy'\<close> entry and its
  \<open>'macro avg'\<close> and \<open>'weighted avg'\<close> entries (unweighted and support-weighted means
  of the per-label metrics, with the total support). Both raise on arguments of different
  lengths.
\<close>

definition unique_labels :: "'a::linorder list \<Rightarrow> 'a list \<Rightarrow> 'a list" where
  "unique_labels yt yp = np_unique (yt @ yp)"

definition confusion_matrix :: "'a::linorder list \<Rightarrow> 'a list \<Rightarrow> nat list list result" where
  "confusion_matrix yt yp =
     (if length yt \<noteq> length yp then Inl LengthMismatch
      else let L = unique_labels yt yp
           in Inr (map (\<lambda>a. map (\<lambda>b. count_list (zip yt yp) (a, b)) L) L))"

definition accuracy_score :: "'a list \<Rightarrow> 'a list \<Rightarrow> real" where
  "accuracy_score yt yp = real (count_list (map2 (=) yt yp) True) / real (length yt)"

definition safe_div :: "real \<Rightarrow> real \<Rightarrow> real" where
  "safe_div a b = (if b = 0 then 0 else a / b)"

record class_metrics =
  precision :: real
  recall :: real
  f1_score :: real
  support :: nat

record 'a report =
  per_class :: "('a \<times> class_metrics) list"
  report_accuracy :: real
  macro_avg :: class_metrics
  weighted_avg :: class_metrics

definition label_metrics :: "'a list \<Rightarrow> 'a list \<Rightarrow> 'a \<Rightarrow> class_metrics" where
  "label_metrics yt yp a =
     (let tp = real (count_list (zip yt yp) (a, a));
          p = safe_div tp (real (count_list yp a));
          r = safe_div tp (real (count_list yt a))
      in \<lparr>precision = p, recall = r, f1_score = safe_div (2 * p * r) (p + r),
          support = count_list yt a\<rparr>)"

definition macro_average :: "class_metrics list \<Rightarrow> class_metrics" where
  "macro_average ms =
     \<lparr>precision = mean (map precision ms), recall = mean (map recall ms),
      f1_score = mean (map f1_score ms), support = sum_list (map support ms)\<rparr>"

definition weighted_average :: "class_metrics list \<Rightarrow> class_metrics" where
  "weighted_average ms =
     (let n = real (sum_list (map support ms));
          wmean = (\<lambda>f. safe_div (sum_list (map (\<lambda>m. f m * real (support m)) ms)) n)
      in \<lparr>precision = wmean precision, recall = wmean recall, f1_score = wmean f1_score,
          support = sum_list (map support ms)\<rparr>)"

definition classification_report :: "'a::linorder list \<Rightarrow> 'a list \<Rightarrow> 'a report result" where
  "classification_report yt yp =
     (if length yt \<noteq> length yp then Inl LengthMismatch
      else let L = unique_labels yt yp; ms = map (label_metrics yt yp) L
           in Inr \<lparr>per_class = zip L ms, report_accuracy = accuracy_score yt yp,
                   macro_avg = macro_average ms, weighted_avg = weighted_average ms\<rparr>)"

section \<open>Lemmas\<close>

lemma count_zip_self: "count_list (zip ys ys) (a, b) = (if a = b then count_list ys a else 0)"
  by (induction ys) auto

lemma count_map2_eq_self: "count_list (map2 (=) ys ys) True = length ys"
  by (induction ys) auto

lemma accuracy_score_self: "ys \<noteq> [] \<Longrightarrow> accuracy_score ys ys = 1"
  by (simp add: accuracy_score_def count_map2_eq_self)

lemma sorted_map_mono_on:
  "\<forall>a \<in> set xs. \<forall>b \<in> set xs. a < b \<longrightarrow> f a < f b \<Longrightarrow> sorted xs \<Longrightarrow> distinct xs \<Longrightarrow>
   sorted (map f xs) \<and> distinct (map f xs)"
proof (induction xs)
  case (Cons x xs)
  then have "\<forall>b \<in> set xs. f x < f b" by (auto simp: order.strict_iff_order)
  with Cons show ?case by (auto simp: order.strict_iff_order)
qed simp

lemma np_unique_map_mono:
  assumes "\<forall>a \<in> set xs. \<forall>b \<in> set xs. a < b \<longrightarrow> f a < f b"
  shows "np_unique (map f xs) = map f (np_unique xs)"
proof (rule sorted_distinct_set_unique)
  show "sorted (map f (np_unique xs))" "distinct (map f (np_unique xs))"
    using sorted_map_mono_on [of "np_unique xs" f] assms by simp_all
qed simp_all

lemma count_list_map_inj_on:
  "inj_on g (insert x (set xs)) \<Longrightarrow> count_list (map g xs) (g x) = count_list xs x"
  by (induction xs) (auto simp: inj_on_def)

lemma strict_mono_inj_on:
  fixes f :: "'a::linorder \<Rightarrow> 'b::linorder"
  assumes "\<forall>a \<in> A. \<forall>b \<in> A. a < b \<longrightarrow> f a < f b"
  shows "inj_on f (A::'a::linorder set)"
proof (rule inj_onI)
  fix x y assume "x \<in> A" "y \<in> A" "f x = f y"
  show "x = y"
  proof (rule ccontr)
    assume "x \<noteq> y"
    then have "x < y \<or> y < x" by auto
    with assms \<open>x \<in> A\<close> \<open>y \<in> A\<close> \<open>f x = f y\<close> show False by force
  qed
qed

lemma zip_map_map: "zip (map f xs) (map f ys) = map (\<lambda>(u, v). (f u, f v)) (zip xs ys)"
  by (simp add: zip_map1 zip_map2 o_def case_prod_beta)

lemma confusion_matrix_map_mono:
  assumes mono: "\<forall>a \<in> set (yt @ yp). \<forall>b \<in> set (yt @ yp). a < b \<longrightarrow> f a < f b"
  shows "confusion_matrix (map f yt) (map f yp) = confusion_matrix yt yp"
proof (cases "length yt = length yp")
  case True
  let ?L = "unique_labels yt yp" and ?g = "\<lambda>(u, v). (f u, f v)"
  have L: "unique_labels (map f yt) (map f yp) = map f ?L"
    using np_unique_map_mono [OF mono] by (simp add: unique_labels_def)
  have inj: "inj_on f (set (yt @ yp))" using mono by (rule strict_mono_inj_on)
  have cnt: "count_list (zip (map f yt) (map f yp)) (f a, f b) = count_list (zip yt yp) (a, b)"
    if "a \<in> set ?L" "b \<in> set ?L" for a b
  proof -
    have "inj_on ?g (insert (a, b) (set (zip yt yp)))"
      using inj that by (auto simp: inj_on_def unique_labels_def dest: set_zip_leftD set_zip_rightD)
    then show ?thesis
      using count_list_map_inj_on [of ?g "(a, b)" "zip yt yp"] by (simp add: zip_map_map)
  qed
  show ?thesis
    using True cnt by (simp add: confusion_matrix_def L Let_def)
qed (simp add: confusion_matrix_def)

lemma confusion_matrix_self:
  "confusion_matrix ys ys = Inr (map (\<lambda>a. map (\<lambda>b. if a = b then count_list ys a else 0)
                                   (np_unique ys)) (np_unique ys))"
  by (simp add: confusion_matrix_def unique_labels_def count_zip_self np_unique_set_eq [of "ys @ ys" ys] Let_def)

text \<open>The diagonal of the confusion matrix counts the correct predictions.\<close>

lemma sum_indicator_distinct:
  "distinct L \<Longrightarrow> u \<in> set L \<Longrightarrow> sum_list (map (\<lambda>a. if a = u then 1 else 0) L) = (1::nat)"
proof (induction L)
  case (Cons a L)
  then show ?case by (cases "a = u") (auto simp: sum_list_map_eq_sum_count)
qed simp

lemma sum_diagonal_counts:
  assumes "distinct L" and "fst ` set ps \<subseteq> set L"
  shows "sum_list (map (\<lambda>a. count_list ps (a, a)) L) = count_list (map (\<lambda>(u, v). u = v) ps) True"
  using assms(2)
proof (induction ps)
  case Nil
  then show ?case by simp
next
  case (Cons p ps)
  obtain u v where p: "p = (u, v)" by fastforce
  have u: "u \<in> set L" using Cons.prems p by auto
  have e: "count_list (p # ps) (a, a) = count_list ps (a, a) + (if a = u \<and> u = v then 1 else 0)" for a
    by (auto simp: p)
  have "sum_list (map (\<lambda>a. count_list (p # ps) (a, a)) L) =
        sum_list (map (\<lambda>a. count_list ps (a, a) + (if a = u \<and> u = v then 1 else 0)) L)"
    by (simp only: e)
  also have "\<dots> = sum_list (map (\<lambda>a. count_list ps (a, a)) L) +
                   sum_list (map (\<lambda>a. if a = u \<and> u = v then 1 else 0) L)"
    by (rule sum_list_addf)
  also have "sum_list (map (\<lambda>a. if a = u \<and> u = v then 1 else 0) L) = (if u = v then 1 else (0::nat))"
  proof (cases "u = v")
    case True
    then show ?thesis using sum_indicator_distinct [OF assms(1) u] by simp
  qed simp
  finally show ?case using Cons by (simp add: p)
qed

lemma confusion_matrix_trace:
  assumes "confusion_matrix yt yp = Inr cm"
  shows "sum_list (map (\<lambda>i. cm ! i ! i) [0..<length cm]) = count_list (map2 (=) yt yp) True"
proof -
  let ?L = "unique_labels yt yp"
  from assms have l: "length yt = length yp"
    and cm: "cm = map (\<lambda>a. map (\<lambda>b. count_list (zip yt yp) (a, b)) ?L) ?L"
    by (auto simp: confusion_matrix_def Let_def split: if_splits)
  have "map (\<lambda>i. cm ! i ! i) [0..<length cm] = map (\<lambda>a. count_list (zip yt yp) (a, a)) ?L"
    by (rule nth_equalityI) (simp_all add: cm)
  moreover have "fst ` set (zip yt yp) \<subseteq> set ?L"
    by (auto simp: unique_labels_def dest: set_zip_leftD)
  moreover have "map2 (=) yt yp = map (\<lambda>(u, v). u = v) (zip yt yp)" by simp
  ultimately show ?thesis
    using sum_diagonal_counts [of ?L "zip yt yp"] by (simp add: unique_labels_def)
qed

end
