(* ===== verification/Pipeline.thy ===== *)
theory Pipeline
  imports Network Scaler Resampling PCA Metrics
begin

text \<open>
  The class \<open>HybridLSTMTransformerModel\<close> of \<open>src/model.py\<close>: its attributes as a record
  extending the network hyperparameters (\<open>__init__\<close>, lines 33-63), and its public methods
  \<open>fit\<close> (lines 230-307), \<open>predict\<close> (309-347), \<open>evaluate\<close> (349-382),
  \<open>plot_training_history\<close> (384-415) and \<open>plot_confusion_matrix\<close> (417-446). A method
  takes the world (the object and the position of NumPy's global generator, which
  \<open>squeeze_and_excitation\<close> advances) and returns its result and the new world; when it
  raises, the result is the error and the world is the one the exception leaves behind, with
  every attribute the method had already assigned. The libraries the class calls and that
  depend on randomness or on Keras internals are an interface record, \<open>libs\<close>: the normal
  stream, the oversampler's and the split's seeded draws, the SVD of PCA, and Keras'
  compile, fit and predict. \<open>fit\<close> is the composition of its stages as the source writes
  them: encoding and balancing, the split, the preprocessing of both parts, the one-hot
  targets, building (on the first call only) and training the network. The inductive
  \<open>reachable\<close> collects the worlds a program reaches by constructing the object and calling
  its public methods in any order; \<open>model_inv\<close> is the invariant they keep. The lemmas
  take \<open>fit\<close> apart (\<open>fit_world_cases\<close>: where a call leaves the world) and
  \<open>predict\<close> (\<open>predict_cases\<close>), and the properties state what the methods promise.
\<close>

record history =
  hist_loss :: vec
  hist_accuracy :: vec
  hist_val_loss :: vec
  hist_val_accuracy :: vec

record ('net, 'a) hybrid_model = net_config +
  n_components :: nat
  random_state :: int
  model :: "'net option"
  history :: "history option"
  scaler :: scaler
  pca :: "pca_obj option"
  label_encoder :: "'a label_encoder"

record 'net libs =
  np_normal :: rng
  ros_choice :: choice
  split_perm :: permutation
  pca_svd :: pca_solver
  keras_compile :: "compiled_model \<Rightarrow> 'net"
  keras_fit :: "'net \<Rightarrow> nat \<Rightarrow> nat \<Rightarrow> tensor3 \<Rightarrow> matrix \<Rightarrow> tensor3 \<Rightarrow> matrix \<Rightarrow> ('net \<times> history) result"
  keras_predict :: "'net \<Rightarrow> tensor3 \<Rightarrow> matrix result"

record ('net, 'a) world =
  obj :: "('net, 'a) hybrid_model"
  rng_pos :: nat

section \<open>Construction\<close>

definition init_model :: "nat \<Rightarrow> nat \<Rightarrow> nat \<Rightarrow> nat \<Rightarrow> real \<Rightarrow> int \<Rightarrow> ('net, 'a) hybrid_model" where
  "init_model n_comp units heads ff rate seed =
     \<lparr>lstm_units = units, num_heads = heads, ff_dim = ff, dropout_rate = rate,
      n_components = n_comp, random_state = seed, model = None, history = None,
      scaler = None, pca = None, label_encoder = None\<rparr>"

definition default_model :: "('net, 'a) hybrid_model" where
  "default_model = init_model 20 64 4 128 (1 / 5) 42"

section \<open>Array helpers of fit and predict\<close>

text \<open>\<open>X[..., np.newaxis]\<close>: every feature becomes a time step with one feature.\<close>

definition newaxis :: "matrix \<Rightarrow> tensor3" where
  "newaxis X = map (map (\<lambda>v. [v])) X"

text \<open>\<open>np.eye(k)[y]\<close>: one-hot rows; an index \<open>\<ge> k\<close> raises \<open>IndexError\<close>.\<close>

definition one_hot :: "nat \<Rightarrow> nat list \<Rightarrow> matrix result" where
  "one_hot k ys =
     (if list_all (\<lambda>c. c < k) ys
      then Inr (map (\<lambda>c. map (\<lambda>j. if j = c then 1 else 0) [0..<k]) ys)
      else Inl OneHotIndex)"

text \<open>\<open>np.argmax\<close> of a row: the first position of the maximum.\<close>

fun argmax_from :: "nat \<Rightarrow> nat \<Rightarrow> real \<Rightarrow> vec \<Rightarrow> nat" where
  "argmax_from i bi bv [] = bi"
| "argmax_from i bi bv (x # xs) =
     (if bv < x then argmax_from (Suc i) i x xs else argmax_from (Suc i) bi bv xs)"

definition np_argmax :: "vec \<Rightarrow> nat" where
  "np_argmax r = argmax_from 1 0 (hd r) (tl r)"

definition argmax_rows :: "matrix \<Rightarrow> nat list result" where
  "argmax_rows P =
     (if list_all (\<lambda>r. r \<noteq> []) P then Inr (map np_argmax P) else Inl EmptyArgmax)"

text \<open>The number of columns of a PCA output: the number of fitted components.\<close>

definition pca_out_dim :: "pca_obj \<Rightarrow> nat" where
  "pca_out_dim p = (case p of PCA_unfit k \<Rightarrow> k | PCA_fitted k P \<Rightarrow> length (components P))"

section \<open>fit\<close>

text \<open>Lines 254-262: encode the labels (refitting the encoder), then oversample.\<close>

definition fit_encode_balance ::
  "'net libs \<Rightarrow> matrix \<Rightarrow> 'a::linorder list \<Rightarrow> bool \<Rightarrow> ('net, 'a) hybrid_model \<Rightarrow>
   (matrix \<times> nat list) result \<times> ('net, 'a) hybrid_model" where
  "fit_encode_balance L X y class_balance s =
     (let (enc, y_encoded) = le_fit_transform y;
          s = s\<lparr>label_encoder := enc\<rparr>
      in if class_balance then (ros_fit_resample (ros_choice L) X y_encoded, s)
         else (Inr (X, y_encoded), s))"

text \<open>
  Lines 272-285: scale (refitting the scaler, whose \<open>fit\<close> first discards its old
  statistics), reduce (\<open>apply_pca\<close>), recalibrate both parts and add the feature axis.
  Returns the two tensors and the number of PCA components.
\<close>

definition fit_preprocess ::
  "'net libs \<Rightarrow> nat \<Rightarrow> matrix \<Rightarrow> matrix \<Rightarrow> ('net, 'a) world \<Rightarrow>
   (tensor3 \<times> tensor3 \<times> nat) result \<times> ('net, 'a) world" where
  "fit_preprocess L d X_train X_test w =
     (let s = obj w in
      case scaler_fit_transform d X_train of
        Inl e \<Rightarrow> (Inl e, w\<lparr>obj := s\<lparr>scaler := None\<rparr>\<rparr>)
      | Inr (sc, X_train_scaled) \<Rightarrow>
          let s = s\<lparr>scaler := sc\<rparr> in
          (case scaler_transform sc d X_test of
             Inl e \<Rightarrow> (Inl e, w\<lparr>obj := s\<rparr>)
           | Inr X_test_scaled \<Rightarrow>
               let (r, p) = apply_pca (pca_svd L) (n_components s) d X_train_scaled X_test_scaled;
                   s = s\<lparr>pca := Some p\<rparr>;
                   k = pca_out_dim p
               in case r of
                    Inl e \<Rightarrow> (Inl e, w\<lparr>obj := s\<rparr>)
                  | Inr (X_train_pca, X_test_pca) \<Rightarrow>
                      (case squeeze_and_excitation (np_normal L) 16 k X_train_pca (rng_pos w) of
                         Inl e \<Rightarrow> (Inl e, w\<lparr>obj := s\<rparr>)
                       | Inr (X_train_se, p1) \<Rightarrow>
                           (case squeeze_and_excitation (np_normal L) 16 k X_test_pca p1 of
                              Inl e \<Rightarrow> (Inl e, w\<lparr>obj := s, rng_pos := p1\<rparr>)
                            | Inr (X_test_se, p2) \<Rightarrow>
                                (Inr (newaxis X_train_se, newaxis X_test_se, k),
                                 w\<lparr>obj := s, rng_pos := p2\<rparr>)))))"

text \<open>Lines 287-290: the class count of the resampled labels and the one-hot targets.\<close>

definition fit_targets :: "nat list \<Rightarrow> nat list \<Rightarrow> nat list \<Rightarrow> (nat \<times> matrix \<times> matrix) result" where
  "fit_targets y_resampled y_train y_test =
     (let num_classes = length (np_unique y_resampled) in
      rbind (one_hot num_classes y_train) (\<lambda>y_train_categorical.
      rbind (one_hot num_classes y_test) (\<lambda>y_test_categorical.
      Inr (num_classes, y_train_categorical, y_test_categorical))))"

text \<open>
  Lines 292-305: build and compile the network if there is none (its input shape is
  \<open>(k, 1)\<close>), assign it, then train it; Keras trains the assigned model in place.
\<close>

definition fit_network ::
  "'net libs \<Rightarrow> nat \<Rightarrow> nat \<Rightarrow> nat \<Rightarrow> nat \<Rightarrow> tensor3 \<Rightarrow> matrix \<Rightarrow> tensor3 \<Rightarrow> matrix \<Rightarrow>
   ('net, 'a) hybrid_model \<Rightarrow> unit result \<times> ('net, 'a) hybrid_model" where
  "fit_network L k num_classes epochs batch_size X_train_lstm y_train_categorical
     X_test_lstm y_test_categorical s =
     (let built = (case model s of
                     Some net \<Rightarrow> Inr net
                   | None \<Rightarrow> rbind (build_model s [k, 1] num_classes) (\<lambda>M. Inr (keras_compile L M)))
      in case built of
           Inl e \<Rightarrow> (Inl e, s)
         | Inr net \<Rightarrow>
             let s = s\<lparr>model := Some net\<rparr> in
             (case keras_fit L net epochs batch_size X_train_lstm y_train_categorical
                     X_test_lstm y_test_categorical of
                Inl e \<Rightarrow> (Inl e, s)
              | Inr (net', h) \<Rightarrow> (Inr (), s\<lparr>model := Some net', history := Some h\<rparr>)))"

definition fit ::
  "'net libs \<Rightarrow> nat \<Rightarrow> matrix \<Rightarrow> 'a::linorder list \<Rightarrow> nat \<Rightarrow> nat \<Rightarrow> real \<Rightarrow> bool \<Rightarrow>
   ('net, 'a) world \<Rightarrow> unit result \<times> ('net, 'a) world" where
  "fit L d X y epochs batch_size validation_split class_balance w =
     (let (r, s) = fit_encode_balance L X y class_balance (obj w);
          w = w\<lparr>obj := s\<rparr>
      in case r of
           Inl e \<Rightarrow> (Inl e, w)
         | Inr (X_resampled, y_resampled) \<Rightarrow>
             (case train_test_split (split_perm L) validation_split X_resampled y_resampled of
                Inl e \<Rightarrow> (Inl e, w)
              | Inr (X_train, X_test, y_train, y_test) \<Rightarrow>
                  (case fit_preprocess L d X_train X_test w of
                     (Inl e, w) \<Rightarrow> (Inl e, w)
                   | (Inr (X_train_lstm, X_test_lstm, k), w) \<Rightarrow>
                       (case fit_targets y_resampled y_train y_test of
                          Inl e \<Rightarrow> (Inl e, w)
                        | Inr (num_classes, y_train_categorical, y_test_categorical) \<Rightarrow>
                            let (r, s) = fit_network L k num_classes epochs batch_size
                                           X_train_lstm y_train_categorical
                                           X_test_lstm y_test_categorical (obj w)
                            in (r, w\<lparr>obj := s\<rparr>)))))"

section \<open>predict, evaluate and the plots\<close>

text \<open>Lines 326-336: the inference path with the fitted scaler and PCA.\<close>

definition predict_preprocess ::
  "'net libs \<Rightarrow> nat \<Rightarrow> matrix \<Rightarrow> ('net, 'a) world \<Rightarrow> tensor3 result \<times> ('net, 'a) world" where
  "predict_preprocess L d X w =
     (let s = obj w in
      case scaler_transform (scaler s) d X of
        Inl e \<Rightarrow> (Inl e, w)
      | Inr X_scaled \<Rightarrow>
          (case pca s of
             None \<Rightarrow> (Inl NoneAttribute, w)
           | Some p \<Rightarrow>
               (case pca_transform p d X_scaled of
                  Inl e \<Rightarrow> (Inl e, w)
                | Inr X_pca \<Rightarrow>
                    (case squeeze_and_excitation (np_normal L) 16 (pca_out_dim p) X_pca (rng_pos w) of
                       Inl e \<Rightarrow> (Inl e, w)
                     | Inr (X_se, p') \<Rightarrow> (Inr (newaxis X_se), w\<lparr>rng_pos := p'\<rparr>)))))"

text \<open>Lines 341-345: class indices by arg-max, then back to the caller's labels.\<close>

definition predict_decode :: "'a label_encoder \<Rightarrow> matrix \<Rightarrow> 'a list result" where
  "predict_decode enc y_pred_proba = rbind (argmax_rows y_pred_proba) (le_inverse_transform enc)"

definition predict ::
  "'net libs \<Rightarrow> nat \<Rightarrow> matrix \<Rightarrow> ('net, 'a) world \<Rightarrow> 'a list result \<times> ('net, 'a) world" where
  "predict L d X w =
     (case model (obj w) of
        None \<Rightarrow> (Inl NotTrained, w)
      | Some net \<Rightarrow>
          (case predict_preprocess L d X w of
             (Inl e, w) \<Rightarrow> (Inl e, w)
           | (Inr X_lstm, w) \<Rightarrow>
               (rbind (keras_predict L net X_lstm) (predict_decode (label_encoder (obj w))), w)))"

record 'a eval_metrics =
  eval_accuracy :: real
  eval_confusion_matrix :: "nat list list"
  eval_report :: "'a report"

definition evaluate ::
  "'net libs \<Rightarrow> nat \<Rightarrow> matrix \<Rightarrow> 'a::linorder list \<Rightarrow> ('net, 'a) world \<Rightarrow>
   'a eval_metrics result \<times> ('net, 'a) world" where
  "evaluate L d X y w =
     (case predict L d X w of
        (Inl e, w) \<Rightarrow> (Inl e, w)
      | (Inr y_pred, w) \<Rightarrow>
          (let enc = label_encoder (obj w) in
           (rbind (le_transform enc y) (\<lambda>y_encoded.
            rbind (le_transform enc y_pred) (\<lambda>y_pred_encoded.
            rbind (confusion_matrix y_encoded y_pred_encoded) (\<lambda>cm.
            rbind (classification_report y y_pred) (\<lambda>report.
            Inr \<lparr>eval_accuracy = report_accuracy report, eval_confusion_matrix = cm,
                 eval_report = report\<rparr>)))), w)))"

text \<open>The plots: the data each figure draws (the figure itself is not modelled).\<close>

definition plot_training_history :: "('net, 'a) world \<Rightarrow> (vec \<times> vec \<times> vec \<times> vec) result" where
  "plot_training_history w =
     (case history (obj w) of
        None \<Rightarrow> Inl NotTrained
      | Some h \<Rightarrow> Inr (hist_accuracy h, hist_val_accuracy h, hist_loss h, hist_val_loss h))"

definition plot_confusion_matrix ::
  "'net libs \<Rightarrow> nat \<Rightarrow> matrix \<Rightarrow> 'a::linorder list \<Rightarrow> ('net, 'a) world \<Rightarrow>
   nat list list result \<times> ('net, 'a) world" where
  "plot_confusion_matrix L d X y w =
     (case predict L d X w of
        (Inl e, w) \<Rightarrow> (Inl e, w)
      | (Inr y_pred, w) \<Rightarrow> (confusion_matrix y y_pred, w))"

text \<open>
  The contract of Keras' \<open>Model.predict\<close> the pipeline relies on: one row of class
  probabilities per input sample, and no error but a shape mismatch.
\<close>

definition keras_predict_ok :: "'net libs \<Rightarrow> bool" where
  "keras_predict_ok L \<longleftrightarrow>
     (\<forall>net X. case keras_predict L net X of
                 Inl e \<Rightarrow> e = ShapeMismatch
               | Inr P \<Rightarrow> length P = length X \<and> list_all (\<lambda>r. r \<noteq> []) P)"

section \<open>The object's life cycle\<close>

text \<open>
  The attributes that the methods read only when they are not \<open>None\<close>: a network is
  only ever assigned after the label encoder and a PCA, and a history only with a network.
\<close>

definition model_inv :: "('net, 'a) hybrid_model \<Rightarrow> bool" where
  "model_inv s \<longleftrightarrow>
     (model s \<noteq> None \<longrightarrow> label_encoder s \<noteq> None \<and> pca s \<noteq> None) \<and>
     (history s \<noteq> None \<longrightarrow> model s \<noteq> None)"

text \<open>
  The worlds a program using the class can reach: a constructed object, then any sequence
  of calls of its public methods, each of which may raise (the world is then the one the
  exception leaves). \<open>plot_training_history\<close> and \<open>build_model\<close> change nothing.
\<close>

inductive reachable :: "'net libs \<Rightarrow> ('net, 'a::linorder) world \<Rightarrow> bool" for L where
  init: "reachable L \<lparr>obj = init_model n_comp units heads ff rate seed, rng_pos = p\<rparr>"
| fit: "reachable L w \<Longrightarrow> reachable L (snd (fit L d X y epochs batch_size vs cb w))"
| predict: "reachable L w \<Longrightarrow> reachable L (snd (predict L d X w))"
| evaluate: "reachable L w \<Longrightarrow> reachable L (snd (evaluate L d X y w))"
| plot_cm: "reachable L w \<Longrightarrow> reachable L (snd (plot_confusion_matrix L d X y w))"
| apply_pca: "reachable L w \<Longrightarrow>
    reachable L (w\<lparr>obj := (obj w)\<lparr>pca := Some (snd (apply_pca (pca_svd L)
                   (n_components (obj w)) d X_train X_test))\<rparr>\<rparr>)"
| squeeze: "reachable L w \<Longrightarrow>
    squeeze_and_excitation (np_normal L) ratio c F (rng_pos w) = Inr (Y, p) \<Longrightarrow>
    reachable L (w\<lparr>rng_pos := p\<rparr>)"

section \<open>Lemmas on the helpers\<close>

lemma argmax_from_correct:
  assumes "bi < length pre" "pre ! bi = bv" "\<forall>j < length pre. pre ! j \<le> bv"
    "\<forall>j < bi. pre ! j < bv"
  shows "argmax_from (length pre) bi bv xs < length (pre @ xs) \<and>
         (\<forall>j < length (pre @ xs). (pre @ xs) ! j \<le> (pre @ xs) ! argmax_from (length pre) bi bv xs) \<and>
         (\<forall>j < argmax_from (length pre) bi bv xs. (pre @ xs) ! j < (pre @ xs) ! argmax_from (length pre) bi bv xs)"
  using assms
proof (induction xs arbitrary: pre bi bv)
  case Nil
  then show ?case by simp
next
  case (Cons x xs)
  show ?case
  proof (cases "bv < x")
    case True
    have "length pre < length (pre @ [x]) \<and> (pre @ [x]) ! length pre = x \<and>
          (\<forall>j < length (pre @ [x]). (pre @ [x]) ! j \<le> x) \<and> (\<forall>j < length pre. (pre @ [x]) ! j < x)"
      using Cons.prems True by (auto simp: nth_append less_Suc_eq)
    then show ?thesis
      using Cons.IH [where pre = "pre @ [x]" and bi = "length pre" and bv = x] True by simp
  next
    case False
    have "bi < length (pre @ [x]) \<and> (pre @ [x]) ! bi = bv \<and>
          (\<forall>j < length (pre @ [x]). (pre @ [x]) ! j \<le> bv) \<and> (\<forall>j < bi. (pre @ [x]) ! j < bv)"
      using Cons.prems False by (auto simp: nth_append less_Suc_eq)
    then show ?thesis
      using Cons.IH [where pre = "pre @ [x]" and bi = bi and bv = bv] False by simp
  qed
qed

lemma argmax_row:
  assumes "r \<noteq> []"
  shows "np_argmax r < length r \<and> (\<forall>j < length r. r ! j \<le> r ! np_argmax r) \<and>
         (\<forall>j < np_argmax r. r ! j < r ! np_argmax r)"
proof -
  obtain x xs where r: "r = x # xs" using assms by (cases r) auto
  show ?thesis using argmax_from_correct [of 0 "[x]" x xs] by (simp add: r np_argmax_def)
qed

lemma argmax_rows_Inr:
  "argmax_rows P = Inr I \<Longrightarrow> length I = length P \<and> (\<forall>i < length P. I ! i < length (P ! i))"
  by (auto simp: argmax_rows_def list_all_iff argmax_row split: if_splits)

lemma argmax_one_hot_row:
  assumes "c < k"
  shows "np_argmax (map (\<lambda>j. if j = c then (1::real) else 0) [0..<k]) = c"
proof -
  let ?r = "map (\<lambda>j. if j = c then (1::real) else 0) [0..<k]"
  let ?m = "np_argmax ?r"
  have ne: "?r \<noteq> []" using assms by simp
  from argmax_row [OF ne] have mk: "?m < length ?r" and le: "\<forall>j < length ?r. ?r ! j \<le> ?r ! ?m"
    by blast+
  have mk': "?m < k" using mk by simp
  have "?r ! c \<le> ?r ! ?m" using le assms by (simp only: length_map length_upt diff_zero)
  moreover have "?r ! c = 1" using assms by simp
  moreover have "?r ! ?m = (if ?m = c then 1 else 0)" using mk' by (simp del: upt_Suc)
  ultimately show ?thesis by (simp split: if_splits)
qed

lemma one_hot_Inr:
  "\<forall>c \<in> set ys. c < k \<Longrightarrow>
   one_hot k ys = Inr (map (\<lambda>c. map (\<lambda>j. if j = c then 1 else 0) [0..<k]) ys)"
  by (simp add: one_hot_def list_all_iff)

lemma argmax_rows_one_hot:
  "\<forall>c \<in> set ys. c < k \<Longrightarrow>
   argmax_rows (map (\<lambda>c. map (\<lambda>j. if j = c then 1 else 0) [0..<k]) ys) = Inr ys"
  by (auto simp: argmax_rows_def list_all_iff argmax_one_hot_row intro!: map_idI
      simp del: upt_Suc)

lemma codes_bound: "\<forall>c \<in> set (snd (le_fit_transform y)). c < length (np_unique y)"
  using le_fit_transform_codes_bound by blast

lemma decode_codes: "le_inverse_transform (fst (le_fit_transform y)) (snd (le_fit_transform y)) = Inr y"
proof -
  have "\<forall>x \<in> set y. np_unique y ! searchsorted (np_unique y) x = x"
  proof
    fix x assume "x \<in> set y"
    then have "x \<in> set (np_unique y)" by simp
    from searchsorted_mem [OF sorted_np_unique distinct_np_unique this]
    show "np_unique y ! searchsorted (np_unique y) x = x" by simp
  qed
  then show ?thesis
    using codes_bound [of y]
    by (simp add: le_fit_transform_def le_fit_def le_inverse_transform_Some map_idI)
qed

lemma predict_preprocess_obj [simp]: "obj (snd (predict_preprocess L d X w)) = obj w"
  by (simp add: predict_preprocess_def Let_def split: option.splits sum.splits prod.splits)

lemma predict_obj [simp]: "obj (snd (predict L d X w)) = obj w"
proof (cases "predict_preprocess L d X w")
  case (Pair r w')
  then have "obj w' = obj w" using predict_preprocess_obj [of L d X w] by simp
  with Pair show ?thesis by (cases r) (simp_all add: predict_def split: option.splits)
qed

lemma evaluate_obj [simp]: "obj (snd (evaluate L d X y w)) = obj w"
proof (cases "predict L d X w")
  case (Pair r w')
  then have "obj w' = obj w" using predict_obj [of L d X w] by simp
  with Pair show ?thesis by (cases r) (simp_all add: evaluate_def Let_def)
qed

lemma plot_confusion_matrix_obj [simp]: "obj (snd (plot_confusion_matrix L d X y w)) = obj w"
proof (cases "predict L d X w")
  case (Pair r w')
  then have "obj w' = obj w" using predict_obj [of L d X w] by simp
  with Pair show ?thesis by (cases r) (simp_all add: plot_confusion_matrix_def Let_def)
qed

lemma fit_encode_balance_obj:
  "snd (fit_encode_balance L X y cb s) = s\<lparr>label_encoder := le_fit y\<rparr>"
  by (simp add: fit_encode_balance_def le_fit_transform_def Let_def)

lemma fit_preprocess_obj:
  "model (obj (snd (fit_preprocess L d X_train X_test w))) = model (obj w) \<and>
   history (obj (snd (fit_preprocess L d X_train X_test w))) = history (obj w) \<and>
   label_encoder (obj (snd (fit_preprocess L d X_train X_test w))) = label_encoder (obj w) \<and>
   (pca (obj w) \<noteq> None \<longrightarrow> pca (obj (snd (fit_preprocess L d X_train X_test w))) \<noteq> None) \<and>
   (isl (fst (fit_preprocess L d X_train X_test w)) \<or>
    pca (obj (snd (fit_preprocess L d X_train X_test w))) \<noteq> None)"
  by (auto simp: fit_preprocess_def Let_def split: sum.splits prod.splits)

lemma fit_network_obj:
  "label_encoder (snd (fit_network L k nc e b Xt yt Xv yv s)) = label_encoder s \<and>
   pca (snd (fit_network L k nc e b Xt yt Xv yv s)) = pca s \<and>
   (model s \<noteq> None \<longrightarrow> model (snd (fit_network L k nc e b Xt yt Xv yv s)) \<noteq> None) \<and>
   (history (snd (fit_network L k nc e b Xt yt Xv yv s)) \<noteq> None \<longrightarrow>
      history s \<noteq> None \<or> model (snd (fit_network L k nc e b Xt yt Xv yv s)) \<noteq> None)"
  by (auto simp: fit_network_def Let_def split: option.splits sum.splits prod.splits)

lemma fit_preprocess_inv:
  assumes "fit_preprocess L d X_train X_test w = (r, w')" and "model_inv (obj w)"
  shows "model_inv (obj w') \<and> (\<not> isl r \<longrightarrow> pca (obj w') \<noteq> None)"
  using fit_preprocess_obj [of L d X_train X_test w] assms by (auto simp: model_inv_def)

lemma fit_network_inv:
  assumes "model_inv s" and "label_encoder s \<noteq> None" and "pca s \<noteq> None"
  shows "model_inv (snd (fit_network L k nc e b Xt yt Xv yv s))"
  using fit_network_obj [of L k nc e b Xt yt Xv yv s] assms by (auto simp: model_inv_def)

text \<open>
  Where a call of \<open>fit\<close> leaves the world: right after the encoder is refitted (a raise in
  oversampling or in the split), where \<open>fit_preprocess\<close> leaves it (a raise in
  preprocessing or in the one-hot targets), or where \<open>fit_network\<close> leaves the object.
\<close>

lemma fit_world_cases:
  fixes w :: "('net, 'a::linorder) world" and y :: "'a list"
  defines "w1 \<equiv> w\<lparr>obj := (obj w)\<lparr>label_encoder := le_fit y\<rparr>\<rparr>"
  obtains (stop) e where "fit L d X y epochs batch_size vs cb w = (Inl e, w1)"
  | (pre) X_tr X_te r2 e where
      "fit_preprocess L d X_tr X_te w1 = (r2, snd (fit L d X y epochs batch_size vs cb w))"
      "fst (fit L d X y epochs batch_size vs cb w) = Inl e"
  | (net) X_tr X_te Xt Xv k w2 nc yt yv where
      "fit_preprocess L d X_tr X_te w1 = (Inr (Xt, Xv, k), w2)"
      "fit L d X y epochs batch_size vs cb w =
         (fst (fit_network L k nc epochs batch_size Xt yt Xv yv (obj w2)),
          w2\<lparr>obj := snd (fit_network L k nc epochs batch_size Xt yt Xv yv (obj w2))\<rparr>)"
proof -
  let ?f = "fit L d X y epochs batch_size vs cb w"
  obtain r s1 where eb: "fit_encode_balance L X y cb (obj w) = (r, s1)" by fastforce
  have w1: "w\<lparr>obj := s1\<rparr> = w1"
    using fit_encode_balance_obj [of L X y cb "obj w"] eb by (simp add: w1_def)
  show thesis
  proof (cases r)
    case (Inl e)
    then show thesis using eb w1 by (intro stop [of e]) (simp add: fit_def)
  next
    case (Inr v)
    obtain X_r y_r where v: "v = (X_r, y_r)" by fastforce
    show thesis
    proof (cases "train_test_split (split_perm L) vs X_r y_r")
      case (Inl e)
      then show thesis using eb w1 Inr v by (intro stop [of e]) (simp add: fit_def)
    next
      case sp: (Inr sp)
      obtain X_tr X_te y_tr y_te where sp': "sp = (X_tr, X_te, y_tr, y_te)" by (cases sp) auto
      obtain r2 w2 where pp: "fit_preprocess L d X_tr X_te w1 = (r2, w2)" by fastforce
      note ctx = eb w1 Inr v sp sp' pp
      show thesis
      proof (cases r2)
        case (Inl e)
        with ctx have "?f = (Inl e, w2)" by (simp add: fit_def)
        with pp show thesis by (intro pre [of _ _ _ e]) simp_all
      next
        case r2: (Inr u)
        obtain Xt Xv k where u: "u = (Xt, Xv, k)" by (cases u) auto
        show thesis
        proof (cases "fit_targets y_r y_tr y_te")
          case (Inl e)
          with ctx r2 u have "?f = (Inl e, w2)" by (simp add: fit_def)
          with pp show thesis by (intro pre [of _ _ _ e]) simp_all
        next
          case (Inr t)
          obtain nc yt yv where t: "t = (nc, yt, yv)" by (cases t) auto
          with ctx r2 u Inr have "?f =
              (fst (fit_network L k nc epochs batch_size Xt yt Xv yv (obj w2)),
               w2\<lparr>obj := snd (fit_network L k nc epochs batch_size Xt yt Xv yv (obj w2))\<rparr>)"
            by (simp add: fit_def split: prod.splits)
          with pp r2 u show thesis by (intro net) simp_all
        qed
      qed
    qed
  qed
qed

lemma fit_inv:
  assumes inv: "model_inv (obj w)"
  shows "model_inv (obj (snd (fit L d X y epochs batch_size vs cb w)))"
proof -
  let ?w1 = "w\<lparr>obj := (obj w)\<lparr>label_encoder := le_fit y\<rparr>\<rparr>"
  have inv1: "model_inv (obj ?w1)" and le1: "label_encoder (obj ?w1) \<noteq> None"
    using inv by (auto simp: model_inv_def le_fit_def)
  show ?thesis
  proof (cases rule: fit_world_cases [where L = L and d = d and X = X and y = y and epochs = epochs
      and batch_size = batch_size and vs = vs and cb = cb and w = w])
    case stop
    then show ?thesis using inv1 by simp
  next
    case (pre X_tr X_te r2)
    then show ?thesis using fit_preprocess_inv inv1 by blast
  next
    case (net X_tr X_te Xt Xv k w2 nc yt yv)
    from fit_preprocess_inv [OF net(1) inv1] have "model_inv (obj w2)" "pca (obj w2) \<noteq> None"
      by simp_all
    moreover have "label_encoder (obj w2) \<noteq> None"
      using fit_preprocess_obj [of L d X_tr X_te ?w1] net(1) le1 by simp
    ultimately show ?thesis using net(2) by (simp add: fit_network_inv)
  qed
qed

lemma fit_label_encoder: "label_encoder (obj (snd (fit L d X y epochs batch_size vs cb w))) = le_fit y"
proof -
  let ?w1 = "w\<lparr>obj := (obj w)\<lparr>label_encoder := le_fit y\<rparr>\<rparr>"
  show ?thesis
  proof (cases rule: fit_world_cases [where L = L and d = d and X = X and y = y and epochs = epochs
      and batch_size = batch_size and vs = vs and cb = cb and w = w])
    case stop
    then show ?thesis by simp
  next
    case (pre X_tr X_te r2)
    then have "snd (fit_preprocess L d X_tr X_te ?w1) = snd (fit L d X y epochs batch_size vs cb w)"
      by simp
    with fit_preprocess_obj [of L d X_tr X_te ?w1] show ?thesis by simp
  next
    case (net X_tr X_te Xt Xv k w2 nc yt yv)
    have "label_encoder (obj w2) = le_fit y"
      using fit_preprocess_obj [of L d X_tr X_te ?w1] net(1) by simp
    with net(2) fit_network_obj [of L k nc epochs batch_size Xt yt Xv yv "obj w2"] show ?thesis
      by simp
  qed
qed

lemma reachable_inv: "reachable L w \<Longrightarrow> model_inv (obj w)"
proof (induction rule: reachable.induct)
  case (init n_comp units heads ff rate seed p)
  then show ?case by (simp add: model_inv_def init_model_def)
next
  case (fit w d X y epochs batch_size vs cb)
  from fit.IH show ?case by (rule fit_inv)
next
  case (apply_pca w d X_train X_test)
  then show ?case by (simp add: model_inv_def)
qed simp_all

lemma fit_encode_balance_single_class:
  assumes "length X = length y" and "length (np_unique y) \<le> 1" and "X \<noteq> []" and "hd X \<noteq> []"
  shows "fst (fit_encode_balance L X y True s) = Inl SingleClass"
proof -
  have "length (np_unique (snd (le_fit_transform y))) \<le> 1"
    using assms(2) by (simp only: np_unique_codes length_upt diff_zero)
  moreover have "length (snd (le_fit_transform y)) = length X"
    using assms(1) by (simp add: le_fit_transform_def)
  ultimately show ?thesis
    using assms(3,4) by (simp add: fit_encode_balance_def ros_fit_resample_def case_prod_beta Let_def)
qed

lemma encoder_codes_mono:
  assumes "set ys \<subseteq> set (np_unique zs)"
  shows "\<forall>a \<in> set ys. \<forall>b \<in> set ys. a < b \<longrightarrow>
           searchsorted (np_unique zs) a < searchsorted (np_unique zs) b"
  using assms searchsorted_strict_mono [OF sorted_np_unique distinct_np_unique] by blast

lemma predict_preprocess_Inr:
  "fst (predict_preprocess L d X w) = Inr T \<Longrightarrow> length T = length X"
  by (auto simp: predict_preprocess_def Let_def newaxis_def pca_transform_def pca_project_def
      dest!: scaler_transform_shape squeeze_and_excitation_length
      split: sum.splits option.splits pca_obj.splits if_splits prod.splits)

lemma predict_preprocess_not_trained: "fst (predict_preprocess L d X w) \<noteq> Inl NotTrained"
  by (auto simp: predict_preprocess_def Let_def scaler_transform_def pca_transform_def
      squeeze_and_excitation_def se_reduced_dim_def
      split: sum.splits option.splits pca_obj.splits if_splits prod.splits)

lemma argmax_rows_Inl: "argmax_rows P = Inl e \<Longrightarrow> e = EmptyArgmax"
  by (simp add: argmax_rows_def split: if_splits)

lemma predict_decode_Inr:
  assumes "predict_decode enc P = Inr ys"
  shows "length ys = length P \<and> (\<exists>cls. enc = Some cls \<and> set ys \<subseteq> set cls)"
proof -
  from assms obtain I cls where a: "argmax_rows P = Inr I" and e: "enc = Some cls"
    and b: "\<forall>i \<in> set I. i < length cls" and ys: "ys = map ((!) cls) I"
    by (auto simp: predict_decode_def rbind_eq_Inr_iff le_inverse_transform_def list_all_iff
        split: option.splits if_splits)
  then show ?thesis using argmax_rows_Inr [OF a] by auto
qed

lemma predict_decode_Inl:
  "predict_decode enc P = Inl e \<Longrightarrow> e \<in> {EmptyArgmax, NotFitted, UnseenLabel}"
  by (auto simp: predict_decode_def rbind_eq_Inl_iff le_inverse_transform_def argmax_rows_Inl
      split: option.splits if_splits)

lemma predict_cases:
  obtains (untrained) "model (obj w) = None" "predict L d X w = (Inl NotTrained, w)"
  | (pre) net e w1 where "model (obj w) = Some net" "predict_preprocess L d X w = (Inl e, w1)"
      "predict L d X w = (Inl e, w1)"
  | (run) net T w1 where "model (obj w) = Some net" "predict_preprocess L d X w = (Inr T, w1)"
      "predict L d X w = (rbind (keras_predict L net T) (predict_decode (label_encoder (obj w))), w1)"
proof (cases "model (obj w)")
  case None
  then show thesis by (intro untrained) (simp_all add: predict_def)
next
  case (Some net)
  obtain r w1 where pp: "predict_preprocess L d X w = (r, w1)" by fastforce
  have o: "obj w1 = obj w" using predict_preprocess_obj [of L d X w] pp by simp
  show thesis
  proof (cases r)
    case (Inl e)
    with Some pp show thesis by (intro pre) (simp_all add: predict_def)
  next
    case (Inr T)
    with Some pp o show thesis by (intro run) (simp_all add: predict_def)
  qed
qed

lemma predict_Inr:
  assumes k: "keras_predict_ok L" and p: "fst (predict L d X w) = Inr ys"
  shows "length ys = length X \<and> (\<exists>cls. label_encoder (obj w) = Some cls \<and> set ys \<subseteq> set cls)"
proof (cases rule: predict_cases [where L = L and d = d and X = X and w = w])
  case (run net T w1)
  from p run(3) obtain P where P: "keras_predict L net T = Inr P"
    and dec: "predict_decode (label_encoder (obj w)) P = Inr ys"
    by (auto simp: rbind_eq_Inr_iff)
  have "length P = length T" using k P by (simp add: keras_predict_ok_def split: sum.splits)
  moreover have "length T = length X" using predict_preprocess_Inr [of L d X w T] run(2) by simp
  ultimately show ?thesis using predict_decode_Inr [OF dec] by simp
qed (use p in simp_all)

lemma predict_fst:
  "fst (predict L d X w) =
     (case model (obj w) of
        None \<Rightarrow> Inl NotTrained
      | Some net \<Rightarrow> rbind (fst (predict_preprocess L d X w))
                     (\<lambda>T. rbind (keras_predict L net T) (predict_decode (label_encoder (obj w)))))"
  by (cases rule: predict_cases [where L = L and d = d and X = X and w = w]) simp_all

lemma predict_preprocess_fst:
  "fst (predict_preprocess L d X w) =
     rbind (scaler_transform (scaler (obj w)) d X) (\<lambda>X_scaled.
       case pca (obj w) of
         None \<Rightarrow> Inl NoneAttribute
       | Some p \<Rightarrow> rbind (pca_transform p d X_scaled) (\<lambda>X_pca.
           map_sum id newaxis (map_sum id fst
             (squeeze_and_excitation (np_normal L) 16 (pca_out_dim p) X_pca (rng_pos w)))))"
  by (simp add: predict_preprocess_def Let_def rbind_def split: sum.splits option.splits prod.splits)

lemma predict_preprocess_const:
  assumes c: "\<And>i. np_normal L i = v" and o: "obj w' = obj w"
  shows "fst (predict_preprocess L d X w') = fst (predict_preprocess L d X w)"
proof -
  have "map_sum id fst (squeeze_and_excitation (np_normal L) 16 k Xp (rng_pos w')) =
        map_sum id fst (squeeze_and_excitation (np_normal L) 16 k Xp (rng_pos w))" for k Xp
    by (rule squeeze_and_excitation_const [OF c])
  then show ?thesis using o by (simp only: predict_preprocess_fst)
qed

lemma predict_trained_errors:
  assumes k: "keras_predict_ok L" and m: "model (obj w) = Some net"
  shows "fst (predict L d X w) \<noteq> Inl NotTrained"
proof
  assume nt: "fst (predict L d X w) = Inl NotTrained"
  show False
  proof (cases rule: predict_cases [where L = L and d = d and X = X and w = w])
    case (pre net' e w1)
    then show False using nt predict_preprocess_not_trained [of L d X w] by simp
  next
    case (run net' T w1)
    then have "rbind (keras_predict L net T) (predict_decode (label_encoder (obj w))) = Inl NotTrained"
      using nt m by simp
    then consider (keras) "keras_predict L net T = Inl NotTrained"
      | (decode) P where "predict_decode (label_encoder (obj w)) P = Inl NotTrained"
      by (auto simp: rbind_eq_Inl_iff)
    then show False
    proof cases
      case keras
      have "case keras_predict L net T of Inl e \<Rightarrow> e = ShapeMismatch
              | Inr P \<Rightarrow> length P = length T \<and> list_all (\<lambda>r. r \<noteq> []) P"
        using k by (simp add: keras_predict_ok_def)
      with keras show False by simp
    next
      case decode
      then show False using predict_decode_Inl by fastforce
    qed
  qed (use m in simp)
qed

lemma fit_preprocess_Inr:
  assumes "fit_preprocess L d X_train X_test w = (Inr (Xt, Xv, k), w')"
  obtains sc Xs Xts p Xtp Xtep Ytr Yte p1 where
    "scaler_fit_transform d X_train = Inr (sc, Xs)" "scaler_transform sc d X_test = Inr Xts"
    "apply_pca (pca_svd L) (n_components (obj w)) d Xs Xts = (Inr (Xtp, Xtep), p)"
    "k = pca_out_dim p"
    "squeeze_and_excitation (np_normal L) 16 k Xtp (rng_pos w) = Inr (Ytr, p1)"
    "squeeze_and_excitation (np_normal L) 16 k Xtep p1 = Inr (Yte, rng_pos w')"
    "Xt = newaxis Ytr" "Xv = newaxis Yte" "obj w' = (obj w)\<lparr>scaler := sc, pca := Some p\<rparr>"
  using assms by (auto simp: fit_preprocess_def Let_def split: sum.splits prod.splits)

lemma fit_network_Inr:
  "fst (fit_network L k nc e b Xt yt Xv yv s) = Inr () \<Longrightarrow>
   \<exists>net h. snd (fit_network L k nc e b Xt yt Xv yv s) = s\<lparr>model := Some net, history := Some h\<rparr>"
  by (auto simp: fit_network_def Let_def split: option.splits sum.splits prod.splits)

lemma newaxis_shape:
  "is_matrix k Y \<Longrightarrow> length (newaxis Y) = length Y \<and>
     (\<forall>s \<in> set (newaxis Y). length s = k \<and> (\<forall>v \<in> set s. length v = 1))"
  by (auto simp: newaxis_def is_matrix_iff)

lemma fit_encode_balance_labels:
  assumes "choice_ok (ros_choice L)" and "fst (fit_encode_balance L X y cb s) = Inr (Xb, yb)"
  shows "set yb = {0..<length (np_unique y)}"
proof (cases cb)
  case True
  then have "ros_fit_resample (ros_choice L) X (snd (le_fit_transform y)) = Inr (Xb, yb)"
    using assms(2) by (simp add: fit_encode_balance_def case_prod_beta Let_def)
  from ros_fit_resample_balanced [OF assms(1) this] show ?thesis by (simp add: set_codes)
next
  case False
  then show ?thesis using assms(2) by (auto simp: fit_encode_balance_def case_prod_beta Let_def set_codes)
qed

lemma one_hot_total: "\<forall>c \<in> set ys. c < k \<Longrightarrow> \<exists>Y. one_hot k ys = Inr Y \<and> length Y = length ys"
  by (simp add: one_hot_Inr)

lemma evaluate_Inr:
  assumes enc: "label_encoder (obj w) = le_fit ys" and ev: "evaluate L d X y w = (Inr m, w')"
  obtains yp where "predict L d X w = (Inr yp, w')"
    "confusion_matrix y yp = Inr (eval_confusion_matrix m)" "eval_accuracy m = accuracy_score y yp"
proof (cases "predict L d X w")
  case (Pair r w1)
  have o: "obj w1 = obj w" using predict_obj [of L d X w] Pair by simp
  show thesis
  proof (cases r)
    case (Inl e)
    with Pair ev show thesis by (simp add: evaluate_def)
  next
    case (Inr yp)
    let ?cls = "np_unique ys"
    have e1: "label_encoder (obj w1) = Some ?cls" using o enc by (simp add: le_fit_def)
    from ev Pair Inr e1 obtain cm rep where
        sub: "set y \<subseteq> set ?cls" "set yp \<subseteq> set ?cls"
      and cm: "confusion_matrix (map (searchsorted ?cls) y) (map (searchsorted ?cls) yp) = Inr cm"
      and rep: "classification_report y yp = Inr rep"
      and m: "m = \<lparr>eval_accuracy = report_accuracy rep, eval_confusion_matrix = cm, eval_report = rep\<rparr>"
      and w': "w' = w1"
      by (auto simp: evaluate_def le_transform_Some rbind_eq_Inr_iff split: if_splits)
    have "confusion_matrix (map (searchsorted ?cls) y) (map (searchsorted ?cls) yp) = confusion_matrix y yp"
      by (rule confusion_matrix_map_mono, rule encoder_codes_mono) (use sub in auto)
    moreover have "report_accuracy rep = accuracy_score y yp"
      using rep by (auto simp: classification_report_def Let_def split: if_splits)
    ultimately show thesis using that [of yp] cm m w' Pair Inr by simp
  qed
qed

section \<open>Properties of the pipeline\<close>

text \<open>
  Calling \<open>predict\<close> before a network exists raises the class's own
  "Model has not been trained yet" error and changes nothing.
\<close>

theorem predict_not_trained:
  "model (obj w) = None \<Longrightarrow> predict L d X w = (Inl NotTrained, w)"
  by (simp add: predict_def)

theorem predict_not_trained_witness:
  "model (obj \<lparr>obj = (default_model :: (unit, nat) hybrid_model), rng_pos = 0\<rparr>) = None \<and>
   predict (undefined :: unit libs) 1 [[1]] \<lparr>obj = (default_model :: (unit, nat) hybrid_model), rng_pos = 0\<rparr> =
     (Inl NotTrained, \<lparr>obj = (default_model :: (unit, nat) hybrid_model), rng_pos = 0\<rparr>)"
proof -
  have h: "model (obj \<lparr>obj = (default_model :: (unit, nat) hybrid_model), rng_pos = 0\<rparr>) = None"
    by (simp add: default_model_def init_model_def)
  show ?thesis using h predict_not_trained [OF h, of undefined 1 "[[1]]"] by simp
qed


text \<open>
  C2. Invariant of the object's life cycle: in every world a program can reach, a network
  is only present together with a fitted label encoder and a PCA, and a training history
  only together with a network.
\<close>

theorem reachable_model_inv:
  "reachable L w \<Longrightarrow> model_inv (obj w)"
  by (rule reachable_inv)

theorem reachable_model_inv_witness:
  "reachable (undefined :: unit libs) \<lparr>obj = (default_model :: (unit, nat) hybrid_model), rng_pos = 0\<rparr> \<and>
   model_inv (obj \<lparr>obj = (default_model :: (unit, nat) hybrid_model), rng_pos = 0\<rparr>)"
proof -
  have r: "reachable (undefined :: unit libs) \<lparr>obj = (default_model :: (unit, nat) hybrid_model), rng_pos = 0\<rparr>"
    unfolding default_model_def by (rule reachable.init)
  show ?thesis using r reachable_model_inv [OF r] by simp
qed

text \<open>
  C18. \<open>predict\<close> has no effect on the object: whether it returns or raises, the only
  change to the world is the position of NumPy's global generator.
\<close>

theorem predict_only_advances_rng:
  "\<exists>p. snd (predict L d X w) = w\<lparr>rng_pos := p\<rparr>"
proof -
  have "obj (snd (predict L d X w)) = obj w" by simp
  then have "snd (predict L d X w) = w\<lparr>rng_pos := rng_pos (snd (predict L d X w))\<rparr>"
    by (intro world.equality) simp_all
  then show ?thesis by blast
qed

text \<open>
  C19. Label round trip of the training targets: the labels encoded by \<open>fit\<close>, turned into
  one-hot rows with as many columns as there are classes, and decoded as \<open>predict\<close> decodes
  the network's output (arg-max per row, then \<open>inverse_transform\<close>), give back the
  original labels.
\<close>

theorem label_round_trip:
  "rbind (one_hot (length (np_unique y)) (snd (le_fit_transform y)))
         (predict_decode (fst (le_fit_transform y))) = Inr y"
proof -
  have "one_hot (length (np_unique y)) (snd (le_fit_transform y)) =
        Inr (map (\<lambda>c. map (\<lambda>j. if j = c then 1 else 0) [0..<length (np_unique y)])
                 (snd (le_fit_transform y)))"
    using codes_bound by (rule one_hot_Inr)
  moreover have "argmax_rows (map (\<lambda>c. map (\<lambda>j. if j = c then 1 else 0) [0..<length (np_unique y)])
                 (snd (le_fit_transform y))) = Inr (snd (le_fit_transform y))"
    using codes_bound by (rule argmax_rows_one_hot)
  ultimately show ?thesis by (simp add: predict_decode_def decode_codes)
qed


text \<open>
  C31. Boundary of class balancing: \<open>fit\<close> with \<open>class_balance=True\<close> on a well-formed
  feature matrix (at least one feature, as many label values as samples) whose labels are
  all of one class is rejected by the oversampler ("needs to have more than 1 class")
  before any other stage runs.
\<close>

theorem fit_single_class:
  "is_matrix d X \<Longrightarrow> 0 < d \<Longrightarrow> length X = length y \<Longrightarrow> length (np_unique y) = 1 \<Longrightarrow>
   fst (fit L d X y epochs batch_size vs True w) = Inl SingleClass"
proof -
  assume a: "is_matrix d X" "0 < d" "length X = length y" "length (np_unique y) = 1"
  then have "X \<noteq> []" by (cases y) (auto simp: np_unique_def)
  moreover from this a(1,2) have "hd X \<noteq> []" by (cases X) (auto simp: is_matrix_def)
  ultimately have "fst (fit_encode_balance L X y True (obj w)) = Inl SingleClass"
    using a(3,4) by (intro fit_encode_balance_single_class) simp_all
  moreover obtain r s where eb: "fit_encode_balance L X y True (obj w) = (r, s)" by fastforce
  ultimately show ?thesis by (simp add: fit_def)
qed

theorem fit_single_class_witness:
  "is_matrix 1 [[0::real], [3]] \<and> 0 < (1::nat) \<and> length [[0::real], [3]] = length [1, 1::nat] \<and>
   length (np_unique [1, 1::nat]) = 1 \<and>
   fst (fit (undefined :: unit libs) 1 [[0], [3]] [1, 1::nat] 50 32 (1 / 5) True
          \<lparr>obj = (default_model :: (unit, nat) hybrid_model), rng_pos = 0\<rparr>) = Inl SingleClass"
proof -
  have a: "is_matrix 1 [[0::real], [3]]" "0 < (1::nat)" "length [[0::real], [3]] = length [1, 1::nat]"
    "length (np_unique [1, 1::nat]) = 1"
    by (simp_all add: np_unique_def is_matrix_def)
  show ?thesis using a fit_single_class [OF a] by simp
qed

text \<open>
  C21. With \<open>class_balance=True\<close>, when encoding and oversampling return, the labels are
  the codes \<open>0, ..., k - 1\<close> of the \<open>k\<close> classes, every class occurs equally often, and
  the original samples come first, unchanged and in order.
\<close>

theorem fit_encode_balance_balanced:
  assumes ch: "choice_ok (ros_choice L)" and r: "fst (fit_encode_balance L X y True s) = Inr (Xb, yb)"
  shows "set yb = {0..<length (np_unique y)} \<and>
         (\<forall>c \<in> set yb. \<forall>c' \<in> set yb. count_list yb c = count_list yb c') \<and>
         take (length y) yb = snd (le_fit_transform y) \<and> take (length X) Xb = X \<and>
         length Xb = length yb"
proof -
  have rr: "ros_fit_resample (ros_choice L) X (snd (le_fit_transform y)) = Inr (Xb, yb)"
    using r by (simp add: fit_encode_balance_def case_prod_beta Let_def)
  note b = ros_fit_resample_balanced [OF ch rr]
  have "length (snd (le_fit_transform y)) = length y" by (simp add: le_fit_transform_def)
  with b show ?thesis by (simp add: set_codes)
qed

theorem fit_encode_balance_balanced_witness:
  "choice_ok (\<lambda>k n. 0) \<and>
   fst (fit_encode_balance \<lparr>np_normal = (\<lambda>i. 0), ros_choice = (\<lambda>k n. 0), split_perm = (\<lambda>n. [0..<n]),
       pca_svd = (\<lambda>k d Xc. []), keras_compile = (\<lambda>M. ()),
       keras_fit = (\<lambda>net e b Xt yt Xv yv. Inl ShapeMismatch),
       keras_predict = (\<lambda>net X. Inl ShapeMismatch)\<rparr>
     [[0], [2], [4]] [5, 5, 7::nat] True (default_model :: (unit, nat) hybrid_model)) =
     Inr ([[0], [2], [4], [4]], [0, 0, 1, 1])"
proof -
  let ?L = "\<lparr>np_normal = (\<lambda>i. 0), ros_choice = (\<lambda>k n. 0), split_perm = (\<lambda>n. [0..<n]),
       pca_svd = (\<lambda>k d Xc. []), keras_compile = (\<lambda>M. ()),
       keras_fit = (\<lambda>net e b Xt yt Xv yv. Inl ShapeMismatch),
       keras_predict = (\<lambda>net X. Inl ShapeMismatch)\<rparr> :: unit libs"
  have c: "choice_ok (ros_choice ?L)" by (simp add: choice_ok_def)
  have r: "fst (fit_encode_balance ?L [[0], [2], [4]] [5, 5, 7::nat] True (default_model :: (unit, nat) hybrid_model)) =
     Inr ([[0], [2], [4], [4]], [0, 0, 1, 1])"
    by (simp add: fit_encode_balance_def le_fit_transform_def le_fit_def np_unique_def searchsorted_def
        ros_fit_resample_def sampling_strategy_def class_counts_def class_majority_def list_max_def
        flatnonzero_def Let_def)
  show ?thesis using c r fit_encode_balance_balanced [OF c r] by simp
qed

text \<open>
  C5. Training and inference apply the same fitted transforms: after the preprocessing
  stage of \<open>fit\<close> returns, the inference path of \<open>predict\<close> maps the training part and the
  validation part to exactly the tensors \<open>fit\<close> trained and validated on, when the
  generator is at the position \<open>fit\<close> used for that part (the recalibration weights are
  the only difference).
\<close>

theorem fit_predict_same_transform:
  assumes "fit_preprocess L d X_train X_test w = (Inr (Xt, Xv, k), w')"
  shows "(\<exists>p. fst (predict_preprocess L d X_train (w'\<lparr>rng_pos := p\<rparr>)) = Inr Xt) \<and>
         (\<exists>p. fst (predict_preprocess L d X_test (w'\<lparr>rng_pos := p\<rparr>)) = Inr Xv)"
proof -
  from assms obtain sc Xs Xts p Xtp Xtep Ytr Yte p1 where
    a: "scaler_fit_transform d X_train = Inr (sc, Xs)" "scaler_transform sc d X_test = Inr Xts"
    "apply_pca (pca_svd L) (n_components (obj w)) d Xs Xts = (Inr (Xtp, Xtep), p)"
    "k = pca_out_dim p"
    "squeeze_and_excitation (np_normal L) 16 k Xtp (rng_pos w) = Inr (Ytr, p1)"
    "squeeze_and_excitation (np_normal L) 16 k Xtep p1 = Inr (Yte, rng_pos w')"
    "Xt = newaxis Ytr" "Xv = newaxis Yte" "obj w' = (obj w)\<lparr>scaler := sc, pca := Some p\<rparr>"
    by (rule fit_preprocess_Inr)
  note sc = scaler_fit_transform_Inr [OF a(1)]
  note pc = apply_pca_Inr_transform [OF a(3)]
  have "fst (predict_preprocess L d X_train (w'\<lparr>rng_pos := rng_pos w\<rparr>)) = Inr Xt"
    using a sc pc by (simp add: predict_preprocess_def)
  moreover have "fst (predict_preprocess L d X_test (w'\<lparr>rng_pos := p1\<rparr>)) = Inr Xv"
    using a sc pc by (simp add: predict_preprocess_def)
  ultimately show ?thesis by blast
qed

text \<open>
  C16. A call of \<open>fit\<close> that returns leaves every piece of fitted state set: the network
  and its history, the label encoder fitted on \<open>y\<close>, a fitted scaler, and a PCA fitted
  with the object's \<open>n_components\<close>.
\<close>

theorem fit_success_state:
  assumes "fst (fit L d X y epochs batch_size vs cb w) = Inr ()"
  shows "model (obj (snd (fit L d X y epochs batch_size vs cb w))) \<noteq> None \<and>
         history (obj (snd (fit L d X y epochs batch_size vs cb w))) \<noteq> None \<and>
         label_encoder (obj (snd (fit L d X y epochs batch_size vs cb w))) = le_fit y \<and>
         scaler (obj (snd (fit L d X y epochs batch_size vs cb w))) \<noteq> None \<and>
         (\<exists>P. pca (obj (snd (fit L d X y epochs batch_size vs cb w))) =
               Some (PCA_fitted (n_components (obj w)) P))"
proof (cases rule: fit_world_cases [where L = L and d = d and X = X and y = y and epochs = epochs
      and batch_size = batch_size and vs = vs and cb = cb and w = w])
  case (net X_tr X_te Xt Xv k w2 nc yt yv)
  let ?w1 = "w\<lparr>obj := (obj w)\<lparr>label_encoder := le_fit y\<rparr>\<rparr>"
  obtain sc Xs Xts p Xtp Xtep Ytr Yte p1 where
    a: "scaler_fit_transform d X_tr = Inr (sc, Xs)"
    "apply_pca (pca_svd L) (n_components (obj ?w1)) d Xs Xts = (Inr (Xtp, Xtep), p)"
    "obj w2 = (obj ?w1)\<lparr>scaler := sc, pca := Some p\<rparr>"
    by (rule fit_preprocess_Inr [OF net(1)]) blast
  from assms(1) net(2) obtain nt h where
    "snd (fit_network L k nc epochs batch_size Xt yt Xv yv (obj w2)) = (obj w2)\<lparr>model := Some nt, history := Some h\<rparr>"
    using fit_network_Inr by (metis fstI)
  moreover have "sc \<noteq> None" using scaler_fit_transform_Inr [OF a(1)] by simp
  moreover obtain Q where "p = PCA_fitted (n_components (obj w)) Q"
    using apply_pca_Inr_transform [OF a(2)] by auto
  ultimately show ?thesis using net(2) a(3) by simp
qed (use assms in simp_all)

text \<open>
  C24. Shapes and randomness of the preprocessing stage of \<open>fit\<close>: for well-formed inputs
  it yields tensors of shape \<open>(n, k, 1)\<close>, \<open>k\<close> being the object's \<open>n_components\<close>
  (the input shape \<open>build_model\<close> is then called with), one sample per input row, and the
  two recalibrations consume exactly \<open>4 k max(1, k // 16)\<close> normal draws.
\<close>

theorem fit_preprocess_shapes:
  assumes "pca_solver_ok (pca_svd L)" and "is_matrix d X_train" and "is_matrix d X_test"
    and "fit_preprocess L d X_train X_test w = (Inr (Xt, Xv, k), w')"
  shows "k = n_components (obj w) \<and> length Xt = length X_train \<and> length Xv = length X_test \<and>
         (\<forall>s \<in> set Xt \<union> set Xv. length s = k \<and> (\<forall>v \<in> set s. length v = 1)) \<and>
         rng_pos w' = rng_pos w + 4 * k * max 1 (k div 16)"
proof -
  from assms(4) obtain sc Xs Xts p Xtp Xtep Ytr Yte p1 where
    a: "scaler_fit_transform d X_train = Inr (sc, Xs)" "scaler_transform sc d X_test = Inr Xts"
    "apply_pca (pca_svd L) (n_components (obj w)) d Xs Xts = (Inr (Xtp, Xtep), p)"
    "k = pca_out_dim p"
    "squeeze_and_excitation (np_normal L) 16 k Xtp (rng_pos w) = Inr (Ytr, p1)"
    "squeeze_and_excitation (np_normal L) 16 k Xtep p1 = Inr (Yte, rng_pos w')"
    "Xt = newaxis Ytr" "Xv = newaxis Yte"
    by (rule fit_preprocess_Inr) blast
  have ls: "length Xs = length X_train" "length Xts = length X_test"
    using scaler_transform_shape scaler_fit_transform_Inr [OF a(1)] a(2) by blast+
  from apply_pca_shape [OF assms(1) a(3)] obtain Q where
    pc: "is_matrix (n_components (obj w)) Xtp" "is_matrix (n_components (obj w)) Xtep"
      "length Xtp = length Xs" "length Xtep = length Xts"
      "p = PCA_fitted (n_components (obj w)) Q" "length (components Q) = n_components (obj w)"
    by blast
  have k: "k = n_components (obj w)" using a(4) pc(5,6) by (simp add: pca_out_dim_def)
  note se1 = squeeze_and_excitation_shape [OF pc(1) [folded k] _ a(5)]
  note se2 = squeeze_and_excitation_shape [OF pc(2) [folded k] _ a(6)]
  have pos: "rng_pos w' = rng_pos w + 4 * k * max 1 (k div 16)" using se1 se2 by simp
  show ?thesis
    using k ls pc(3,4) se1 se2 newaxis_shape [of k Ytr] newaxis_shape [of k Yte] a(7,8) pos by auto
qed

text \<open>
  C25. The scaler \<open>fit\<close> stores is fitted on the training part only and standardises it:
  every column of the transformed training part has mean 0, and population variance 1
  unless the column is constant.
\<close>

theorem fit_scaler_standardises:
  assumes "fit_preprocess L d X_train X_test w = (Inr (Xt, Xv, k), w')"
  shows "\<exists>Y. scaler_transform (scaler (obj w')) d X_train = Inr Y \<and> (\<forall>j < d. mean (col Y j) = 0) \<and>
             (\<forall>j < d. var (col X_train j) \<noteq> 0 \<longrightarrow> var (col Y j) = 1)"
proof -
  from assms obtain sc Xs where
    a: "scaler_fit_transform d X_train = Inr (sc, Xs)" and o: "scaler (obj w') = sc"
    by (rule fit_preprocess_Inr) simp
  have "scaler_transform sc d X_train = Inr Xs" using scaler_fit_transform_Inr [OF a] by simp
  with scaler_fit_transform_standardises [OF a] o show ?thesis by blast
qed

text \<open>
  C32. The outcome of \<open>evaluate\<close> once \<open>predict\<close> has returned: it raises the
  encoder's "previously unseen labels" when the true labels contain a value outside the
  fitted classes, raises on true labels of another length than the input, and otherwise
  returns, with the report's accuracy as its \<open>'accuracy'\<close>. Re-encoding the predictions
  never fails.
\<close>

theorem evaluate_outcome:
  assumes k: "keras_predict_ok L" and e: "label_encoder (obj w) = Some cls"
    and p: "fst (predict L d X w) = Inr yp"
  shows "(\<not> set y \<subseteq> set cls \<longrightarrow> fst (evaluate L d X y w) = Inl UnseenLabel) \<and>
         (set y \<subseteq> set cls \<and> length y \<noteq> length X \<longrightarrow> fst (evaluate L d X y w) = Inl LengthMismatch) \<and>
         (set y \<subseteq> set cls \<and> length y = length X \<longrightarrow>
            (\<exists>m. fst (evaluate L d X y w) = Inr m \<and> eval_accuracy m = accuracy_score y yp))"
proof (cases "predict L d X w")
  case (Pair r w1)
  have o: "obj w1 = obj w" using predict_obj [of L d X w] Pair by simp
  from predict_Inr [OF k p] e have l: "length yp = length X" and sp: "set yp \<subseteq> set cls" by auto
  from Pair p have r: "r = Inr yp" by simp
  show ?thesis
    using Pair r o e l sp
    by (auto simp: evaluate_def le_transform_Some confusion_matrix_def classification_report_def Let_def)
qed

text \<open>
  C17. The one-hot stage of \<open>fit\<close> never raises: after encoding, balancing and the split
  return, every label of either part is below the class count \<open>len(np.unique(y_resampled))\<close>,
  which is the number of classes of \<open>y\<close>, so \<open>np.eye(num_classes)[y]\<close> cannot go out of range.
\<close>

theorem fit_targets_total:
  assumes "choice_ok (ros_choice L)" and "permutation_ok (split_perm L)"
    and "fst (fit_encode_balance L X y cb s) = Inr (Xb, yb)"
    and "train_test_split (split_perm L) vs Xb yb = Inr (Xtr, Xte, ytr, yte)"
  shows "\<exists>Yt Yv. fit_targets yb ytr yte = Inr (length (np_unique y), Yt, Yv) \<and>
           length Yt = length ytr \<and> length Yv = length yte"
proof -
  have l: "set yb = {0..<length (np_unique y)}" by (rule fit_encode_balance_labels [OF assms(1,3)])
  then have k: "length (np_unique yb) = length (np_unique y)"
    by (simp add: length_np_unique)
  from train_test_split_labels [OF assms(2,4)] l
  have "\<forall>c \<in> set ytr. c < length (np_unique y)" "\<forall>c \<in> set yte. c < length (np_unique y)" by auto
  from one_hot_total [OF this(1)] one_hot_total [OF this(2)] k show ?thesis
    by (auto simp: fit_targets_def)
qed

text \<open>
  C23. The two outputs of \<open>evaluate\<close> agree: its accuracy times the number of samples is
  the trace of its confusion matrix.
\<close>

theorem evaluate_accuracy_trace:
  assumes "label_encoder (obj w) = le_fit ys" and "evaluate L d X y w = (Inr m, w')"
  shows "eval_accuracy m * real (length y) =
         real (sum_list (map (\<lambda>i. eval_confusion_matrix m ! i ! i) [0..<length (eval_confusion_matrix m)]))"
proof -
  obtain yp where cm: "confusion_matrix y yp = Inr (eval_confusion_matrix m)"
    and acc: "eval_accuracy m = accuracy_score y yp"
    by (rule evaluate_Inr [OF assms])
  have l: "length y = length yp" using cm by (simp add: confusion_matrix_def split: if_splits)
  have "count_list (map2 (=) y yp) True \<le> length y"
    using l by (metis count_le_length length_map map_fst_zip)
  then show ?thesis using confusion_matrix_trace [OF cm] acc
    by (cases "length y = 0") (simp_all add: accuracy_score_def)
qed

end
