(* ===== verification/Forward.thy ===== *)
theory Forward
  imports Transformer Pipeline
begin

text \<open>
  The numeric meaning of the network \<open>build_model\<close> (\<open>src/model.py\<close>, lines 183-228)
  builds, on one sample at inference: Keras' \<open>LSTM\<close> cell and its two uses (the whole
  sequence of hidden states for \<open>return_sequences=True\<close>, the last state otherwise), the
  transformer block of \<open>Transformer\<close>, the query and key projections and the additive
  attention of \<open>Network\<close>, and the classification head. \<open>keras_predict_forward\<close> is
  \<open>Model.predict\<close> of a trained network: the forward pass on every sample of a batch
  whose shape matches the model's input. The theory proves that the LSTM's hidden states
  lie in \<open>(-1, 1)\<close>, that the last state is the last element of the sequence of states,
  that the prediction does not depend on the attention block's four layers, and that every
  prediction is a probability vector over the classes.
\<close>

section \<open>The LSTM layer\<close>

text \<open>
  The weights of \<open>LSTM(units)\<close>: the input kernel (\<open>f \<times> 4 units\<close>), the recurrent
  kernel (\<open>units \<times> 4 units\<close>) and the bias, with the gates in Keras' order \<open>i, f, c, o\<close>.
\<close>

record lstm_params =
  lstm_kernel :: matrix
  lstm_recurrent :: matrix
  lstm_bias :: vec

text \<open>
  One step of the cell from the state \<open>(h, c)\<close> on the input \<open>x\<close>, with Keras'
  defaults \<open>activation='tanh'\<close> and \<open>recurrent_activation='sigmoid'\<close>.
\<close>

definition lstm_cell :: "nat \<Rightarrow> lstm_params \<Rightarrow> vec \<times> vec \<Rightarrow> vec \<Rightarrow> vec \<times> vec" where
  "lstm_cell u P hc x =
     (let (h, c) = hc;
          z = map (\<lambda>j. dot x (col (lstm_kernel P) j) + dot h (col (lstm_recurrent P) j) + lstm_bias P ! j)
                [0..<4 * u];
          i = map sigmoid (take u z);
          f = map sigmoid (take u (drop u z));
          g = map tanh (take u (drop (2 * u) z));
          og = map sigmoid (drop (3 * u) z);
          c = map2 (+) (map2 (*) f c) (map2 (*) i g)
      in (map2 (*) og (map tanh c), c))"

definition lstm_zero :: "nat \<Rightarrow> vec \<times> vec" where
  "lstm_zero u = (replicate u 0, replicate u 0)"

fun lstm_scan :: "nat \<Rightarrow> lstm_params \<Rightarrow> vec \<times> vec \<Rightarrow> vec list \<Rightarrow> vec list" where
  "lstm_scan u P s [] = []"
| "lstm_scan u P s (x # xs) = (let s = lstm_cell u P s x in fst s # lstm_scan u P s xs)"

text \<open>\<open>LSTM(units, return_sequences=True)\<close>: the hidden state after every step.\<close>

definition lstm_seq :: "nat \<Rightarrow> lstm_params \<Rightarrow> vec list \<Rightarrow> vec list" where
  "lstm_seq u P xs = lstm_scan u P (lstm_zero u) xs"

text \<open>\<open>LSTM(units)\<close>: the hidden state after the last step.\<close>

definition lstm_last :: "nat \<Rightarrow> lstm_params \<Rightarrow> vec list \<Rightarrow> vec" where
  "lstm_last u P xs = fst (fold (\<lambda>x s. lstm_cell u P s x) xs (lstm_zero u))"

section \<open>The network\<close>

text \<open>The weights of the layers \<open>build_model\<close> creates, in the order it creates them.\<close>

record network_params =
  lstm1 :: lstm_params
  block :: transformer_params
  query_dense :: dense_params
  key_dense :: dense_params
  score_dense :: dense_params
  weight_dense :: dense_params
  lstm2 :: lstm_params
  hidden_dense :: dense_params
  out_dense :: dense_params

text \<open>The forward pass of one sample; \<open>Dropout\<close> is the identity at inference.\<close>

definition network_forward :: "'c net_config_scheme \<Rightarrow> nat \<Rightarrow> network_params \<Rightarrow> vec list \<Rightarrow> vec" where
  "network_forward cfg num_classes N xs =
     (let u = lstm_units cfg;
          x = lstm_seq u (lstm1 N) xs;
          transformer_output = transformer_block_eval u (ff_dim cfg) (block N) x;
          query = map (dense_eval u Linear (query_dense N)) transformer_output;
          key = map (dense_eval u Linear (key_dense N)) transformer_output;
          attention_output = additive_attention_eval (score_dense N) (weight_dense N) query key
                               transformer_output;
          x = lstm_last u (lstm2 N) attention_output;
          x = dense_eval 128 ReluAct (hidden_dense N) x
      in dense_eval num_classes SoftmaxAct (out_dense N) x)"

text \<open>
  A trained network: the hyperparameters it was built with, the input shape \<open>(t, f)\<close>,
  the number of classes and the weights. \<open>Model.predict\<close> raises on a batch whose samples
  do not have the input shape, and otherwise returns one row of class probabilities per
  sample.
\<close>

record trained_net =
  tn_cfg :: net_config
  tn_steps :: nat
  tn_features :: nat
  tn_classes :: nat
  tn_params :: network_params

definition keras_predict_forward :: "trained_net \<Rightarrow> tensor3 \<Rightarrow> matrix result" where
  "keras_predict_forward T X =
     (if list_all (\<lambda>s. length s = tn_steps T \<and> is_matrix (tn_features T) s) X
      then Inr (map (network_forward (tn_cfg T) (tn_classes T) (tn_params T)) X)
      else Inl ShapeMismatch)"

section \<open>Lemmas\<close>

lemma abs_mult_less_1: "0 < (a::real) \<Longrightarrow> a < 1 \<Longrightarrow> \<bar>b\<bar> < 1 \<Longrightarrow> \<bar>a * b\<bar> < 1"
  by (simp add: abs_mult) (metis abs_of_pos less_trans mult_strict_left_mono mult.right_neutral)

lemma abs_tanh_less_1: "\<bar>tanh (x::real)\<bar> < 1"
  using tanh_real_lt_1 tanh_real_gt_neg1 by (simp add: abs_less_iff)

lemma lstm_cell_length:
  assumes "length (snd hc) = u"
  shows "length (fst (lstm_cell u P hc x)) = u \<and> length (snd (lstm_cell u P hc x)) = u"
  using assms by (cases hc) (simp add: lstm_cell_def Let_def)

lemma lstm_cell_bound:
  assumes "j < length (fst (lstm_cell u P hc x))"
  shows "\<bar>fst (lstm_cell u P hc x) ! j\<bar> < 1"
  using assms
  by (cases hc) (simp add: lstm_cell_def Let_def abs_mult_less_1 sigmoid_pos sigmoid_less_1 abs_tanh_less_1)

lemma lstm_scan_shape:
  assumes "length (snd s) = u"
  shows "length (lstm_scan u P s xs) = length xs \<and> is_matrix u (lstm_scan u P s xs) \<and>
         list_all (list_all (\<lambda>v. \<bar>v\<bar> < 1)) (lstm_scan u P s xs)"
  using assms
proof (induction xs arbitrary: s)
  case Nil
  then show ?case by simp
next
  case (Cons x xs)
  let ?s = "lstm_cell u P s x"
  have l: "length (fst ?s) = u" "length (snd ?s) = u"
    using lstm_cell_length [OF Cons.prems] by simp_all
  have b: "list_all (\<lambda>v. \<bar>v\<bar> < 1) (fst ?s)"
    by (simp add: list_all_length lstm_cell_bound)
  show ?case
    using Cons.IH [OF l(2)] l(1) b by (simp add: Let_def)
qed

lemma lstm_fold_last:
  "xs \<noteq> [] \<Longrightarrow> fst (fold (\<lambda>x s. lstm_cell u P s x) xs s) = last (lstm_scan u P s xs)"
proof (induction xs arbitrary: s)
  case Nil
  then show ?case by simp
next
  case (Cons x xs)
  then show ?case by (cases xs) (simp_all add: Let_def)
qed

lemma softmax_distribution:
  assumes "zs \<noteq> []"
  shows "sum_list (softmax zs) = 1 \<and> list_all (\<lambda>p. 0 < p) (softmax zs)"
proof -
  have "0 < sum_list (map exp zs)"
  proof (cases zs)
    case (Cons a r)
    have "0 \<le> sum_list (map exp r)"
      by (rule sum_list_nonneg) auto
    then show ?thesis
      using Cons by (simp add: add_pos_nonneg)
  qed (use assms in simp)
  then show ?thesis
    by (simp add: softmax_def sum_list_map_div list_all_iff)
qed

lemma dense_eval_softmax:
  "dense_eval k SoftmaxAct P x = softmax (map (\<lambda>j. dot x (col (kernel P) j) + bias P ! j) [0..<k])"
  by (simp add: dense_eval_def activate_def)

text \<open>
  The second LSTM (\<open>return_sequences=False\<close>) returns the last of the hidden states
  the same layer returns with \<open>return_sequences=True\<close>.
\<close>

theorem lstm_last_is_last:
  "xs \<noteq> [] \<Longrightarrow> lstm_last u P xs = last (lstm_seq u P xs)"
  by (simp add: lstm_last_def lstm_seq_def lstm_fold_last)

text \<open>
  C7. The prediction does not depend on the attention block: the network computes the
  same function as the one without the query and key projections and the additive
  attention, whatever their weights.
\<close>

theorem network_forward_skips_attention:
  "network_forward cfg k N xs =
     dense_eval k SoftmaxAct (out_dense N)
       (dense_eval 128 ReluAct (hidden_dense N)
         (lstm_last (lstm_units cfg) (lstm2 N)
           (transformer_block_eval (lstm_units cfg) (ff_dim cfg) (block N)
             (lstm_seq (lstm_units cfg) (lstm1 N) xs))))"
  by (simp add: network_forward_def Let_def additive_attention_eval_ones bcast_mul_ones)

text \<open>
  C27. For at least one class, the network maps every sample to a probability vector over
  the classes: \<open>num_classes\<close> positive values that sum to 1.
\<close>

theorem network_forward_distribution:
  "0 < k \<Longrightarrow> length (network_forward cfg k N xs) = k \<and> sum_list (network_forward cfg k N xs) = 1 \<and>
     list_all (\<lambda>p. 0 < p) (network_forward cfg k N xs)"
  unfolding network_forward_def Let_def dense_eval_softmax
  by (intro conjI softmax_distribution [THEN conjunct1] softmax_distribution [THEN conjunct2])
     (simp_all add: softmax_def)

end
