(* ===== verification/Usage.thy ===== *)
theory Usage
  imports Pipeline
begin

text \<open>
  The usage example at the end of \<open>src/model.py\<close> (lines 448-480, a string literal
  showing the intended use of the class): construct the object with
  \<open>n_components=20, lstm_units=64, num_heads=4, ff_dim=128, dropout_rate=0.2\<close> (and the
  default \<open>random_state=42\<close>), \<open>fit\<close> on the whole dataset with \<open>epochs=50,
  batch_size=32\<close> (and the defaults \<open>validation_split=0.2, class_balance=True\<close>), then
  \<open>predict\<close> and \<open>evaluate\<close> on a test set, print the accuracy, and draw the two plots.
  A script stops at the first exception, so the example is the sequence of the calls
  with the world threaded through them and the first error returned. Reading the CSV
  file is I/O and is not modelled: the dataset is the feature matrix and the labels; the
  script uses \<open>X_test\<close> and \<open>y_test\<close> without defining them, and they are inputs here.
\<close>

record 'a usage_output =
  usage_predictions :: "'a list"
  usage_accuracy :: real
  usage_curves :: "vec \<times> vec \<times> vec \<times> vec"
  usage_confusion :: "nat list list"

definition usage_example ::
  "'net libs \<Rightarrow> nat \<Rightarrow> matrix \<Rightarrow> 'a::linorder list \<Rightarrow> matrix \<Rightarrow> 'a list \<Rightarrow> nat \<Rightarrow>
   'a usage_output result \<times> ('net, 'a) world" where
  "usage_example L d X y X_test y_test p =
     (let w = \<lparr>obj = init_model 20 64 4 128 (1 / 5) 42, rng_pos = p\<rparr> in
      case fit L d X y 50 32 (1 / 5) True w of
        (Inl e, w) \<Rightarrow> (Inl e, w)
      | (Inr _, w) \<Rightarrow>
          (case predict L d X_test w of
             (Inl e, w) \<Rightarrow> (Inl e, w)
           | (Inr predictions, w) \<Rightarrow>
               (case evaluate L d X_test y_test w of
                  (Inl e, w) \<Rightarrow> (Inl e, w)
                | (Inr metrics, w) \<Rightarrow>
                    (case plot_training_history w of
                       Inl e \<Rightarrow> (Inl e, w)
                     | Inr curves \<Rightarrow>
                         (case plot_confusion_matrix L d X_test y_test w of
                            (Inl e, w) \<Rightarrow> (Inl e, w)
                          | (Inr cm, w) \<Rightarrow>
                              (Inr \<lparr>usage_predictions = predictions,
                                    usage_accuracy = eval_accuracy metrics,
                                    usage_curves = curves, usage_confusion = cm\<rparr>, w))))))"

section \<open>Lemmas\<close>

lemma reachable_fit_step:
  "fit L d X y e b vs cb w = (r, w') \<Longrightarrow> reachable L w \<Longrightarrow> reachable L w'"
  by (metis reachable.fit snd_conv)

lemma reachable_predict_step:
  "predict L d X w = (r, w') \<Longrightarrow> reachable L w \<Longrightarrow> reachable L w'"
  by (metis reachable.predict snd_conv)

lemma reachable_evaluate_step:
  "evaluate L d X y w = (r, w') \<Longrightarrow> reachable L w \<Longrightarrow> reachable L w'"
  by (metis reachable.evaluate snd_conv)

lemma reachable_plot_cm_step:
  "plot_confusion_matrix L d X y w = (r, w') \<Longrightarrow> reachable L w \<Longrightarrow> reachable L w'"
  by (metis reachable.plot_cm snd_conv)

lemmas reachable_steps =
  reachable_fit_step reachable_predict_step reachable_evaluate_step reachable_plot_cm_step

lemma apply_pca_Inr_fit:
  "apply_pca svd k d A B = (Inr r, P) \<Longrightarrow> \<exists>Q. pca_fit svd k d A = Inr Q"
  by (auto simp: apply_pca_def pca_fit_transform_def rbind_eq_Inr_iff split: sum.splits)

text \<open>A \<open>fit\<close> that returns has fitted a PCA of \<open>n_components\<close> axes on \<open>d\<close> features.\<close>

lemma fit_Inr_components:
  assumes "fst (fit L d X y epochs batch_size vs cb w) = Inr ()"
  shows "n_components (obj w) \<le> d"
proof (cases rule: fit_world_cases [where L = L and d = d and X = X and y = y and epochs = epochs
      and batch_size = batch_size and vs = vs and cb = cb and w = w])
  case (net X_tr X_te Xt Xv k w2 nc yt yv)
  let ?w1 = "w\<lparr>obj := (obj w)\<lparr>label_encoder := le_fit y\<rparr>\<rparr>"
  obtain sc Xs Xts p Xtp Xtep where
    "apply_pca (pca_svd L) (n_components (obj ?w1)) d Xs Xts = (Inr (Xtp, Xtep), p)"
    by (rule fit_preprocess_Inr [OF net(1)]) blast
  then obtain Q where "pca_fit (pca_svd L) (n_components (obj w)) d Xs = Inr Q"
    using apply_pca_Inr_fit by fastforce
  then show ?thesis
    by (simp add: pca_fit_Inr_iff)
qed (use assms in simp_all)

lemma usage_example_Inr_fit:
  "\<not> isl (fst (usage_example L d X y X_test y_test p)) \<Longrightarrow>
   fst (fit L d X y 50 32 (1 / 5) True \<lparr>obj = init_model 20 64 4 128 (1 / 5) 42, rng_pos = p\<rparr>) = Inr ()"
  by (auto simp: usage_example_def Let_def split: prod.splits sum.splits)

section \<open>Properties\<close>

text \<open>
  C33. With the example's \<open>n_components=20\<close>, the usage example raises on every dataset
  with fewer than 20 features, whatever the libraries do: \<open>fit\<close> cannot return, since
  PCA needs at least as many features as components.
\<close>

theorem usage_example_few_features:
  "d < 20 \<Longrightarrow> isl (fst (usage_example L d X y X_test y_test p))"
  using fit_Inr_components [OF usage_example_Inr_fit] by (fastforce simp: init_model_def)

end
