(* ===== verification/Example_Run.thy ===== *)
theory Example_Run
  imports Forward Usage
begin

text \<open>
  One concrete run of the class, evaluated by the simplifier: the libraries are fixed to
  simple instances that meet their contracts (a constant normal stream, the identity
  shuffle, a solver returning the all-ones axis, a network whose training returns at once and
  whose prediction puts all mass on the first class), and the object is
  \<open>HybridLSTMTransformerModel(n_components=1)\<close>. \<open>fit\<close> on four one-feature samples
  with labels 5, 5, 7, 7 and \<open>validation_split=0.5\<close> runs every stage (encoding,
  oversampling, split, scaling, PCA, both recalibrations, the one-hot targets, building the
  21-node graph and training) and yields the trained object \<open>ex_trained\<close>; \<open>predict\<close>,
  \<open>evaluate\<close> and \<open>plot_confusion_matrix\<close> are then run on it. The runs serve as the
  instances at which the properties of the development are exercised.
\<close>

definition ex_libs :: "unit libs" where
  "ex_libs = \<lparr>np_normal = (\<lambda>i. 0), ros_choice = (\<lambda>k n. 0), split_perm = (\<lambda>n. [0..<n]),
     pca_svd = (\<lambda>k d Xc. replicate k (replicate d 1)), keras_compile = (\<lambda>M. ()),
     keras_fit = (\<lambda>net e b Xt yt Xv yv. Inr ((), \<lparr>hist_loss = [1], hist_accuracy = [1 / 2],
                    hist_val_loss = [1], hist_val_accuracy = [1 / 2]\<rparr>)),
     keras_predict = (\<lambda>net X. Inr (map (\<lambda>r. [1, 0]) X))\<rparr>"

definition ex_model :: "(unit, nat) hybrid_model" where
  "ex_model = init_model 1 64 4 128 (1 / 5) 42"

definition ex_history :: history where
  "ex_history = \<lparr>hist_loss = [1], hist_accuracy = [1 / 2], hist_val_loss = [1], hist_val_accuracy = [1 / 2]\<rparr>"

definition ex_trained :: "(unit, nat) hybrid_model" where
  "ex_trained = ex_model\<lparr>label_encoder := Some [5, 7], scaler := Some \<lparr>means = [1], scales = [1]\<rparr>,
     pca := Some (PCA_fitted 1 \<lparr>pca_mean = [0], components = [[1]]\<rparr>), model := Some (),
     history := Some ex_history\<rparr>"

text \<open>
  A network of the smallest configuration (one LSTM unit, one head, \<open>ff_dim = 1\<close>) with
  zero weights, on samples of one step of one feature, as \<open>fit\<close> builds it for
  \<open>n_components=1\<close>.
\<close>

definition ex_dense :: "nat \<Rightarrow> dense_params" where
  "ex_dense u = \<lparr>kernel = [], bias = replicate u 0\<rparr>"
definition ex_lstm :: lstm_params where
  "ex_lstm = \<lparr>lstm_kernel = [], lstm_recurrent = [], lstm_bias = replicate 4 0\<rparr>"
definition ex_net_params :: network_params where
  "ex_net_params = \<lparr>lstm1 = ex_lstm,
     block = \<lparr>mha = \<lparr>mha_heads = [\<lparr>q_proj = ex_dense 1, k_proj = ex_dense 1, v_proj = ex_dense 1\<rparr>],
                     out_proj = ex_dense 1\<rparr>,
              ln1 = \<lparr>gamma = [1], beta = [0]\<rparr>, ff1 = ex_dense 1, ff2 = ex_dense 1,
              ln2 = \<lparr>gamma = [1], beta = [0]\<rparr>\<rparr>,
     query_dense = ex_dense 1, key_dense = ex_dense 1, score_dense = ex_dense 32,
     weight_dense = ex_dense 1, lstm2 = ex_lstm, hidden_dense = ex_dense 128, out_dense = ex_dense 2\<rparr>"
definition ex_net :: trained_net where
  "ex_net = \<lparr>tn_cfg = \<lparr>lstm_units = 1, num_heads = 1, ff_dim = 1, dropout_rate = 1 / 5\<rparr>,
     tn_steps = 1, tn_features = 1, tn_classes = 2, tn_params = ex_net_params\<rparr>"
section \<open>The stages of fit\<close>

lemma ex_encode: "le_fit_transform [5, 5, 7, 7::nat] = (Some [5, 7], [0, 0, 1, 1])"
  by (simp add: le_fit_transform_def le_fit_def np_unique_def searchsorted_def)

lemma ex_resample: "ros_fit_resample (\<lambda>k n. 0) [[0], [2], [0], [2::real]] [0, 0, 1, 1] = Inr ([[0], [2], [0], [2]], [0, 0, 1, 1])"
  by (simp add: ros_fit_resample_def np_unique_def sampling_strategy_def class_counts_def class_majority_def list_max_def flatnonzero_def Let_def)

lemma ex_split: "train_test_split (\<lambda>n. [0..<n]) (1 / 2) [[0], [2], [0], [2::real]] [0, 0, 1, 1::nat] =
  Inr ([[0], [2]], [[0], [2]], [1, 1], [0, 0])"
  by (simp add: train_test_split_def n_test_of_def)

lemma ex_scale_train: "scaler_fit_transform 1 [[0], [2]] = Inr (Some \<lparr>means = [1], scales = [1]\<rparr>, [[-1], [1]])"
  by (simp add: scaler_fit_transform_def scaler_fit_def scaler_transform_def var_def mean_def col_def handle_zeros_in_scale_def)

lemma ex_scale_test: "scaler_transform (Some \<lparr>means = [1], scales = [1]\<rparr>) 1 [[0], [2]] = Inr [[-1], [1]]"
  by (simp add: scaler_transform_def)

lemma ex_apply_pca: "apply_pca (\<lambda>k d Xc. replicate k (replicate d 1)) 1 1 [[-1], [1]] [[-1], [1]] =
  (Inr ([[-1], [1]], [[-1], [1]]), PCA_fitted 1 \<lparr>pca_mean = [0], components = [[1]]\<rparr>)"
  by (simp add: apply_pca_def pca_fit_transform_def pca_fit_def pca_transform_def pca_project_def centre_def mean_def col_def dot_def)

lemma ex_squeeze: "squeeze_and_excitation (\<lambda>i. 0) 16 1 [[-1], [1]] p = Inr ([[-1 / 2], [1 / 2]], p + 2)"
  by (simp add: squeeze_and_excitation_def se_reduced_dim_def se_reshape_def mean_axis1_def normal_matrix_def dot3_def vec_mat_def dot_def col_def relu_def sigmoid_def mean_def)

lemma ex_targets: "fit_targets [0, 0, 1, 1] [1, 1] [0, 0] = Inr (2, [[0, 1], [0, 1]], [[1, 0], [1, 0]])"
  by (simp add: fit_targets_def one_hot_def np_unique_def)

lemma ex_preprocess: "fit_preprocess ex_libs 1 [[0], [2]] [[0], [2]] \<lparr>obj = ex_model\<lparr>label_encoder := Some [5, 7]\<rparr>, rng_pos = 0\<rparr> =
  (Inr ([[[-1 / 2]], [[1 / 2]]], [[[-1 / 2]], [[1 / 2]]], 1),
   \<lparr>obj = ex_model\<lparr>label_encoder := Some [5, 7], scaler := Some \<lparr>means = [1], scales = [1]\<rparr>,
            pca := Some (PCA_fitted 1 \<lparr>pca_mean = [0], components = [[1]]\<rparr>)\<rparr>, rng_pos = 4\<rparr>)"
  by (simp add: fit_preprocess_def ex_scale_train [simplified] ex_scale_test [simplified] ex_libs_def ex_model_def init_model_def ex_apply_pca [simplified] pca_out_dim_def ex_squeeze [simplified] newaxis_def)

lemma ex_fit_run: "fit ex_libs 1 [[0], [2], [0], [2]] [5, 5, 7, 7] 50 32 (1 / 2) True \<lparr>obj = ex_model, rng_pos = 0\<rparr> =
  (Inr (), \<lparr>obj = ex_model\<lparr>label_encoder := Some [5, 7], scaler := Some \<lparr>means = [1], scales = [1]\<rparr>,
            pca := Some (PCA_fitted 1 \<lparr>pca_mean = [0], components = [[1]]\<rparr>), model := Some (),
            history := Some ex_history\<rparr>, rng_pos = 4\<rparr>)"
proof -
  have eb: "fit_encode_balance ex_libs [[0], [2], [0], [2]] [5, 5, 7, 7::nat] True ex_model =
     (Inr ([[0], [2], [0], [2]], [0, 0, 1, 1]), ex_model\<lparr>label_encoder := Some [5, 7]\<rparr>)"
    by (simp add: fit_encode_balance_def ex_encode [simplified] ex_libs_def ex_resample [simplified])
  have nw: "fit_network ex_libs 1 2 50 32 [[[-1 / 2]], [[1 / 2]]] [[0, 1], [0, 1]] [[[-1 / 2]], [[1 / 2]]] [[1, 0], [1, 0]]
      (ex_model\<lparr>label_encoder := Some [5, 7], scaler := Some \<lparr>means = [1], scales = [1]\<rparr>,
            pca := Some (PCA_fitted 1 \<lparr>pca_mean = [0], components = [[1]]\<rparr>)\<rparr>) =
     (Inr (), ex_model\<lparr>label_encoder := Some [5, 7], scaler := Some \<lparr>means = [1], scales = [1]\<rparr>,
            pca := Some (PCA_fitted 1 \<lparr>pca_mean = [0], components = [[1]]\<rparr>), model := Some (),
            history := Some ex_history\<rparr>)"
    by (simp add: fit_network_def ex_model_def init_model_def build_model_def build_layers_eq Let_def ex_libs_def ex_history_def)
  have sp: "split_perm ex_libs = (\<lambda>n. [0..<n])" by (simp add: ex_libs_def)
  show ?thesis
    by (simp add: fit_def eb [simplified] sp ex_split [simplified] ex_preprocess [simplified] ex_targets [simplified] nw [simplified])
qed

lemma ex_predict_encoder:
  "predict ex_libs 1 [[0], [2]] \<lparr>obj = ex_trained\<lparr>label_encoder := E\<rparr>, rng_pos = p\<rparr> =
     (le_inverse_transform E [0, 0], \<lparr>obj = ex_trained\<lparr>label_encoder := E\<rparr>, rng_pos = p + 2\<rparr>)"
proof -
  have pp: "predict_preprocess ex_libs 1 [[0], [2]] \<lparr>obj = ex_trained\<lparr>label_encoder := E\<rparr>, rng_pos = p\<rparr> =
    (Inr [[[-1 / 2]], [[1 / 2]]], \<lparr>obj = ex_trained\<lparr>label_encoder := E\<rparr>, rng_pos = p + 2\<rparr>)"
    by (simp add: predict_preprocess_def ex_trained_def ex_scale_test [simplified] pca_transform_def pca_project_def
        dot_def pca_out_dim_def ex_libs_def ex_squeeze [simplified] newaxis_def)
  have f: "model ex_trained = Some ()"
    "keras_predict ex_libs = (\<lambda>net X. Inr (map (\<lambda>r. [1, 0]) X))"
    by (simp_all add: ex_trained_def ex_libs_def)
  show ?thesis
    by (simp add: predict_def pp [simplified] f predict_decode_def argmax_rows_def np_argmax_def)
qed

lemma ex_predict: "predict ex_libs 1 [[0], [2]] \<lparr>obj = ex_trained, rng_pos = p\<rparr> =
  (Inr [5, 5], \<lparr>obj = ex_trained, rng_pos = p + 2\<rparr>)"
proof -
  have e: "ex_trained\<lparr>label_encoder := Some [5, 7]\<rparr> = ex_trained" by (simp add: ex_trained_def)
  show ?thesis
    using ex_predict_encoder [of "Some [5, 7]" p] by (simp add: e le_inverse_transform_def)
qed

lemma ex_evaluate: "evaluate ex_libs 1 [[0], [2]] [5, 7] \<lparr>obj = ex_trained, rng_pos = p\<rparr> =
  (Inr \<lparr>eval_accuracy = 1 / 2, eval_confusion_matrix = [[1, 0], [1, 0]],
        eval_report = \<lparr>per_class =
          [(5, \<lparr>precision = 1 / 2, recall = 1, f1_score = 2 / 3, support = 1\<rparr>),
           (7, \<lparr>precision = 0, recall = 0, f1_score = 0, support = 1\<rparr>)],
          report_accuracy = 1 / 2,
          macro_avg = \<lparr>precision = 1 / 4, recall = 1 / 2, f1_score = 1 / 3, support = 2\<rparr>,
          weighted_avg = \<lparr>precision = 1 / 4, recall = 1 / 2, f1_score = 1 / 3, support = 2\<rparr>\<rparr>\<rparr>,
   \<lparr>obj = ex_trained, rng_pos = p + 2\<rparr>)"
proof -
  have f: "label_encoder ex_trained = Some [5, 7]" by (simp add: ex_trained_def)
  show ?thesis
    by (simp add: evaluate_def ex_predict [simplified] f le_transform_def searchsorted_def confusion_matrix_def
        unique_labels_def np_unique_def classification_report_def label_metrics_def safe_div_def
        macro_average_def weighted_average_def mean_def
        accuracy_score_def)
qed

lemma ex_plot_confusion_matrix: "plot_confusion_matrix ex_libs 1 [[0], [2]] [5, 7] \<lparr>obj = ex_trained, rng_pos = p\<rparr> =
  (Inr [[1, 0], [1, 0]], \<lparr>obj = ex_trained, rng_pos = p + 2\<rparr>)"
  by (simp add: plot_confusion_matrix_def ex_predict [simplified] confusion_matrix_def unique_labels_def np_unique_def)

section \<open>The trained object\<close>

lemma ex_fit: "fit ex_libs 1 [[0], [2], [0], [2]] [5, 5, 7, 7] 50 32 (1 / 2) True \<lparr>obj = ex_model, rng_pos = 0\<rparr> =
  (Inr (), \<lparr>obj = ex_trained, rng_pos = 4\<rparr>)"
  using ex_fit_run by (simp add: ex_trained_def)

lemma ex_reachable: "reachable ex_libs \<lparr>obj = ex_trained, rng_pos = 4\<rparr>"
proof -
  have "reachable ex_libs \<lparr>obj = ex_model, rng_pos = 0\<rparr>"
    unfolding ex_model_def by (rule reachable.init)
  from reachable.fit [OF this, of 1 "[[0], [2], [0], [2]]" "[5, 5, 7, 7]" 50 32 "1 / 2" True]
  show ?thesis by (simp add: ex_fit [simplified])
qed

lemma ex_contracts:
  "keras_predict_ok ex_libs \<and> choice_ok (ros_choice ex_libs) \<and> permutation_ok (split_perm ex_libs) \<and>
   pca_solver_ok (pca_svd ex_libs)"
  by (simp add: ex_libs_def keras_predict_ok_def choice_ok_def permutation_ok_def pca_solver_ok_def
      is_matrix_def list_all_iff)

section \<open>The forward pass\<close>

text \<open>\<open>Model.predict\<close> of the zero network: uniform probabilities over the two classes.\<close>

lemma ex_forward: "keras_predict_forward ex_net [[[-1 / 2]], [[1 / 2]]] = Inr [[1 / 2, 1 / 2], [1 / 2, 1 / 2]]"
  by (simp add: keras_predict_forward_def ex_net_def ex_net_params_def ex_lstm_def ex_dense_def is_matrix_def
      network_forward_def lstm_seq_def lstm_last_def lstm_zero_def lstm_cell_def transformer_block_eval_def
      mha_eval_def mha_row_def attend_def layer_norm_def additive_attention_eval_def dense_eval_def activate_def
      softmax_def bcast_mul_def vec_add_def dot_def col_def mean_def Let_def eval_nat_numeral)
section \<open>The usage example\<close>

text \<open>
  The usage example on the four-sample dataset: the encoder and the scaler are fitted,
  then PCA with the example's 20 components raises on one feature.
\<close>

lemma ex_usage:
  "fst (usage_example ex_libs 1 [[0], [2], [0], [2]] [5, 5, 7, 7::nat] [[0], [2]] [5, 7] 0) =
     Inl BadNComponents"
  by (simp add: usage_example_def fit_def fit_encode_balance_def ex_encode [simplified] ex_libs_def
      ex_resample [simplified] train_test_split_def n_test_of_def fit_preprocess_def
      scaler_fit_transform_def scaler_fit_def scaler_transform_def apply_pca_def pca_fit_transform_def
      pca_fit_def init_model_def Let_def)

end
