(* ===== verification/Object_Types.thy ===== *)
theory Object_Types
  imports Pipeline
begin

text \<open>
  The types of the object's fitted attributes, beyond what the record's field types say:
  the label encoder's classes are sorted and distinct (\<open>classes_\<close> of
  \<open>LabelEncoder\<close>), the scaler has one mean and one non-zero scale per feature (so
  \<open>transform\<close> never divides by zero), and the PCA attribute has the object's
  \<open>n_components\<close> and, once fitted, that many axes, each with one coordinate per feature of
  its mean. \<open>obj_wt\<close> is this well-typedness predicate; the theory proves that every
  method keeps it and that it holds in every reachable world, given an SVD that meets its
  contract.
\<close>

definition encoder_wt :: "'a::linorder label_encoder \<Rightarrow> bool" where
  "encoder_wt enc = (case enc of None \<Rightarrow> True | Some cls \<Rightarrow> sorted cls \<and> distinct cls)"

definition scaler_wt :: "scaler \<Rightarrow> bool" where
  "scaler_wt sc =
     (case sc of None \<Rightarrow> True
      | Some P \<Rightarrow> length (means P) = length (scales P) \<and> list_all (\<lambda>x. x \<noteq> 0) (scales P))"

definition pca_wt :: "nat \<Rightarrow> pca_obj \<Rightarrow> bool" where
  "pca_wt n p =
     (case p of PCA_unfit k \<Rightarrow> k = n
      | PCA_fitted k P \<Rightarrow> k = n \<and> length (components P) = k \<and>
                          is_matrix (length (pca_mean P)) (components P))"

definition pca_attr_wt :: "nat \<Rightarrow> pca_obj option \<Rightarrow> bool" where
  "pca_attr_wt n po = (case po of None \<Rightarrow> True | Some p \<Rightarrow> pca_wt n p)"

definition obj_wt :: "('net, 'a::linorder) hybrid_model \<Rightarrow> bool" where
  "obj_wt s \<longleftrightarrow>
     encoder_wt (label_encoder s) \<and> scaler_wt (scaler s) \<and> pca_attr_wt (n_components s) (pca s)"

section \<open>Each stage keeps the types\<close>

lemma pca_attr_wt_simps [simp]:
  "pca_attr_wt n None" "pca_attr_wt n (Some p) = pca_wt n p"
  by (simp_all add: pca_attr_wt_def)

lemma encoder_wt_le_fit [simp]: "encoder_wt (le_fit y)"
  by (simp add: encoder_wt_def le_fit_def)

lemma scaler_fit_transform_wt:
  "scaler_fit_transform d X = Inr (sc, Y) \<Longrightarrow> scaler_wt sc"
  by (auto simp: scaler_fit_transform_def scaler_fit_def scaler_wt_def rbind_eq_Inr_iff
      list_all_iff handle_zeros_in_scale_nonzero split: if_splits)

lemma apply_pca_wt:
  assumes "pca_solver_ok svd"
  shows "pca_wt k (snd (apply_pca svd k d A B))"
proof (cases "pca_fit svd k d A")
  case (Inl e)
  then show ?thesis
    by (simp add: apply_pca_def pca_fit_transform_def pca_wt_def)
next
  case (Inr P)
  then have "length (components P) = k \<and> is_matrix (length (pca_mean P)) (components P)"
    using assms by (auto simp: pca_fit_Inr_iff pca_solver_ok_def)
  with Inr show ?thesis
    by (simp add: apply_pca_def pca_fit_transform_def pca_wt_def split: sum.splits)
qed

lemma fit_preprocess_wt:
  assumes svd: "pca_solver_ok (pca_svd L)" and wt: "obj_wt (obj w)"
  shows "obj_wt (obj (snd (fit_preprocess L d A B w)))"
proof (cases "scaler_fit_transform d A")
  case (Inl e)
  then show ?thesis
    using wt by (simp add: fit_preprocess_def obj_wt_def scaler_wt_def)
next
  case (Inr v)
  obtain sc A' where v: "v = (sc, A')" by fastforce
  have sc: "scaler_wt sc"
    using Inr v by (simp add: scaler_fit_transform_wt)
  have p: "apply_pca (pca_svd L) (n_components (obj w)) d A' B' = (r, q) \<Longrightarrow>
           pca_wt (n_components (obj w)) q" for B' r q
    using apply_pca_wt [OF svd, of "n_components (obj w)" d A' B'] by simp
  show ?thesis
    using Inr v wt sc
    by (auto simp: fit_preprocess_def obj_wt_def Let_def split: sum.splits prod.splits
        dest: p)
qed

lemma fit_network_fields:
  "label_encoder (snd (fit_network L k nc e b Xt yt Xv yv s)) = label_encoder s \<and>
   scaler (snd (fit_network L k nc e b Xt yt Xv yv s)) = scaler s \<and>
   pca (snd (fit_network L k nc e b Xt yt Xv yv s)) = pca s \<and>
   n_components (snd (fit_network L k nc e b Xt yt Xv yv s)) = n_components s"
  by (auto simp: fit_network_def Let_def split: option.splits sum.splits prod.splits)

lemma fit_network_wt: "obj_wt (snd (fit_network L k nc e b Xt yt Xv yv s)) = obj_wt s"
  using fit_network_fields [of L k nc e b Xt yt Xv yv s] by (simp add: obj_wt_def)

lemma fit_wt:
  assumes svd: "pca_solver_ok (pca_svd L)" and wt: "obj_wt (obj w)"
  shows "obj_wt (obj (snd (fit L d X y epochs batch_size vs cb w)))"
proof -
  let ?w1 = "w\<lparr>obj := (obj w)\<lparr>label_encoder := le_fit y\<rparr>\<rparr>"
  have wt1: "obj_wt (obj ?w1)"
    using wt by (simp add: obj_wt_def)
  show ?thesis
  proof (cases rule: fit_world_cases [where L = L and d = d and X = X and y = y and epochs = epochs
      and batch_size = batch_size and vs = vs and cb = cb and w = w])
    case stop
    then show ?thesis using wt1 by simp
  next
    case (pre X_tr X_te r2)
    then show ?thesis using fit_preprocess_wt [OF svd wt1, of d X_tr X_te] by simp
  next
    case (net X_tr X_te Xt Xv k w2 nc yt yv)
    then show ?thesis using fit_preprocess_wt [OF svd wt1, of d X_tr X_te] by (simp add: fit_network_wt)
  qed
qed

text \<open>
  C3. Every reachable object is well typed: the encoder's classes are sorted and distinct,
  the scaler has as many non-zero scales as means, and the PCA attribute has the
  object's \<open>n_components\<close> and, once fitted, that many axes of the mean's width (given an
  SVD meeting its contract).
\<close>

theorem reachable_obj_wt:
  assumes svd: "pca_solver_ok (pca_svd L)"
  shows "reachable L w \<Longrightarrow> obj_wt (obj w)"
proof (induction rule: reachable.induct)
  case (init n_comp units heads ff rate seed p)
  then show ?case
    by (simp add: obj_wt_def init_model_def encoder_wt_def scaler_wt_def)
next
  case (fit w d X y epochs batch_size vs cb)
  from fit.IH show ?case by (rule fit_wt [OF svd])
next
  case (apply_pca w d X_train X_test)
  then show ?case
    using apply_pca_wt [OF svd] by (simp add: obj_wt_def)
qed simp_all

end
