(* ===== verification/Predict_Batch.thy ===== *)
theory Predict_Batch
  imports Forward
begin

text \<open>
  \<open>predict\<close> treats the samples of a batch independently: predicting on the rows of two
  non-empty batches stacked together returns exactly when predicting on each batch from
  the same world returns, and then returns the two predictions stacked. Every stage of the
  inference path acts row by row (the scaler and PCA transforms, the recalibration, whose
  weights depend only on the generator position, the arg-max and the decoding), and so does
  Keras' \<open>Model.predict\<close> (\<open>keras_rowwise\<close>, which \<open>keras_predict_forward\<close> meets).
\<close>

definition rappend :: "'a list result \<Rightarrow> 'a list result \<Rightarrow> 'a list result" where
  "rappend a b = rbind a (\<lambda>x. rbind b (\<lambda>y. Inr (x @ y)))"

definition keras_rowwise :: "'net libs \<Rightarrow> bool" where
  "keras_rowwise L \<longleftrightarrow>
     (\<forall>net A B. keras_predict L net (A @ B) = rappend (keras_predict L net A) (keras_predict L net B))"

text \<open>
  A stage acts row by row on non-empty inputs: on stacked rows it gives the stacked
  results, its errors do not depend on the rows, and it returns one row per input row.
\<close>

definition rowwise :: "('a list \<Rightarrow> 'b list result) \<Rightarrow> bool" where
  "rowwise f \<longleftrightarrow>
     (\<forall>A B. A \<noteq> [] \<longrightarrow> B \<noteq> [] \<longrightarrow>
        f (A @ B) = rappend (f A) (f B) \<and> (\<forall>e. f A = Inl e \<longrightarrow> f B = Inl e)) \<and>
     (\<forall>A Y. f A = Inr Y \<longrightarrow> length Y = length A)"

section \<open>Row-wise stages\<close>

lemma rappend_Inr_iff:
  "rappend a b = Inr ys \<longleftrightarrow> (\<exists>x y. a = Inr x \<and> b = Inr y \<and> ys = x @ y)"
  by (auto simp: rappend_def rbind_eq_Inr_iff)

lemma rappend_Inl [simp]: "rappend (Inl e) b = Inl e"
  by (simp add: rappend_def)

lemma scaler_transform_append:
  "A \<noteq> [] \<Longrightarrow> B \<noteq> [] \<Longrightarrow>
   scaler_transform sc d (A @ B) = rappend (scaler_transform sc d A) (scaler_transform sc d B)"
  by (simp add: scaler_transform_def rappend_def split: option.splits)

lemma pca_transform_append:
  "A \<noteq> [] \<Longrightarrow> B \<noteq> [] \<Longrightarrow>
   pca_transform p d (A @ B) = rappend (pca_transform p d A) (pca_transform p d B)"
  by (simp add: pca_transform_def pca_project_def rappend_def split: pca_obj.splits)

lemma squeeze_and_excitation_append:
  "map_sum id fst (squeeze_and_excitation g ratio c (A @ B) p) =
   rappend (map_sum id fst (squeeze_and_excitation g ratio c A p))
           (map_sum id fst (squeeze_and_excitation g ratio c B p))"
  by (simp add: squeeze_and_excitation_def se_reduced_dim_def rappend_def Let_def se_reshape_def
      mean_axis1_def dot3_def zip_append)

lemma argmax_rows_append: "argmax_rows (P @ Q) = rappend (argmax_rows P) (argmax_rows Q)"
  by (simp add: argmax_rows_def rappend_def)

lemma le_inverse_transform_append:
  "le_inverse_transform enc (a @ b) = rappend (le_inverse_transform enc a) (le_inverse_transform enc b)"
  by (simp add: le_inverse_transform_def rappend_def split: option.splits)

lemma scaler_transform_Inl:
  "scaler_transform sc d A = Inl e \<Longrightarrow> A \<noteq> [] \<Longrightarrow> B \<noteq> [] \<Longrightarrow> scaler_transform sc d B = Inl e"
  by (auto simp: scaler_transform_def split: option.splits if_splits)

lemma pca_transform_Inl:
  "pca_transform p d A = Inl e \<Longrightarrow> A \<noteq> [] \<Longrightarrow> B \<noteq> [] \<Longrightarrow> pca_transform p d B = Inl e"
  by (auto simp: pca_transform_def split: pca_obj.splits if_splits)

lemma squeeze_and_excitation_Inl:
  "squeeze_and_excitation g ratio c A p = Inl e \<Longrightarrow> squeeze_and_excitation g ratio c B p = Inl e"
  by (auto simp: squeeze_and_excitation_def se_reduced_dim_def Let_def split: if_splits)

lemma scaler_transform_length: "scaler_transform sc d A = Inr Y \<Longrightarrow> length Y = length A"
  by (auto simp: scaler_transform_def split: option.splits if_splits)

lemma pca_transform_length: "pca_transform p d A = Inr Y \<Longrightarrow> length Y = length A"
  by (auto simp: pca_transform_def pca_project_def split: pca_obj.splits if_splits)

lemma rowwiseD:
  assumes "rowwise f" and "A \<noteq> []" and "B \<noteq> []"
  shows "f (A @ B) = rappend (f A) (f B)" and "f A = Inl e \<Longrightarrow> f B = Inl e"
  using assms unfolding rowwise_def by blast+

lemma rowwise_length: "rowwise f \<Longrightarrow> f A = Inr Y \<Longrightarrow> length Y = length A"
  unfolding rowwise_def by blast

lemma rowwiseI:
  assumes "\<And>A B. A \<noteq> [] \<Longrightarrow> B \<noteq> [] \<Longrightarrow> f (A @ B) = rappend (f A) (f B)"
    and "\<And>A B e. f A = Inl e \<Longrightarrow> A \<noteq> [] \<Longrightarrow> B \<noteq> [] \<Longrightarrow> f B = Inl e"
    and "\<And>A Y. f A = Inr Y \<Longrightarrow> length Y = length A"
  shows "rowwise f"
  unfolding rowwise_def using assms by blast

lemma rowwise_Inr_both:
  assumes f: "rowwise f" and A: "A \<noteq> []" and B: "B \<noteq> []" and Y1: "f A = Inr Y1"
  obtains Y2 where "f B = Inr Y2" and "Y1 \<noteq> []" and "Y2 \<noteq> []"
proof (cases "f B")
  case (Inl e)
  then have "f A = Inl e" by (rule rowwiseD(2) [OF f B A])
  with Y1 show ?thesis by simp
next
  case (Inr Y2)
  moreover have "length Y1 = length A" "length Y2 = length B"
    using rowwise_length [OF f] Y1 Inr by blast+
  ultimately show ?thesis
    using A B by (intro that [of Y2]) auto
qed

lemma rowwise_rbind:
  fixes f :: "'a list \<Rightarrow> 'b list result" and g :: "'b list \<Rightarrow> 'c list result"
  assumes f: "rowwise f" and g: "rowwise g"
  shows "rowwise (\<lambda>X. rbind (f X) g)"
proof (rule rowwiseI)
  fix A B :: "'a list"
  assume A: "A \<noteq> []" and B: "B \<noteq> []"
  show "rbind (f (A @ B)) g = rappend (rbind (f A) g) (rbind (f B) g)"
  proof (cases "f A")
    case (Inl e)
    then show ?thesis
      by (simp add: rowwiseD(1) [OF f A B])
  next
    case (Inr Y1)
    with rowwise_Inr_both [OF f A B] obtain Y2 where Y2: "f B = Inr Y2" and ne: "Y1 \<noteq> []" "Y2 \<noteq> []"
      by blast
    have "f (A @ B) = Inr (Y1 @ Y2)"
      by (simp add: rowwiseD(1) [OF f A B] Inr Y2 rappend_def)
    then show ?thesis
      by (simp add: Inr Y2 rowwiseD(1) [OF g ne])
  qed
next
  fix A B :: "'a list" and e
  assume r: "rbind (f A) g = Inl e" and A: "A \<noteq> []" and B: "B \<noteq> []"
  show "rbind (f B) g = Inl e"
  proof (cases "f A")
    case (Inl e')
    then have "f B = Inl e'" by (rule rowwiseD(2) [OF f A B])
    with Inl r show ?thesis by simp
  next
    case (Inr Y1)
    with rowwise_Inr_both [OF f A B] obtain Y2 where Y2: "f B = Inr Y2" and ne: "Y1 \<noteq> []" "Y2 \<noteq> []"
      by blast
    from r Inr have "g Y1 = Inl e" by simp
    then have "g Y2 = Inl e" by (rule rowwiseD(2) [OF g ne])
    with Y2 show ?thesis by simp
  qed
next
  fix A Y
  show "rbind (f A) g = Inr Y \<Longrightarrow> length Y = length A"
    using rowwise_length [OF f] rowwise_length [OF g] by (auto simp: rbind_eq_Inr_iff)
qed

lemma rowwise_scaler_transform: "rowwise (scaler_transform sc d)"
  by (rule rowwiseI [OF scaler_transform_append scaler_transform_Inl scaler_transform_length])

lemma rowwise_pca_transform: "rowwise (pca_transform p d)"
  by (rule rowwiseI [OF pca_transform_append pca_transform_Inl pca_transform_length])

lemma map_sum_id_eq_Inl: "map_sum id h x = Inl e \<longleftrightarrow> x = Inl e"
  by (cases x) auto

lemma map_sum_id_eq_Inr: "map_sum id h x = Inr y \<longleftrightarrow> (\<exists>z. x = Inr z \<and> y = h z)"
  by (cases x) auto

lemma rowwise_map_sum:
  assumes f: "rowwise f" and h: "\<And>Y. length (h Y) = length Y" "\<And>a b. h (a @ b) = h a @ h b"
  shows "rowwise (\<lambda>X. map_sum id h (f X))"
proof (rule rowwiseI)
  fix A B :: "'a list"
  assume A: "A \<noteq> []" and B: "B \<noteq> []"
  have "map_sum id h (rappend a b) = rappend (map_sum id h a) (map_sum id h b)" for a b
    by (cases a; cases b) (simp_all add: rappend_def h(2))
  then show "map_sum id h (f (A @ B)) = rappend (map_sum id h (f A)) (map_sum id h (f B))"
    by (simp add: rowwiseD(1) [OF f A B])
next
  fix A B :: "'a list" and e
  assume "map_sum id h (f A) = Inl e" and A: "A \<noteq> []" and B: "B \<noteq> []"
  then have "f A = Inl e"
    by (simp add: map_sum_id_eq_Inl)
  then show "map_sum id h (f B) = Inl e"
    by (simp add: rowwiseD(2) [OF f A B])
next
  fix A Y
  assume "map_sum id h (f A) = Inr Y"
  then show "length Y = length A"
    using rowwise_length [OF f] h(1) by (auto simp: map_sum_id_eq_Inr)
qed

lemma rowwise_squeeze_and_excitation:
  "rowwise (\<lambda>X. map_sum id newaxis (map_sum id fst (squeeze_and_excitation g ratio c X p)))"
proof (rule rowwise_map_sum)
  show "rowwise (\<lambda>X. map_sum id fst (squeeze_and_excitation g ratio c X p))"
  proof (rule rowwiseI)
    fix A B
    show "map_sum id fst (squeeze_and_excitation g ratio c (A @ B) p) =
          rappend (map_sum id fst (squeeze_and_excitation g ratio c A p))
                  (map_sum id fst (squeeze_and_excitation g ratio c B p))"
      by (rule squeeze_and_excitation_append)
  next
    fix A B e
    assume "map_sum id fst (squeeze_and_excitation g ratio c A p) = Inl e"
    then have "squeeze_and_excitation g ratio c A p = Inl e"
      by (simp add: map_sum_id_eq_Inl)
    then have "squeeze_and_excitation g ratio c B p = Inl e"
      by (rule squeeze_and_excitation_Inl)
    then show "map_sum id fst (squeeze_and_excitation g ratio c B p) = Inl e"
      by simp
  next
    fix A Y
    assume "map_sum id fst (squeeze_and_excitation g ratio c A p) = Inr Y"
    then show "length Y = length A"
      by (auto simp: map_sum_id_eq_Inr dest: squeeze_and_excitation_length)
  qed
qed (simp_all add: newaxis_def)

lemma rowwise_error: "rowwise (\<lambda>X. Inl e)"
  by (rule rowwiseI) simp_all

lemma rowwise_predict_preprocess: "rowwise (\<lambda>X. fst (predict_preprocess L d X w))"
  unfolding predict_preprocess_fst
proof (rule rowwise_rbind [OF rowwise_scaler_transform])
  show "rowwise (\<lambda>X_scaled. case pca (obj w) of
           None \<Rightarrow> Inl NoneAttribute
         | Some p \<Rightarrow> rbind (pca_transform p d X_scaled) (\<lambda>X_pca.
             map_sum id newaxis (map_sum id fst
               (squeeze_and_excitation (np_normal L) 16 (pca_out_dim p) X_pca (rng_pos w)))))"
  proof (cases "pca (obj w)")
    case None
    then show ?thesis by (simp add: rowwise_error)
  next
    case (Some p)
    then show ?thesis
      by (simp only: option.simps)
         (rule rowwise_rbind [OF rowwise_pca_transform rowwise_squeeze_and_excitation])
  qed
qed

lemma predict_preprocess_append:
  "X1 \<noteq> [] \<Longrightarrow> X2 \<noteq> [] \<Longrightarrow> fst (predict_preprocess L d (X1 @ X2) w) =
     rappend (fst (predict_preprocess L d X1 w)) (fst (predict_preprocess L d X2 w))"
  by (rule rowwiseD(1) [OF rowwise_predict_preprocess])

lemma rbind_rappend_Inr:
  "rbind (rappend a b) F = Inr ys \<longleftrightarrow> (\<exists>x y. a = Inr x \<and> b = Inr y \<and> F (x @ y) = Inr ys)"
  by (auto simp: rbind_eq_Inr_iff rappend_Inr_iff)

lemma predict_decode_append:
  "predict_decode enc (P @ Q) = Inr ys \<longleftrightarrow>
     (\<exists>a b. predict_decode enc P = Inr a \<and> predict_decode enc Q = Inr b \<and> ys = a @ b)"
  by (auto simp: predict_decode_def argmax_rows_append le_inverse_transform_append rappend_Inr_iff
      rbind_eq_Inr_iff)

lemma keras_predict_forward_rowwise:
  "keras_predict_forward T (A @ B) = rappend (keras_predict_forward T A) (keras_predict_forward T B)"
  by (simp add: keras_predict_forward_def rappend_def)

text \<open>
  C12. \<open>predict\<close> is batch-independent: on two non-empty batches, predicting on the stacked
  rows returns exactly when predicting on each batch from the same world returns, and
  then gives the two predictions stacked (for a Keras \<open>predict\<close> that acts row by row, as
  \<open>keras_predict_forward\<close> does).
\<close>

theorem predict_batch_split:
  assumes k: "keras_rowwise L" and X1: "X1 \<noteq> []" and X2: "X2 \<noteq> []"
  shows "fst (predict L d (X1 @ X2) w) = Inr ys \<longleftrightarrow>
         (\<exists>a b. fst (predict L d X1 w) = Inr a \<and> fst (predict L d X2 w) = Inr b \<and> ys = a @ b)"
proof (cases "model (obj w)")
  case None
  then show ?thesis by (simp add: predict_fst)
next
  case (Some net)
  have kr: "keras_predict L net (A @ B) = rappend (keras_predict L net A) (keras_predict L net B)" for A B
    using k by (simp add: keras_rowwise_def)
  define F where "F = (\<lambda>T. rbind (keras_predict L net T) (predict_decode (label_encoder (obj w))))"
  have p: "fst (predict L d X w) = rbind (fst (predict_preprocess L d X w)) F" for X
    by (simp add: predict_fst Some F_def)
  have F: "F (x @ y) = Inr ys \<longleftrightarrow> (\<exists>a b. F x = Inr a \<and> F y = Inr b \<and> ys = a @ b)" for x y ys
    unfolding F_def kr rbind_rappend_Inr predict_decode_append by (auto simp: rbind_eq_Inr_iff)
  show ?thesis
    unfolding p predict_preprocess_append [OF X1 X2] rbind_rappend_Inr F
    by (auto simp: rbind_eq_Inr_iff)
qed

end
