(* ===== verification/Keras_Train.thy ===== *)
theory Keras_Train
  imports Pipeline
begin

text \<open>
  Keras' \<open>Model.fit\<close> as \<open>fit\<close> calls it (lines 300-305 of \<open>src/model.py\<close>: training data,
  \<open>epochs\<close>, \<open>batch_size\<close> and \<open>validation_data\<close>), modelled from Keras' documented
  training loop. Before the loop the data adapter checks that inputs and targets have as
  many samples, the model call and the loss check that every sample has the network's
  input shape and every target row the width of its output (\<open>batch_fits\<close>, with the
  network's shapes \<open>net_shape\<close> a parameter), and the data adapter splits the data into batches (\<open>chunks\<close>: \<open>\<lceil>n / b\<rceil>\<close> batches of \<open>b\<close>
  samples, the last one shorter). Every epoch (\<open>keras_epoch\<close>) shuffles the training samples,
  runs one optimiser step per batch (\<open>train_batches\<close>), then evaluates the trained weights on
  the validation batches, and the \<open>History\<close> callback appends the epoch's loss and accuracy,
  means over the batches weighted by their sizes as Keras' \<open>Mean\<close> metrics compute them.
  \<open>keras_fit_loop\<close> runs the epochs in order. The optimiser step, the evaluation of a batch
  and the epoch's permutation are parameters: the theory is about the loop, not about Adam.
  The lemmas show that the batching ends (a \<open>function\<close> with a measure) and covers each
  sample once, that the loop returns a history with one entry per epoch when the data fit
  the network, and that a re-fit whose data do not fit the network of the first \<open>fit\<close>
  raises before any step.
\<close>

function chunks :: "nat \<Rightarrow> 'a list \<Rightarrow> 'a list list" where
  "chunks b xs = (if b = 0 \<or> xs = [] then [] else take b xs # chunks b (drop b xs))"
  by pat_completeness auto
termination
  by (relation "measure (\<lambda>(b, xs). length xs)") auto

declare chunks.simps [simp del]

abbreviation epoch_batches ::
  "(nat \<Rightarrow> nat \<Rightarrow> nat list) \<Rightarrow> nat \<Rightarrow> tensor3 \<Rightarrow> matrix \<Rightarrow> nat \<Rightarrow> (tensor3 \<times> matrix) list" where
  "epoch_batches shuffle b X Y e \<equiv>
     zip (chunks b (map ((!) X) (shuffle e (length X)))) (chunks b (map ((!) Y) (shuffle e (length X))))"

fun train_batches ::
  "('net \<Rightarrow> tensor3 \<Rightarrow> matrix \<Rightarrow> 'net \<times> real \<times> real) \<Rightarrow> 'net \<Rightarrow> (tensor3 \<times> matrix) list \<Rightarrow>
   'net \<times> (nat \<times> real \<times> real) list" where
  "train_batches step net [] = (net, [])"
| "train_batches step net ((x, y) # bs) =
     (let (net', l, a) = step net x y;
          (net'', logs) = train_batches step net' bs
      in (net'', (length x, l, a) # logs))"

definition keras_epoch ::
  "('net \<Rightarrow> tensor3 \<Rightarrow> matrix \<Rightarrow> 'net \<times> real \<times> real) \<Rightarrow> ('net \<Rightarrow> tensor3 \<Rightarrow> matrix \<Rightarrow> real \<times> real) \<Rightarrow>
   (nat \<Rightarrow> nat \<Rightarrow> nat list) \<Rightarrow> nat \<Rightarrow> tensor3 \<Rightarrow> matrix \<Rightarrow> tensor3 \<Rightarrow> matrix \<Rightarrow>
   'net \<times> (real \<times> real \<times> real \<times> real) list \<Rightarrow> nat \<Rightarrow> 'net \<times> (real \<times> real \<times> real \<times> real) list" where
  "keras_epoch step test shuffle b X Y Xv Yv acc e =
     (let (net, hs) = acc;
          (net', logs) = train_batches step net (epoch_batches shuffle b X Y e);
          vlogs = map (\<lambda>(x, y). (length x, test net' x y)) (zip (chunks b Xv) (chunks b Yv));
          mean = (\<lambda>ls. (\<Sum>(n, v)\<leftarrow>ls. real n * v) / real (\<Sum>(n, v)\<leftarrow>ls. n))
      in (net', hs @ [(mean (map (\<lambda>(n, l, a). (n, l)) logs), mean (map (\<lambda>(n, l, a). (n, a)) logs),
                       mean (map (\<lambda>(n, l, a). (n, l)) vlogs), mean (map (\<lambda>(n, l, a). (n, a)) vlogs))]))"

text \<open>
  Keras' shape checks of a batch against the network: every sample has the network's input
  shape \<open>(t, f)\<close> (the model call raises otherwise) and every target row has the width of
  its output (the loss raises otherwise).
\<close>

abbreviation batch_fits :: "shape \<times> shape \<Rightarrow> tensor3 \<Rightarrow> matrix \<Rightarrow> bool" where
  "batch_fits sh X Y \<equiv>
     list_all (\<lambda>x. length (fst sh) = 2 \<and> length x = fst sh ! 0 \<and> list_all (\<lambda>r. length r = fst sh ! 1) x) X \<and>
     list_all (\<lambda>y. snd sh = [length y]) Y"

definition keras_fit_loop ::
  "('net \<Rightarrow> shape \<times> shape) \<Rightarrow>
   ('net \<Rightarrow> tensor3 \<Rightarrow> matrix \<Rightarrow> 'net \<times> real \<times> real) \<Rightarrow> ('net \<Rightarrow> tensor3 \<Rightarrow> matrix \<Rightarrow> real \<times> real) \<Rightarrow>
   (nat \<Rightarrow> nat \<Rightarrow> nat list) \<Rightarrow>
   'net \<Rightarrow> nat \<Rightarrow> nat \<Rightarrow> tensor3 \<Rightarrow> matrix \<Rightarrow> tensor3 \<Rightarrow> matrix \<Rightarrow> ('net \<times> history) result" where
  "keras_fit_loop net_shape step test shuffle net epochs batch_size X Y Xv Yv =
     (if length X \<noteq> length Y \<or> length Xv \<noteq> length Yv then Inl LengthMismatch
      else if X = [] \<or> Xv = [] then Inl EmptyInput
      else if batch_size = 0 then Inl ZeroDivision
      else if \<not> batch_fits (net_shape net) X Y \<or> \<not> batch_fits (net_shape net) Xv Yv then Inl ShapeMismatch
      else let (net', hs) = foldl (keras_epoch step test shuffle batch_size X Y Xv Yv) (net, []) [0..<epochs]
           in Inr (net', \<lparr>hist_loss = map (\<lambda>(l, a, vl, va). l) hs, hist_accuracy = map (\<lambda>(l, a, vl, va). a) hs,
                          hist_val_loss = map (\<lambda>(l, a, vl, va). vl) hs,
                          hist_val_accuracy = map (\<lambda>(l, a, vl, va). va) hs\<rparr>))"

text \<open>The contract of the epoch permutation: a permutation of the sample indices.\<close>

definition shuffle_ok :: "(nat \<Rightarrow> nat \<Rightarrow> nat list) \<Rightarrow> bool" where
  "shuffle_ok shuffle \<longleftrightarrow> (\<forall>e n. mset (shuffle e n) = mset [0..<n])"

text \<open>
  The contract of Keras' \<open>compile\<close> as a constructor of networks: the Keras model built from
  a graph has the graph's input shape and output shape.
\<close>

definition keras_compile_shape_ok :: "'net libs \<Rightarrow> ('net \<Rightarrow> shape \<times> shape) \<Rightarrow> bool" where
  "keras_compile_shape_ok L net_shape \<longleftrightarrow>
     (\<forall>M. net_shape (keras_compile L M) = (snd (inputs M), snd (outputs M)))"

text \<open>
  A small instance: every network reads samples of shape \<open>(1, 1)\<close> and has two outputs,
  every step counts itself into the weights (a natural number), the batch loss is 0 and
  the accuracy 1, and each epoch visits the samples in reverse order.
\<close>

definition ex_train_libs :: "nat libs" where
  "ex_train_libs = \<lparr>np_normal = (\<lambda>i. 0), ros_choice = (\<lambda>k n. 0), split_perm = (\<lambda>n. [0..<n]),
       pca_svd = (\<lambda>k d Xc. []), keras_compile = (\<lambda>M. 0),
       keras_fit = keras_fit_loop (\<lambda>n. ([1, 1], [2])) (\<lambda>n x y. (Suc n, 0, 1)) (\<lambda>n x y. (0, 1)) (\<lambda>e n. rev [0..<n]),
       keras_predict = (\<lambda>net X. Inl ShapeMismatch)\<rparr>"

section \<open>Batching\<close>

lemma chunks_Nil [simp]: "chunks b [] = []"
  by (simp add: chunks.simps)

lemma chunks_0 [simp]: "chunks 0 xs = []"
  by (simp add: chunks.simps)

lemma chunks_Cons: "0 < b \<Longrightarrow> xs \<noteq> [] \<Longrightarrow> chunks b xs = take b xs # chunks b (drop b xs)"
  by (simp add: chunks.simps)

lemma concat_chunks: "0 < b \<Longrightarrow> concat (chunks b xs) = xs"
proof (induction b xs rule: chunks.induct)
  case (1 b xs)
  then show ?case by (cases "xs = []") (simp_all add: chunks_Cons)
qed

lemma chunks_bounded: "c \<in> set (chunks b xs) \<Longrightarrow> c \<noteq> [] \<and> length c \<le> b"
proof (induction b xs rule: chunks.induct)
  case (1 b xs)
  then show ?case
    by (cases "b = 0 \<or> xs = []") (auto simp: chunks_Cons)
qed

lemma ceil_div_step: "0 < b \<Longrightarrow> 0 < n \<Longrightarrow> Suc ((n - b + b - 1) div b) = (n + b - 1) div b"
proof -
  assume b: "0 < b" and n: "0 < n"
  have "(n + b - 1) div b = Suc ((n - 1) div b)"
    using le_div_geq [of b "n + b - 1"] b n by simp
  moreover have "(n - b + b - 1) div b = (n - 1) div b"
    using n by (cases "n \<le> b") simp_all
  ultimately show ?thesis by simp
qed

lemma length_chunks: "0 < b \<Longrightarrow> length (chunks b xs) = (length xs + b - 1) div b"
proof (induction b xs rule: chunks.induct)
  case (1 b xs)
  show ?case
  proof (cases "xs = []")
    case True
    with 1 show ?thesis by simp
  next
    case False
    with 1 ceil_div_step [of b "length xs"] show ?thesis
      by (simp add: chunks_Cons)
  qed
qed

lemma map_length_chunks:
  "length xs = length ys \<Longrightarrow> map length (chunks b xs) = map length (chunks b ys)"
proof (induction b xs arbitrary: ys rule: chunks.induct)
  case (1 b xs)
  show ?case
  proof (cases "b = 0 \<or> xs = []")
    case True
    with "1.prems" show ?thesis by auto
  next
    case False
    with "1.prems" have "ys \<noteq> []" by auto
    with False "1.prems" "1.IH" [of "drop b ys"] show ?thesis
      by (simp add: chunks_Cons)
  qed
qed

lemma set_zip_same_lengths:
  "map length A = map length B \<Longrightarrow> (x, y) \<in> set (zip A B) \<Longrightarrow> x \<in> set A \<and> length y = length x"
proof -
  assume m: "map length A = map length B" and xy: "(x, y) \<in> set (zip A B)"
  then obtain i where i: "i < length A" "i < length B" "A ! i = x" "B ! i = y"
    by (auto simp: set_zip)
  have "length (A ! i) = length (B ! i)"
    using m i(1) by (metis nth_map length_map)
  with i show ?thesis by (auto simp: in_set_conv_nth)
qed

section \<open>One epoch\<close>

lemma shuffle_length:
  "shuffle_ok shuffle \<Longrightarrow> length (shuffle e n) = n"
  by (metis shuffle_ok_def length_upt minus_nat.diff_0 size_mset)

lemma shuffle_mset:
  assumes "shuffle_ok shuffle"
  shows "image_mset ((!) X) (mset (shuffle e (length X))) = mset X"
proof -
  have "image_mset ((!) X) (mset (shuffle e (length X))) = image_mset ((!) X) (mset [0..<length X])"
    using assms by (simp add: shuffle_ok_def)
  also have "\<dots> = mset X"
    by (metis map_nth mset_map)
  finally show ?thesis .
qed

lemma epoch_batches_map_length:
  "map length (chunks b (map ((!) X) p)) = map length (chunks b (map ((!) Y) p))"
  by (rule map_length_chunks) simp

lemma epoch_batches_bounded:
  "(x, y) \<in> set (epoch_batches shuffle b X Y e) \<Longrightarrow> x \<noteq> [] \<and> length x \<le> b \<and> length y = length x"
  using set_zip_same_lengths [OF epoch_batches_map_length] chunks_bounded by blast

lemma epoch_batches_length:
  "shuffle_ok shuffle \<Longrightarrow> 0 < b \<Longrightarrow> length (epoch_batches shuffle b X Y e) = (length X + b - 1) div b"
  using arg_cong [OF epoch_batches_map_length [of b X _ Y], where f = length]
  by (simp add: length_chunks shuffle_length)

lemma epoch_batches_samples:
  "shuffle_ok shuffle \<Longrightarrow> 0 < b \<Longrightarrow> mset (concat (map fst (epoch_batches shuffle b X Y e))) = mset X"
  using arg_cong [OF epoch_batches_map_length [of b X _ Y], where f = length]
  by (simp add: concat_chunks shuffle_mset)

lemma train_batches_append:
  "fst (train_batches step net (bs @ cs)) = fst (train_batches step (fst (train_batches step net bs)) cs)"
proof (induction bs arbitrary: net)
  case (Cons xy bs)
  then show ?case by (cases xy) (simp add: case_prod_beta Let_def)
qed simp

lemma keras_epoch_net:
  "fst (keras_epoch step test shuffle b X Y Xv Yv acc e) =
   fst (train_batches step (fst acc) (epoch_batches shuffle b X Y e))"
  by (simp add: keras_epoch_def case_prod_beta Let_def)

lemma keras_epoch_logs:
  "length (snd (keras_epoch step test shuffle b X Y Xv Yv acc e)) = Suc (length (snd acc))"
  by (simp add: keras_epoch_def case_prod_beta Let_def)

section \<open>The epoch loop\<close>

lemma foldl_keras_epoch_logs:
  "length (snd (foldl (keras_epoch step test shuffle b X Y Xv Yv) acc es)) = length (snd acc) + length es"
  by (induction es arbitrary: acc) (simp_all add: keras_epoch_logs)

lemma foldl_keras_epoch_net:
  "fst (foldl (keras_epoch step test shuffle b X Y Xv Yv) acc es) =
   fst (train_batches step (fst acc) (concat (map (epoch_batches shuffle b X Y) es)))"
  by (induction es arbitrary: acc) (simp_all add: keras_epoch_net train_batches_append)

lemma keras_fit_loop_Inr_iff:
  "keras_fit_loop net_shape step test shuffle net epochs b X Y Xv Yv = Inr (net', h) \<longleftrightarrow>
     length X = length Y \<and> length Xv = length Yv \<and> X \<noteq> [] \<and> Xv \<noteq> [] \<and> 0 < b \<and>
     batch_fits (net_shape net) X Y \<and> batch_fits (net_shape net) Xv Yv \<and>
     (let r = foldl (keras_epoch step test shuffle b X Y Xv Yv) (net, []) [0..<epochs]
      in net' = fst r \<and> h = \<lparr>hist_loss = map (\<lambda>(l, a, vl, va). l) (snd r),
                            hist_accuracy = map (\<lambda>(l, a, vl, va). a) (snd r),
                            hist_val_loss = map (\<lambda>(l, a, vl, va). vl) (snd r),
                            hist_val_accuracy = map (\<lambda>(l, a, vl, va). va) (snd r)\<rparr>)"
  by (auto simp: keras_fit_loop_def Let_def case_prod_beta)

lemma keras_fit_loop_history:
  assumes "length X = length Y" "length Xv = length Yv" "X \<noteq> []" "Xv \<noteq> []" "0 < b"
    and "batch_fits (net_shape net) X Y" "batch_fits (net_shape net) Xv Yv"
  shows "\<exists>h. keras_fit_loop net_shape step test shuffle net epochs b X Y Xv Yv =
               Inr (fst (train_batches step net (concat (map (epoch_batches shuffle b X Y) [0..<epochs]))), h) \<and>
             length (hist_loss h) = epochs \<and> length (hist_accuracy h) = epochs \<and>
             length (hist_val_loss h) = epochs \<and> length (hist_val_accuracy h) = epochs"
  using assms foldl_keras_epoch_logs [of step test shuffle b X Y Xv Yv "(net, [])" "[0..<epochs]"]
  by (simp add: keras_fit_loop_Inr_iff foldl_keras_epoch_net Let_def)

lemma epochs_batches_length:
  "shuffle_ok shuffle \<Longrightarrow> 0 < b \<Longrightarrow>
   length (concat (map (epoch_batches shuffle b X Y) es)) = length es * ((length X + b - 1) div b)"
proof (induction es)
  case (Cons e es)
  then show ?case
    using epoch_batches_length [OF Cons.prems, where X = X and Y = Y and e = e] by simp
qed simp

lemma epochs_batches_bounded:
  "(x, y) \<in> set (concat (map (epoch_batches shuffle b X Y) es)) \<Longrightarrow>
   x \<noteq> [] \<and> length x \<le> b \<and> length y = length x"
  using epoch_batches_bounded by fastforce

lemma epochs_batches_samples:
  "shuffle_ok shuffle \<Longrightarrow> 0 < b \<Longrightarrow>
   mset (concat (map fst (concat (map (epoch_batches shuffle b X Y) es)))) = repeat_mset (length es) (mset X)"
proof (induction es)
  case (Cons e es)
  then show ?case
    using epoch_batches_samples [OF Cons.prems, where X = X and Y = Y and e = e] by simp
qed simp

section \<open>Training inside \<open>fit\<close>\<close>

lemma fit_network_Inr_cases:
  "fit_network L k nc ep b Xt yt Xv yv s = (Inr (), s') \<Longrightarrow>
   \<exists>net0 net' h. (model s = Some net0 \<or> (model s = None \<and> (\<exists>M. build_model s [k, 1] nc = Inr M \<and> net0 = keras_compile L M))) \<and>
     keras_fit L net0 ep b Xt yt Xv yv = Inr (net', h) \<and> s' = s\<lparr>model := Some net', history := Some h\<rparr>"
  by (auto simp: fit_network_def Let_def rbind_eq_Inr_iff split: option.splits sum.splits prod.splits)

lemma fit_network_available:
  assumes net: "(model s = None \<and> \<not> isl (build_model s [k, 1] nc) \<and> keras_compile_shape_ok L net_shape) \<or>
                (\<exists>n. model s = Some n \<and> net_shape n = ([k, 1], [nc]))"
  obtains net0 where
    "(case model s of Some net \<Rightarrow> Inr net
      | None \<Rightarrow> rbind (build_model s [k, 1] nc) (\<lambda>M. Inr (keras_compile L M))) = Inr net0"
    "net_shape net0 = ([k, 1], [nc])"
proof (cases "model s")
  case None
  with net obtain M where M: "build_model s [k, 1] nc = Inr M"
    by (cases "build_model s [k, 1] nc") auto
  then have "net_shape (keras_compile L M) = ([k, 1], [nc])"
    using build_model_Inr [OF M] None net by (simp add: keras_compile_shape_ok_def)
  with None M that show ?thesis by simp
next
  case (Some n)
  with net that show ?thesis by auto
qed

lemma batch_fits_shape:
  assumes "batch_fits ([k, 1], [nc]) X Y"
  shows "list_all (\<lambda>x. length x = k \<and> list_all (\<lambda>r. length r = 1) x) X \<and> list_all (\<lambda>y. length y = nc) Y"
  using assms by (auto simp: list_all_iff)

lemma fit_network_loop_returns:
  assumes keras: "keras_fit L = keras_fit_loop net_shape step test shuffle"
    and net: "(model s = None \<and> \<not> isl (build_model s [k, 1] nc) \<and> keras_compile_shape_ok L net_shape) \<or>
              (\<exists>n. model s = Some n \<and> net_shape n = ([k, 1], [nc]))"
    and shapes: "list_all (\<lambda>x. length x = k \<and> list_all (\<lambda>r. length r = 1) x) Xt" "list_all (\<lambda>y. length y = nc) yt"
      "list_all (\<lambda>x. length x = k \<and> list_all (\<lambda>r. length r = 1) x) Xv" "list_all (\<lambda>y. length y = nc) yv"
    and sizes: "length yt = length Xt" "length yv = length Xv" and ne: "Xt \<noteq> []" "Xv \<noteq> []"
    and b: "0 < b"
  shows "\<exists>net' h. fit_network L k nc epochs b Xt yt Xv yv s = (Inr (), s\<lparr>model := Some net', history := Some h\<rparr>) \<and>
           length (hist_loss h) = epochs \<and> length (hist_accuracy h) = epochs \<and>
           length (hist_val_loss h) = epochs \<and> length (hist_val_accuracy h) = epochs"
proof -
  obtain net0 where n0:
    "(case model s of Some net \<Rightarrow> Inr net
      | None \<Rightarrow> rbind (build_model s [k, 1] nc) (\<lambda>M. Inr (keras_compile L M))) = Inr net0"
    and sh: "net_shape net0 = ([k, 1], [nc])"
    using net by (rule fit_network_available)
  have fits: "batch_fits (net_shape net0) Xt yt" "batch_fits (net_shape net0) Xv yv"
    using shapes by (simp_all add: sh list_all_iff)
  obtain h where h: "keras_fit_loop net_shape step test shuffle net0 epochs b Xt yt Xv yv =
      Inr (fst (train_batches step net0 (concat (map (epoch_batches shuffle b Xt yt) [0..<epochs]))), h)"
    and l: "length (hist_loss h) = epochs" "length (hist_accuracy h) = epochs"
      "length (hist_val_loss h) = epochs" "length (hist_val_accuracy h) = epochs"
    using keras_fit_loop_history [where net_shape = net_shape and net = net0 and step = step and test = test
        and shuffle = shuffle and epochs = epochs, OF _ _ _ _ _ fits] sizes ne b by auto
  show ?thesis
    using n0 h l keras by (auto simp: fit_network_def)
qed

lemma ex_train_fit_network:
  "fit_network ex_train_libs 1 2 2 2 [[[1]], [[2]], [[3]]] [[1, 0], [0, 1], [1, 0]] [[[1]]] [[0, 1]]
     ((default_model :: (nat, nat) hybrid_model)\<lparr>model := Some 0\<rparr>) =
   (Inr (), (default_model :: (nat, nat) hybrid_model)\<lparr>model := Some 4,
      history := Some \<lparr>hist_loss = [0, 0], hist_accuracy = [1, 1], hist_val_loss = [0, 0], hist_val_accuracy = [1, 1]\<rparr>\<rparr>)"
  by (simp add: fit_network_def ex_train_libs_def keras_fit_loop_def keras_epoch_def chunks_Cons Let_def upt_rec)

text \<open>
  C14. The training \<open>fit\<close> runs ends after exactly \<open>epochs \<times> \<lceil>n / batch_size\<rceil>\<close> optimiser
  steps: the network \<open>fit\<close> leaves is the one it built or already had, trained by one step on
  each batch of each epoch in turn; every batch has between one and \<open>batch_size\<close> samples
  with as many targets, and each epoch uses every training sample exactly once.
\<close>

theorem fit_network_training_steps:
  assumes keras: "keras_fit L = keras_fit_loop net_shape step test shuffle" and sh: "shuffle_ok shuffle"
    and r: "fit_network L k nc epochs b Xt yt Xv yv s = (Inr (), s')"
  shows "let bs = concat (map (epoch_batches shuffle b Xt yt) [0..<epochs]) in
         (\<exists>net0. (model s = Some net0 \<or>
                   (model s = None \<and> (\<exists>M. build_model s [k, 1] nc = Inr M \<and> net0 = keras_compile L M))) \<and>
                 model s' = Some (fst (train_batches step net0 bs))) \<and>
         length bs = epochs * ((length Xt + b - 1) div b) \<and>
         (\<forall>(x, y) \<in> set bs. x \<noteq> [] \<and> length x \<le> b \<and> length y = length x) \<and>
         mset (concat (map fst bs)) = repeat_mset epochs (mset Xt)"
proof -
  obtain net0 net' h where
    n0: "model s = Some net0 \<or> (model s = None \<and> (\<exists>M. build_model s [k, 1] nc = Inr M \<and> net0 = keras_compile L M))"
    and kf: "keras_fit_loop net_shape step test shuffle net0 epochs b Xt yt Xv yv = Inr (net', h)"
    and s': "s' = s\<lparr>model := Some net', history := Some h\<rparr>"
    using fit_network_Inr_cases [OF r] keras by auto
  have b: "0 < b" and net': "net' = fst (train_batches step net0 (concat (map (epoch_batches shuffle b Xt yt) [0..<epochs])))"
    using kf by (simp_all add: keras_fit_loop_Inr_iff Let_def foldl_keras_epoch_net)
  define bs where "bs = concat (map (epoch_batches shuffle b Xt yt) [0..<epochs])"
  have "length bs = epochs * ((length Xt + b - 1) div b)"
    unfolding bs_def using epochs_batches_length [OF sh b, where X = Xt and Y = yt and es = "[0..<epochs]"] by simp
  moreover have "mset (concat (map fst bs)) = repeat_mset epochs (mset Xt)"
    unfolding bs_def using epochs_batches_samples [OF sh b, where X = Xt and Y = yt and es = "[0..<epochs]"] by simp
  moreover have "\<forall>(x, y) \<in> set bs. x \<noteq> [] \<and> length x \<le> b \<and> length y = length x"
    unfolding bs_def using epochs_batches_bounded by blast
  ultimately show ?thesis
    using n0 s' net' by (auto simp: Let_def bs_def)
qed

theorem fit_network_training_steps_witness:
  "keras_fit ex_train_libs = keras_fit_loop (\<lambda>n. ([1, 1], [2])) (\<lambda>n x y. (Suc n, 0, 1)) (\<lambda>n x y. (0, 1)) (\<lambda>e n. rev [0..<n]) \<and>
   shuffle_ok (\<lambda>e n. rev [0..<n]) \<and>
   fit_network ex_train_libs 1 2 2 2 [[[1]], [[2]], [[3]]] [[1, 0], [0, 1], [1, 0]] [[[1]]] [[0, 1]]
     ((default_model :: (nat, nat) hybrid_model)\<lparr>model := Some 0\<rparr>) =
   (Inr (), (default_model :: (nat, nat) hybrid_model)\<lparr>model := Some 4,
      history := Some \<lparr>hist_loss = [0, 0], hist_accuracy = [1, 1], hist_val_loss = [0, 0], hist_val_accuracy = [1, 1]\<rparr>\<rparr>) \<and>
   (let bs = concat (map (epoch_batches (\<lambda>e n. rev [0..<n]) 2 [[[1]], [[2]], [[3]]] [[1, 0], [0, 1], [1, 0]]) [0..<2]) in
      (\<exists>net0. (model ((default_model :: (nat, nat) hybrid_model)\<lparr>model := Some 0\<rparr>) = Some net0 \<or>
                (model ((default_model :: (nat, nat) hybrid_model)\<lparr>model := Some 0\<rparr>) = None \<and>
                 (\<exists>M. build_model ((default_model :: (nat, nat) hybrid_model)\<lparr>model := Some 0\<rparr>) [1, 1] 2 = Inr M \<and>
                      net0 = keras_compile ex_train_libs M))) \<and>
              model ((default_model :: (nat, nat) hybrid_model)\<lparr>model := Some 4,
                 history := Some \<lparr>hist_loss = [0, 0], hist_accuracy = [1, 1], hist_val_loss = [0, 0],
                                  hist_val_accuracy = [1, 1]\<rparr>\<rparr>) =
                Some (fst (train_batches (\<lambda>n x y. (Suc n, 0, 1)) net0 bs))) \<and>
      length bs = 2 * ((length [[[1::real]], [[2]], [[3]]] + 2 - 1) div 2) \<and>
      (\<forall>(x, y) \<in> set bs. x \<noteq> [] \<and> length x \<le> 2 \<and> length y = length x) \<and>
      mset (concat (map fst bs)) = repeat_mset 2 (mset [[[1]], [[2]], [[3]]]))"
proof -
  have k: "keras_fit ex_train_libs = keras_fit_loop (\<lambda>n. ([1, 1], [2])) (\<lambda>n x y. (Suc n, 0, 1)) (\<lambda>n x y. (0, 1)) (\<lambda>e n. rev [0..<n])"
    by (simp add: ex_train_libs_def)
  have sh: "shuffle_ok (\<lambda>e n. rev [0..<n])"
    by (simp add: shuffle_ok_def)
  have r: "fit_network ex_train_libs 1 2 2 2 [[[1]], [[2]], [[3]]] [[1, 0], [0, 1], [1, 0]] [[[1]]] [[0, 1]]
     ((default_model :: (nat, nat) hybrid_model)\<lparr>model := Some 0\<rparr>) =
   (Inr (), (default_model :: (nat, nat) hybrid_model)\<lparr>model := Some 4,
      history := Some \<lparr>hist_loss = [0, 0], hist_accuracy = [1, 1], hist_val_loss = [0, 0], hist_val_accuracy = [1, 1]\<rparr>\<rparr>)"
    by (rule ex_train_fit_network)
  show ?thesis
    using k sh r fit_network_training_steps [OF k sh r] by blast
qed

text \<open>
  C30. The network is built by the first \<open>fit\<close> only: when the object already holds a network
  whose input or output shape differs from the data of a later \<open>fit\<close> (another number of
  PCA components or of classes), Keras' \<open>fit\<close> raises a shape error before any training step
  and the object keeps its old network and history.
\<close>
theorem fit_network_refit_other_shape:
  assumes keras: "keras_fit L = keras_fit_loop net_shape step test shuffle"
    and net: "model s = Some n" and other: "net_shape n \<noteq> ([k, 1], [nc])"
    and shapes: "list_all (\<lambda>x. length x = k \<and> list_all (\<lambda>r. length r = 1) x) Xt" "list_all (\<lambda>y. length y = nc) yt"
    and sizes: "length yt = length Xt" "length yv = length Xv" and ne: "Xt \<noteq> []" "Xv \<noteq> []"
    and k: "0 < k" and b: "0 < b"
  shows "fit_network L k nc epochs b Xt yt Xv yv s = (Inl ShapeMismatch, s)"
proof -
  obtain x xs y ys where X: "Xt = x # xs" and Y: "yt = y # ys"
    using ne(1) sizes(1) by (cases Xt; cases yt) auto
  obtain r rs where x: "x = r # rs"
    using shapes(1) k X by (cases x) auto
  have "\<not> batch_fits (net_shape n) Xt yt"
  proof
    assume "batch_fits (net_shape n) Xt yt"
    then have "net_shape n = ([k, 1], [nc])"
      using shapes X Y x by (cases "net_shape n") (auto simp: length_Suc_conv numeral_2_eq_2)
    with other show False ..
  qed
  then have "keras_fit_loop net_shape step test shuffle n epochs b Xt yt Xv yv = Inl ShapeMismatch"
    using sizes ne b by (simp add: keras_fit_loop_def)
  then show ?thesis
    using keras net by (simp add: fit_network_def)
qed

theorem fit_network_refit_other_shape_witness:
  "keras_fit ex_train_libs = keras_fit_loop (\<lambda>n. ([1, 1], [2])) (\<lambda>n x y. (Suc n, 0, 1)) (\<lambda>n x y. (0, 1)) (\<lambda>e n. rev [0..<n]) \<and>
   model ((default_model :: (nat, nat) hybrid_model)\<lparr>model := Some 0\<rparr>) = Some 0 \<and>
   (\<lambda>n::nat. ([1::nat, 1], [2::nat])) 0 \<noteq> ([1, 1], [3]) \<and>
   list_all (\<lambda>x. length x = 1 \<and> list_all (\<lambda>r. length r = 1) x) [[[1::real]], [[2]]] \<and>
   list_all (\<lambda>y. length y = 3) [[1, 0, 0], [0, 0, 1::real]] \<and>
   fit_network ex_train_libs 1 3 2 2 [[[1]], [[2]]] [[1, 0, 0], [0, 0, 1]] [[[1]]] [[0, 1, 0]]
     ((default_model :: (nat, nat) hybrid_model)\<lparr>model := Some 0\<rparr>) =
   (Inl ShapeMismatch, (default_model :: (nat, nat) hybrid_model)\<lparr>model := Some 0\<rparr>)"
proof -
  have k: "keras_fit ex_train_libs = keras_fit_loop (\<lambda>n. ([1, 1], [2])) (\<lambda>n x y. (Suc n, 0, 1)) (\<lambda>n x y. (0, 1)) (\<lambda>e n. rev [0..<n])"
    by (simp add: ex_train_libs_def)
  show ?thesis
    using k fit_network_refit_other_shape [OF k, where s = "(default_model :: (nat, nat) hybrid_model)\<lparr>model := Some 0\<rparr>"
        and n = 0 and k = 1 and nc = 3 and Xt = "[[[1]], [[2]]]" and yt = "[[1, 0, 0], [0, 0, 1]]"
        and Xv = "[[[1]]]" and yv = "[[0, 1, 0]]" and b = 2 and epochs = 2]
    by simp
qed

end
