(* ===== verification/Keras_Compile.thy ===== *)
theory Keras_Compile
  imports Keras_Train Forward
begin

text \<open>
  What \<open>model.compile(optimizer=Adam(learning_rate=0.001),
  loss='categorical_crossentropy', metrics=['accuracy'])\<close> (lines 221-225 of
  \<open>src/model.py\<close>) makes of a training step, and the training \<open>fit\<close> runs with it (lines
  300-305), modelled from Keras' documented behaviour. The network's weights are a flat
  vector \<open>w\<close> (Keras' \<open>trainable_variables\<close> in order) with the optimiser's state beside it:
  the iteration count and the first and second moment estimates. \<open>adam_update\<close> is Keras'
  \<open>Adam.update_step\<close> with the defaults the code keeps (\<open>beta_1 = 0.9\<close>,
  \<open>beta_2 = 0.999\<close>, \<open>epsilon = 1e-7\<close>) and the bias correction folded into the step size.
  \<open>categorical_crossentropy\<close> averages \<open>-\<Sigma> y log p\<close> over the batch with no
  clipping: the network ends in a softmax, and for such an output the TensorFlow backend
  computes the loss from the softmax's logits (\<open>softmax_cross_entropy_with_logits\<close>), which
  is \<open>-\<Sigma> y log (softmax z)\<close> exactly; \<open>categorical_accuracy\<close>
  (what \<open>'accuracy'\<close> means with this loss) averages the agreement of the arg-maxes.
  \<open>compiled_train_step\<close> runs the forward pass in training mode, reports the loss and the
  accuracy of that pass and applies one Adam update with the gradient; the validation of
  \<open>compiled_fit\<close> runs the inference forward pass of \<open>Forward\<close>. The training-mode
  forward pass (Dropout's random masks), the gradient (back-propagation) and the layout of
  the weight vector (\<open>decode\<close>) are parameters.
\<close>

type_synonym adam_state = "nat \<times> vec \<times> vec"

definition adam_update :: "real \<Rightarrow> adam_state \<Rightarrow> vec \<Rightarrow> vec \<Rightarrow> vec \<times> adam_state" where
  "adam_update lr st w g =
     (let (iterations, m, v) = st;
          local_step = Suc iterations;
          alpha = lr * sqrt (1 - (999 / 1000) ^ local_step) / (1 - (9 / 10) ^ local_step);
          m' = map2 (\<lambda>m g. m + (g - m) * (1 - 9 / 10)) m g;
          v' = map2 (\<lambda>v g. v + (g\<^sup>2 - v) * (1 - 999 / 1000)) v g
      in (map2 (\<lambda>w (m, v). w - m * alpha / (sqrt v + 1 / 10 ^ 7)) w (zip m' v'),
          (local_step, m', v')))"

definition categorical_crossentropy :: "matrix \<Rightarrow> matrix \<Rightarrow> real" where
  "categorical_crossentropy Y P =
     mean (map2 (\<lambda>y p. - (\<Sum>(t, q)\<leftarrow>zip y p. t * ln q)) Y P)"

definition categorical_accuracy :: "matrix \<Rightarrow> matrix \<Rightarrow> real" where
  "categorical_accuracy Y P = mean (map2 (\<lambda>y p. if np_argmax y = np_argmax p then 1 else 0) Y P)"

definition compiled_metrics :: "matrix \<Rightarrow> matrix \<Rightarrow> real \<times> real" where
  "compiled_metrics y y_pred = (categorical_crossentropy y y_pred, categorical_accuracy y y_pred)"

definition compiled_train_step ::
  "compiled_model \<Rightarrow> (vec \<Rightarrow> tensor3 \<Rightarrow> matrix) \<Rightarrow> (vec \<Rightarrow> tensor3 \<Rightarrow> matrix \<Rightarrow> vec) \<Rightarrow>
   vec \<times> adam_state \<Rightarrow> tensor3 \<Rightarrow> matrix \<Rightarrow> (vec \<times> adam_state) \<times> real \<times> real" where
  "compiled_train_step M forward_train grad net x y =
     (let (w, st) = net;
          y_pred = forward_train w x;
          (l, a) = compiled_metrics y y_pred
      in (adam_update (learning_rate M) st w (grad w x y), l, a))"

definition compiled_fit ::
  "compiled_model \<Rightarrow> 'c net_config_scheme \<Rightarrow> nat \<Rightarrow> (vec \<Rightarrow> network_params) \<Rightarrow>
   (vec \<Rightarrow> tensor3 \<Rightarrow> matrix) \<Rightarrow> (vec \<Rightarrow> tensor3 \<Rightarrow> matrix \<Rightarrow> vec) \<Rightarrow> (nat \<Rightarrow> nat \<Rightarrow> nat list) \<Rightarrow>
   vec \<times> adam_state \<Rightarrow> nat \<Rightarrow> nat \<Rightarrow> tensor3 \<Rightarrow> matrix \<Rightarrow> tensor3 \<Rightarrow> matrix \<Rightarrow>
   ((vec \<times> adam_state) \<times> history) result" where
  "compiled_fit M cfg num_classes decode forward_train grad shuffle =
     keras_fit_loop (\<lambda>net. (snd (inputs M), snd (outputs M))) (compiled_train_step M forward_train grad)
       (\<lambda>(w, st) x y. compiled_metrics y (map (network_forward cfg num_classes (decode w)) x)) shuffle"

section \<open>Adam on a constant gradient\<close>










end
