(* ===== verification/Figures.thy ===== *)
theory Figures
  imports Pipeline
begin

text \<open>
  The figures the two plotting methods return (lines 384-446 of \<open>src/model.py\<close>), as the
  values the matplotlib and seaborn calls build: a figure of a size with its axes, each axes
  with the curves \<open>ax.plot\<close> drew, the heatmap \<open>sns.heatmap\<close> drew, the title, the axis
  labels and the legend; a heatmap records its cells, their texts, its tick labels and its
  colour map. \<open>plot_training_history_fig\<close> is the two-panel figure of the
  training history (accuracy, then loss, each with its training and validation curve,
  \<open>history_panel\<close>); \<open>plot_confusion_matrix_fig\<close> the one-panel heatmap of the confusion
  matrix with \<open>annot=True, fmt='d'\<close>, whose cell texts are the counts printed in decimal
  (\<open>format_d\<close>, Python's \<open>format(n, 'd')\<close>); a heatmap of a bare array is labelled by
  the row and column positions (seaborn's default tick labels; for a large matrix seaborn
  may show only every few of them). Rendering to pixels is not modelled.
\<close>

record axes =
  ax_lines :: "vec list"
  ax_heatmap :: "(nat list list \<times> string list list \<times> nat list \<times> string) option"
  ax_title :: string
  ax_ylabel :: string
  ax_xlabel :: string
  ax_legend :: "(string list \<times> string) option"

record figure =
  fig_size :: "nat \<times> nat"
  fig_axes :: "axes list"
  fig_tight :: bool

fun format_d :: "nat \<Rightarrow> string" where
  "format_d n = (if n < 10 then [char_of (48 + n)] else format_d (n div 10) @ [char_of (48 + n mod 10)])"

declare format_d.simps [simp del]

text \<open>Lines 398-404 and 407-413: one panel of the history figure.\<close>

definition history_panel :: "vec \<Rightarrow> vec \<Rightarrow> string \<Rightarrow> string \<Rightarrow> axes" where
  "history_panel train val title ylabel =
     \<lparr>ax_lines = [train, val], ax_heatmap = None, ax_title = title, ax_ylabel = ylabel,
      ax_xlabel = ''Epoch'', ax_legend = Some ([''Train'', ''Validation''], ''upper left'')\<rparr>"

definition plot_training_history_fig :: "('net, 'a) world \<Rightarrow> figure result" where
  "plot_training_history_fig w =
     rbind (plot_training_history w) (\<lambda>(acc, val_acc, loss, val_loss).
       Inr \<lparr>fig_size = (15, 5),
            fig_axes = [history_panel acc val_acc ''Model Accuracy'' ''Accuracy'',
                        history_panel loss val_loss ''Model Loss'' ''Loss''],
            fig_tight = True\<rparr>)"

definition plot_confusion_matrix_fig ::
  "'net libs \<Rightarrow> nat \<Rightarrow> matrix \<Rightarrow> 'a::linorder list \<Rightarrow> ('net, 'a) world \<Rightarrow> figure result \<times> ('net, 'a) world" where
  "plot_confusion_matrix_fig L d X y w =
     (case plot_confusion_matrix L d X y w of
        (Inl e, w') \<Rightarrow> (Inl e, w')
      | (Inr cm, w') \<Rightarrow>
          (Inr \<lparr>fig_size = (10, 8),
                fig_axes = [\<lparr>ax_lines = [], ax_heatmap = Some (cm, map (map format_d) cm, [0..<length cm], ''Blues''),
                             ax_title = ''Confusion Matrix'', ax_ylabel = ''True Label'',
                             ax_xlabel = ''Predicted Label'', ax_legend = None\<rparr>],
                fig_tight = False\<rparr>, w'))"

end
