(* ===== verification/Spec2Isabelle.thy ===== *)
theory Spec2Isabelle
  imports Example_Run Object_Types Predict_Batch Keras_Compile Figures
begin

text \<open>
  \<^bold>\<open>A verification model of \<open>src/model.py\<close>.\<close>
  The program is one class, \<open>HybridLSTMTransformerModel\<close>, a classification pipeline:
  \<open>fit\<close> encodes the labels (scikit-learn \<open>LabelEncoder\<close>), balances the classes
  (imbalanced-learn \<open>RandomOverSampler\<close>), splits off a validation part
  (\<open>train_test_split\<close>), standardises (\<open>StandardScaler\<close>), reduces the dimension
  (\<open>apply_pca\<close>), recalibrates the features (\<open>squeeze_and_excitation\<close>), builds the Keras
  network once (\<open>build_model\<close> with \<open>transformer_block\<close> and \<open>additive_attention\<close>) and
  trains it; \<open>predict\<close> replays the fitted transforms, runs the network and decodes the
  arg-max class; \<open>evaluate\<close> and the two plots call \<open>predict\<close>.

  \<^bold>\<open>Theories.\<close>
  \<^item> \<open>Prelude\<close>: the \<open>error\<close> datatype (one constructor per exception the code raises or
    propagates), results \<open>error + 'a\<close> with \<open>rbind\<close>, arrays as lists of rows of reals, and
    the shared lemmas on sums and means.
  \<^item> \<open>Label_Encoder\<close>: \<open>LabelEncoder\<close> as \<open>np.unique\<close> and \<open>searchsorted\<close>; codes
    are exactly \<open>0..k-1\<close> and decoding inverts encoding.
  \<^item> \<open>Squeeze_Excitation\<close>: \<open>squeeze_and_excitation\<close> (lines 89-125) with NumPy's global
    generator as a stream \<open>nat \<Rightarrow> real\<close> and a position threaded through every call.
  \<^item> \<open>Network\<close>: the Keras functional API as a graph builder (a state monad over the
    node list, with the layer constructors' argument checks and shape inference at each
    layer call); \<open>transformer_block\<close>
    (127-156), \<open>additive_attention\<close> (158-181, graph and numeric meaning) and
    \<open>build_model\<close> (183-228).
  \<^item> \<open>Transformer\<close>: the numeric meaning of \<open>transformer_block\<close> at inference: Keras'
    multi-head self-attention (\<open>mha_eval\<close>, one head per element of the weights, the
    key equal to the value), the residual \<open>Add\<close>s, both \<open>LayerNormalization\<close>s and the
    feed-forward pair (\<open>transformer_block_eval\<close>); the block keeps the shape, is bounded by
    its last layer normalisation and is equivariant under reordering of the time steps.
  \<^item> \<open>Forward\<close>: Keras' LSTM cell (\<open>lstm_cell\<close>; \<open>lstm_seq\<close> and \<open>lstm_last\<close> for
    the two LSTM calls of \<open>build_model\<close>), the forward pass of the whole built network on
    one sample (\<open>network_forward\<close>, a probability vector), and \<open>Model.predict\<close> of a
    trained network (\<open>keras_predict_forward\<close>), an implementation of the parameter
    \<open>keras_predict\<close> of \<open>Pipeline\<close>.
  \<^item> \<open>Scaler\<close>, \<open>Resampling\<close> (oversampler and split), \<open>PCA\<close> (with \<open>apply_pca\<close>,
    65-87) and \<open>Metrics\<close>: the library calls, from their documented behaviour.
  \<^item> \<open>Pipeline\<close>: the object as a record (\<open>__init__\<close>, 33-63), and \<open>fit\<close> (230-307,
    as the composition of \<open>fit_encode_balance\<close>, the split, \<open>fit_preprocess\<close>,
    \<open>fit_targets\<close> and \<open>fit_network\<close>), \<open>predict\<close> (309-347), \<open>evaluate\<close>
    (349-382) and the plots (384-446). Each method maps a world (object and generator
    position) to its result and the world it leaves, also when it raises, so the
    attributes a failing call has already assigned stay assigned. The inductive
    \<open>reachable\<close> gives the worlds reachable by constructing the object and calling its
    public methods in any order.
  \<^item> \<open>Object_Types\<close>: the well-typedness of the fitted attributes (\<open>obj_wt\<close>: sorted
    distinct classes, one non-zero scale per mean, a PCA with the object's
    \<open>n_components\<close> axes of the mean's width), kept by every method and so true of every
    reachable world.
  \<^item> \<open>Predict_Batch\<close>: every stage of the inference path acts row by row, so
    \<open>predict\<close> on two stacked batches returns exactly when it returns on each, with the
    predictions stacked (for a row-wise Keras \<open>predict\<close>, \<open>keras_rowwise\<close>, which the
    modelled forward pass is).
  \<^item> \<open>Usage\<close>: the usage example at the end of the file (448-480) as the sequence of
    calls it makes, stopping at the first exception; with its \<open>n_components=20\<close> it raises on every dataset of fewer than 20 features.
  \<^item> \<open>Keras_Train\<close>: the training loop of Keras' \<open>Model.fit\<close> as \<open>fit\<close> calls it
    (300-305): the length checks, the shape checks of the samples against the network's
    input and of the targets against its output (\<open>batch_fits\<close>, for the network's shapes
    \<open>net_shape\<close>; \<open>keras_compile_shape_ok\<close> is the contract that \<open>compile\<close> gives a
    network the shapes of its graph), batches of \<open>batch_size\<close> samples (\<open>chunks\<close>, a
    \<open>function\<close> with a measure), per-epoch shuffling, one optimiser step per batch
    (\<open>train_batches\<close>), validation after each epoch and the \<open>History\<close> entry of weighted
    batch means (\<open>keras_epoch\<close>), the epochs in order (\<open>keras_fit_loop\<close>, an instance of
    the parameter \<open>keras_fit\<close>). The optimiser step, the batch evaluation and the
    permutation of each epoch are its parameters.
  \<^item> \<open>Keras_Compile\<close>: what \<open>model.compile(optimizer=Adam(learning_rate=0.001),
    loss='categorical_crossentropy', metrics=['accuracy'])\<close> (221-225) makes of a training
    step: Keras' Adam update with its bias correction (\<open>adam_update\<close>, weights as a flat
    vector beside the optimiser state), the categorical cross-entropy in the unclipped
    form TensorFlow computes from a softmax output's logits, the
    categorical accuracy (\<open>compiled_metrics\<close>), the step (\<open>compiled_train_step\<close>) and the
    training \<open>fit\<close> runs (\<open>compiled_fit\<close>, 300-305), whose validation uses the inference
    forward pass of \<open>Forward\<close>. The training-mode forward pass, the gradient and the
    layout of the weight vector are its parameters.
  \<^item> \<open>Figures\<close>: the figures the two plotting methods return, as the values the
    matplotlib and seaborn calls build (\<open>plot_training_history_fig\<close> with two
    \<open>history_panel\<close>s, \<open>plot_confusion_matrix_fig\<close> with the annotated heatmap whose cell
    texts are \<open>format_d\<close> of the counts); the training-history figure is the subject of
    the liveness property of training.
  \<^item> \<open>Example_Run\<close>: one complete run (\<open>fit\<close>, \<open>predict\<close>, \<open>evaluate\<close>,
    \<open>plot_confusion_matrix\<close>) on concrete data, and the forward pass of a small network,
    evaluated by the simplifier.
  \<^item> This theory: properties that span several methods.

  \<^bold>\<open>What is a parameter.\<close> The record \<open>libs\<close> holds what the code delegates to
  randomness or to Keras: the normal stream, the oversampler's seeded draws
  (\<open>choice_ok\<close>: in range), the split's seeded shuffle (\<open>permutation_ok\<close>: a
  permutation), the SVD of PCA (\<open>pca_solver_ok\<close>: \<open>k\<close> axes of \<open>d\<close> coordinates), and
  Keras \<open>compile\<close>, \<open>fit\<close> and \<open>predict\<close> (\<open>keras_predict_ok\<close>: one non-empty row per
  sample, only shape errors; \<open>keras_compile_shape_ok\<close>: a compiled network has its
  graph's shapes). A property that needs a contract states it as a hypothesis.
  The network's numeric forward pass (\<open>Forward\<close>) is one implementation of the
  \<open>predict\<close> parameter; the weights it reads are the result of training. Keras' training loop (\<open>Keras_Train\<close>) is
  one implementation of the \<open>fit\<close> parameter, itself parametric in the optimiser step,
  and \<open>Keras_Compile\<close> gives that step for the compiled model up to the gradient.

  \<^bold>\<open>What the lemmas show.\<close> For every reachable object a network comes only with an
  encoder and a PCA, and a history only with a network (rule induction over
  \<open>reachable\<close>); \<open>predict\<close> changes nothing but the generator position, and after
  \<open>fit\<close> with labels \<open>y\<close> it returns one label of \<open>y\<close> per row; training and inference
  apply the same fitted scaler and PCA; a \<open>fit\<close> that returns leaves all fitted state
  set; the preprocessing yields tensors of shape \<open>(n, n_components, 1)\<close> and consumes
  exactly \<open>4 k max(1, k // 16)\<close> normal draws; the stored scaler standardises the
  training part; the one-hot stage never raises; \<open>build_model\<close> succeeds exactly on the
  configurations Keras' layer constructors accept, with a well-formed graph and the class
  count as output width; the label round trip
  through one-hot targets and arg-max is the identity; oversampling equalises the class
  counts; \<open>evaluate\<close>'s confusion matrix agrees with \<open>plot_confusion_matrix\<close>'s, and its
  errors are characterised; with \<open>class_balance=True\<close> labels of one class are rejected.
  On training: Keras' loop returns on well-formed inputs that fit the network, with one
  history entry per epoch, after \<open>epochs \<times> \<lceil>n / batch_size\<rceil>\<close> steps using every
  sample once per epoch; a re-fit whose data no longer fit the network built by the first
  \<open>fit\<close> raises Keras' shape error; Adam's bias correction makes each step on a constant
  gradient exactly \<open>-0.001 s g / (s |g| + 1e-7)\<close>, smaller than the learning rate 0.001.
  On the network's numerics: label encoding is the rank of a label among the classes (an abstract specification the
  sorted-list implementation refines); every reachable object is well typed;
  the transformer block's output is bounded whatever its input, the second LSTM returns
  the last state of the first form, and every prediction is a probability vector. Findings proved as theorems: the additive attention is the
  identity (a one-unit softmax), so the built network computes the same function without
  its query, key and attention layers; the transformer block ignores the order of the
  time steps; the recalibration is not reproducible; the training part after the
  unstratified split is balanced only when the shuffled validation part is; a failing
  re-fit leaves a trained network with a refitted encoder.

  \<^bold>\<open>Bounds and termination.\<close> The code itself has no loop; the loops are in the
  libraries it calls, and every one modelled is a structural recursion (\<open>ros_draws\<close> on
  the number of draws, \<open>ros_loop\<close> on the classes, \<open>argmax_from\<close> on the row,
  \<open>lstm_scan\<close> on the time steps, \<open>train_batches\<close> on the batches, the epoch loop a
  fold over \<open>[0..<epochs]\<close>) or, for Keras' batching (\<open>chunks\<close>), a \<open>function\<close>
  whose termination is proved with the length of the remaining samples as measure (a
  batch size of 0 is the \<open>ZeroDivision\<close> error Keras raises before the loop). So no fuel
  is needed and every definition is total and executable. The training properties say
  what this buys: the training stage of \<open>fit\<close> returns whenever its inputs are well
  formed, with a history of one entry per epoch (liveness), after exactly
  \<open>epochs \<times> \<lceil>n / batch_size\<rceil>\<close> optimiser steps that use each training sample once per
  epoch. Integers are unbounded (Python); floats are reals, so rounding is not modelled,
  and scikit-learn's test of a scale below ten machine epsilons is the exact zero test.

  \<^bold>\<open>Not modelled.\<close> The gradient of a training step: TensorFlow differentiates the
  whole graph automatically, and a model of that would be a model of back-propagation
  through the LSTMs and the attention, not of this program; with it the forward pass in
  training mode (Dropout's random masks) and the random weight initialisation, which the
  program never controls (no seed reaches Keras). They are parameters of
  \<open>compiled_fit\<close>; every other part of training is modelled. The inference numerics are
  modelled, with Dropout as the identity it is at inference. Rasterising the figures
  (matplotlib and seaborn rendering) and reading the CSV file in the usage example are I/O.
  Keras checks the validation data at the end of the first epoch, after the first
  training steps (which stay in the mutated Keras model); the model checks it with the
  training data before any step. In \<open>fit\<close> the two parts come out of the same
  preprocessing with the same widths, so the validation check fails only when the
  training check does, and the two orders agree on every call \<open>fit\<close> makes.
\<close>

section \<open>End-to-end properties\<close>

text \<open>
  C20. Label encoding refines the rank encoding: \<open>LabelEncoder.transform\<close> after
  \<open>fit\<close> on \<open>y\<close> maps each label seen at fit time to the number of classes of \<open>y\<close>
  below it and raises the unseen-label error on any other label, and the labels
  \<open>fit\<close> trains on (without balancing) are these ranks of \<open>y\<close>, with the encoder stored.
\<close>

theorem encoding_is_rank:
  "le_transform (le_fit y) ys =
     (if set ys \<subseteq> set y then Inr (map (\<lambda>v. card {x \<in> set y. x < v}) ys) else Inl UnseenLabel) \<and>
   fit_encode_balance L X y False s =
     (Inr (X, map (\<lambda>v. card {x \<in> set y. x < v}) y), s\<lparr>label_encoder := le_fit y\<rparr>)"
  by (simp add: le_fit_def le_transform_Some searchsorted_np_unique fit_encode_balance_def
      le_fit_transform_def)

text \<open>
  C22. \<open>evaluate\<close> computes its confusion matrix on encoded labels and
  \<open>plot_confusion_matrix\<close> on the caller's labels; with a fitted encoder the two agree
  whenever \<open>evaluate\<close> returns, because the encoding is strictly increasing.
\<close>

theorem evaluate_confusion_matrix:
  assumes enc: "label_encoder (obj w) = le_fit ys"
    and ev: "evaluate L d X y w = (Inr m, w')"
  shows "plot_confusion_matrix L d X y w = (Inr (eval_confusion_matrix m), w')"
proof (cases "predict L d X w")
  case (Pair r w1)
  have o: "obj w1 = obj w" using predict_obj [of L d X w] Pair by simp
  show ?thesis
  proof (cases r)
    case (Inl e)
    with Pair ev show ?thesis by (simp add: evaluate_def)
  next
    case (Inr yp)
    let ?cls = "np_unique ys"
    have e1: "label_encoder (obj w1) = Some ?cls" using o enc by (simp add: le_fit_def)
    from ev Pair Inr e1 obtain cm where
        sub: "set y \<subseteq> set ?cls" "set yp \<subseteq> set ?cls"
      and cm: "confusion_matrix (map (searchsorted ?cls) y) (map (searchsorted ?cls) yp) = Inr cm"
      and m: "eval_confusion_matrix m = cm" and w': "w' = w1"
      by (auto simp: evaluate_def le_transform_Some rbind_eq_Inr_iff split: if_splits)
    have "confusion_matrix (map (searchsorted ?cls) y) (map (searchsorted ?cls) yp) =
          confusion_matrix y yp"
      by (rule confusion_matrix_map_mono, rule encoder_codes_mono) (use sub in auto)
    with cm m w' Pair Inr show ?thesis by (simp add: plot_confusion_matrix_def)
  qed
qed

theorem evaluate_confusion_matrix_witness:
  "label_encoder (obj \<lparr>obj = ex_trained, rng_pos = 4\<rparr>) = le_fit [5, 7::nat] \<and>
   evaluate ex_libs 1 [[0], [2]] [5, 7] \<lparr>obj = ex_trained, rng_pos = 4\<rparr> =
     (Inr \<lparr>eval_accuracy = 1 / 2, eval_confusion_matrix = [[1, 0], [1, 0]],
        eval_report = \<lparr>per_class =
          [(5, \<lparr>precision = 1 / 2, recall = 1, f1_score = 2 / 3, support = 1\<rparr>),
           (7, \<lparr>precision = 0, recall = 0, f1_score = 0, support = 1\<rparr>)],
          report_accuracy = 1 / 2,
          macro_avg = \<lparr>precision = 1 / 4, recall = 1 / 2, f1_score = 1 / 3, support = 2\<rparr>,
          weighted_avg = \<lparr>precision = 1 / 4, recall = 1 / 2, f1_score = 1 / 3, support = 2\<rparr>\<rparr>\<rparr>, \<lparr>obj = ex_trained, rng_pos = 6\<rparr>) \<and>
   plot_confusion_matrix ex_libs 1 [[0], [2]] [5, 7] \<lparr>obj = ex_trained, rng_pos = 4\<rparr> =
     (Inr [[1, 0], [1, 0]], \<lparr>obj = ex_trained, rng_pos = 6\<rparr>)"
proof -
  have e: "label_encoder (obj \<lparr>obj = ex_trained, rng_pos = 4\<rparr>) = le_fit [5, 7::nat]"
    by (simp add: ex_trained_def le_fit_def np_unique_def)
  have v: "evaluate ex_libs 1 [[0], [2]] [5, 7] \<lparr>obj = ex_trained, rng_pos = 4\<rparr> =
     (Inr \<lparr>eval_accuracy = 1 / 2, eval_confusion_matrix = [[1, 0], [1, 0]],
        eval_report = \<lparr>per_class =
          [(5, \<lparr>precision = 1 / 2, recall = 1, f1_score = 2 / 3, support = 1\<rparr>),
           (7, \<lparr>precision = 0, recall = 0, f1_score = 0, support = 1\<rparr>)],
          report_accuracy = 1 / 2,
          macro_avg = \<lparr>precision = 1 / 4, recall = 1 / 2, f1_score = 1 / 3, support = 2\<rparr>,
          weighted_avg = \<lparr>precision = 1 / 4, recall = 1 / 2, f1_score = 1 / 3, support = 2\<rparr>\<rparr>\<rparr>, \<lparr>obj = ex_trained, rng_pos = 6\<rparr>)"
    using ex_evaluate [of 4] by simp
  show ?thesis using e v evaluate_confusion_matrix [OF e v] by simp
qed

text \<open>
  C1. After a call of \<open>fit\<close> with labels \<open>y\<close> (whether it returned or raised), every
  call of \<open>predict\<close> that returns gives one label per input row, each a label of \<open>y\<close>.
\<close>

theorem fit_then_predict:
  assumes "keras_predict_ok L"
    and "fst (predict L d' X' (snd (fit L d X y epochs batch_size vs cb w))) = Inr ys"
  shows "length ys = length X' \<and> set ys \<subseteq> set y"
proof -
  from predict_Inr [OF assms] obtain cls where
    "length ys = length X'" "label_encoder (obj (snd (fit L d X y epochs batch_size vs cb w))) = Some cls"
    "set ys \<subseteq> set cls"
    by blast
  then show ?thesis by (metis fit_label_encoder le_fit_def option.inject set_np_unique)
qed

theorem fit_then_predict_witness:
  "keras_predict_ok ex_libs \<and>
   fst (predict ex_libs 1 [[0], [2]] (snd (fit ex_libs 1 [[0], [2], [0], [2]] [5, 5, 7, 7] 50 32 (1 / 2) True
          \<lparr>obj = ex_model, rng_pos = 0\<rparr>))) = Inr [5, 5] \<and>
   length [5, 5::nat] = length [[0::real], [2]] \<and> set [5, 5::nat] \<subseteq> set [5, 5, 7, 7]"
proof -
  have k: "keras_predict_ok ex_libs" using ex_contracts by simp
  have p: "fst (predict ex_libs 1 [[0], [2]] (snd (fit ex_libs 1 [[0], [2], [0], [2]] [5, 5, 7, 7] 50 32 (1 / 2) True
          \<lparr>obj = ex_model, rng_pos = 0\<rparr>))) = Inr [5, 5::nat]"
    using ex_fit ex_predict [of 4] by simp
  show ?thesis using k p fit_then_predict [OF k p] by simp
qed

text \<open>
  The two "not trained" guards agree on every reachable object: once
  \<open>plot_training_history\<close> has a history to draw, \<open>predict\<close> no longer raises the
  class's own error (given a Keras \<open>predict\<close> that raises nothing but shape errors).
\<close>

theorem history_implies_trained:
  assumes "keras_predict_ok L" and "reachable L w" and "plot_training_history w \<noteq> Inl NotTrained"
  shows "fst (predict L d X w) \<noteq> Inl NotTrained"
proof -
  from assms(3) have "history (obj w) \<noteq> None"
    by (auto simp: plot_training_history_def split: option.splits)
  with reachable_inv [OF assms(2)] obtain net where "model (obj w) = Some net"
    by (auto simp: model_inv_def)
  with assms(1) show ?thesis by (rule predict_trained_errors)
qed

theorem history_implies_trained_witness:
  "keras_predict_ok ex_libs \<and> reachable ex_libs \<lparr>obj = ex_trained, rng_pos = 4\<rparr> \<and>
   plot_training_history \<lparr>obj = ex_trained, rng_pos = 4\<rparr> \<noteq> Inl NotTrained \<and>
   fst (predict ex_libs 1 [[0], [2]] \<lparr>obj = ex_trained, rng_pos = 4\<rparr>) \<noteq> Inl NotTrained"
proof -
  have k: "keras_predict_ok ex_libs" using ex_contracts by simp
  have h: "plot_training_history \<lparr>obj = ex_trained, rng_pos = 4\<rparr> \<noteq> Inl NotTrained"
    by (simp add: plot_training_history_def ex_trained_def)
  show ?thesis using k ex_reachable h history_implies_trained [OF k ex_reachable h] by simp
qed

text \<open>
  With the recalibration weights fixed (a constant normal stream), calling
  \<open>predict\<close> twice on the same input gives the same result: the only state
  \<open>predict\<close> touches is the generator position, which then no longer matters.
\<close>

theorem predict_repeatable_fixed_weights:
  assumes "\<And>i. np_normal L i = v"
  shows "fst (predict L d X (snd (predict L d X w))) = fst (predict L d X w)"
proof -
  have o: "obj (snd (predict L d X w)) = obj w" by simp
  have pp: "fst (predict_preprocess L d X (snd (predict L d X w))) = fst (predict_preprocess L d X w)"
    by (rule predict_preprocess_const [OF assms o])
  show ?thesis by (simp only: predict_fst o pp)
qed

theorem predict_repeatable_fixed_weights_witness:
  "(\<forall>i. np_normal ex_libs i = 0) \<and>
   fst (predict ex_libs 1 [[0], [2]] (snd (predict ex_libs 1 [[0], [2]] \<lparr>obj = ex_trained, rng_pos = 4\<rparr>))) =
   fst (predict ex_libs 1 [[0], [2]] \<lparr>obj = ex_trained, rng_pos = 4\<rparr>)"
proof -
  have c: "\<And>i. np_normal ex_libs i = 0" by (simp add: ex_libs_def)
  show ?thesis using c predict_repeatable_fixed_weights [of ex_libs 0, OF c] by simp
qed

text \<open>
  C9. A failed re-fit is not harmless: \<open>fit\<close> refits the label encoder before anything
  else, so a call that raises (here: labels of one class, rejected by the oversampler)
  leaves the trained network in place with the new encoder, and \<open>predict\<close> then returns
  labels the network was never trained on.
\<close>

theorem failed_refit_changes_labels:
  "fst (predict ex_libs 1 [[0], [2]] \<lparr>obj = ex_trained, rng_pos = 4\<rparr>) = Inr [5, 5] \<and>
   fit ex_libs 1 [[0], [2]] [9, 9] 50 32 (1 / 5) True \<lparr>obj = ex_trained, rng_pos = 4\<rparr> =
     (Inl SingleClass, \<lparr>obj = ex_trained\<lparr>label_encoder := Some [9]\<rparr>, rng_pos = 4\<rparr>) \<and>
   fst (predict ex_libs 1 [[0], [2]] \<lparr>obj = ex_trained\<lparr>label_encoder := Some [9]\<rparr>, rng_pos = 4\<rparr>) =
     Inr [9, 9]"
proof -
  have f: "fit ex_libs 1 [[0], [2]] [9, 9] 50 32 (1 / 5) True \<lparr>obj = ex_trained, rng_pos = 4\<rparr> =
     (Inl SingleClass, \<lparr>obj = ex_trained\<lparr>label_encoder := Some [9]\<rparr>, rng_pos = 4\<rparr>)"
    by (simp add: fit_def fit_encode_balance_def le_fit_transform_def le_fit_def np_unique_def
        searchsorted_def ros_fit_resample_def)
  show ?thesis
    using ex_predict [of 4] ex_predict_encoder [of "Some [9]" 4] f by (simp add: le_inverse_transform_def)
qed



theorem fit_predict_same_transform_witness:
  "fit_preprocess ex_libs 1 [[0], [2]] [[0], [2]] \<lparr>obj = ex_model\<lparr>label_encoder := Some [5, 7]\<rparr>, rng_pos = 0\<rparr> =
     (Inr ([[[-1 / 2]], [[1 / 2]]], [[[-1 / 2]], [[1 / 2]]], 1),
      \<lparr>obj = ex_model\<lparr>label_encoder := Some [5, 7], scaler := Some \<lparr>means = [1], scales = [1]\<rparr>,
         pca := Some (PCA_fitted 1 \<lparr>pca_mean = [0], components = [[1]]\<rparr>)\<rparr>, rng_pos = 4\<rparr>) \<and>
   (\<exists>p. fst (predict_preprocess ex_libs 1 [[0], [2]]
      \<lparr>obj = ex_model\<lparr>label_encoder := Some [5, 7], scaler := Some \<lparr>means = [1], scales = [1]\<rparr>,
         pca := Some (PCA_fitted 1 \<lparr>pca_mean = [0], components = [[1]]\<rparr>)\<rparr>, rng_pos = p\<rparr>) =
      Inr [[[-1 / 2]], [[1 / 2]]])"
  using ex_preprocess Pipeline.fit_predict_same_transform [OF ex_preprocess] by simp

theorem fit_success_state_witness:
  "fst (fit ex_libs 1 [[0], [2], [0], [2]] [5, 5, 7, 7] 50 32 (1 / 2) True \<lparr>obj = ex_model, rng_pos = 0\<rparr>) = Inr () \<and>
   (\<exists>P. pca (obj (snd (fit ex_libs 1 [[0], [2], [0], [2]] [5, 5, 7, 7] 50 32 (1 / 2) True
      \<lparr>obj = ex_model, rng_pos = 0\<rparr>))) = Some (PCA_fitted (n_components ex_model) P))"
proof -
  have h: "fst (fit ex_libs 1 [[0], [2], [0], [2]] [5, 5, 7, 7] 50 32 (1 / 2) True \<lparr>obj = ex_model, rng_pos = 0\<rparr>) = Inr ()"
    using ex_fit by simp
  from Pipeline.fit_success_state [OF h] have
    "\<exists>P. pca (obj (snd (fit ex_libs 1 [[0], [2], [0], [2]] [5, 5, 7, 7] 50 32 (1 / 2) True
      \<lparr>obj = ex_model, rng_pos = 0\<rparr>))) = Some (PCA_fitted (n_components ex_model) P)"
    by simp
  with h show ?thesis by (rule conjI)
qed

theorem fit_preprocess_shapes_witness:
  "pca_solver_ok (pca_svd ex_libs) \<and> is_matrix 1 [[0], [2]] \<and>
   fit_preprocess ex_libs 1 [[0], [2]] [[0], [2]] \<lparr>obj = ex_model\<lparr>label_encoder := Some [5, 7]\<rparr>, rng_pos = 0\<rparr> =
     (Inr ([[[-1 / 2]], [[1 / 2]]], [[[-1 / 2]], [[1 / 2]]], 1),
      \<lparr>obj = ex_model\<lparr>label_encoder := Some [5, 7], scaler := Some \<lparr>means = [1], scales = [1]\<rparr>,
         pca := Some (PCA_fitted 1 \<lparr>pca_mean = [0], components = [[1]]\<rparr>)\<rparr>, rng_pos = 4\<rparr>) \<and>
   (1::nat) = n_components (ex_model\<lparr>label_encoder := Some [5, 7]\<rparr>) \<and>
   rng_pos \<lparr>obj = ex_model, rng_pos = 4\<rparr> = 0 + 4 * 1 * max 1 (1 div 16)"
proof -
  have s: "pca_solver_ok (pca_svd ex_libs)" using ex_contracts by simp
  have m: "is_matrix 1 [[0::real], [2]]" by simp
  note r = Pipeline.fit_preprocess_shapes [OF s m m ex_preprocess]
  show ?thesis using s m ex_preprocess r by simp
qed

theorem fit_scaler_standardises_witness:
  "fit_preprocess ex_libs 1 [[0], [2]] [[0], [2]] \<lparr>obj = ex_model\<lparr>label_encoder := Some [5, 7]\<rparr>, rng_pos = 0\<rparr> =
     (Inr ([[[-1 / 2]], [[1 / 2]]], [[[-1 / 2]], [[1 / 2]]], 1),
      \<lparr>obj = ex_model\<lparr>label_encoder := Some [5, 7], scaler := Some \<lparr>means = [1], scales = [1]\<rparr>,
         pca := Some (PCA_fitted 1 \<lparr>pca_mean = [0], components = [[1]]\<rparr>)\<rparr>, rng_pos = 4\<rparr>) \<and>
   (\<exists>Y. scaler_transform (Some \<lparr>means = [1], scales = [1]\<rparr>) 1 [[0], [2]] = Inr Y \<and>
        (\<forall>j < 1. mean (col Y j) = 0) \<and> (\<forall>j < 1. var (col [[0], [2]] j) \<noteq> 0 \<longrightarrow> var (col Y j) = 1))"
  using ex_preprocess Pipeline.fit_scaler_standardises [OF ex_preprocess] by simp

theorem evaluate_outcome_witness:
  "keras_predict_ok ex_libs \<and> label_encoder (obj \<lparr>obj = ex_trained, rng_pos = 4\<rparr>) = Some [5, 7::nat] \<and>
   fst (predict ex_libs 1 [[0], [2]] \<lparr>obj = ex_trained, rng_pos = 4\<rparr>) = Inr [5, 5] \<and>
   fst (evaluate ex_libs 1 [[0], [2]] [5, 9] \<lparr>obj = ex_trained, rng_pos = 4\<rparr>) = Inl UnseenLabel \<and>
   fst (evaluate ex_libs 1 [[0], [2]] [5] \<lparr>obj = ex_trained, rng_pos = 4\<rparr>) = Inl LengthMismatch \<and>
   (\<exists>m. fst (evaluate ex_libs 1 [[0], [2]] [5, 7] \<lparr>obj = ex_trained, rng_pos = 4\<rparr>) = Inr m \<and>
        eval_accuracy m = accuracy_score [5, 7] [5, 5::nat])"
proof -
  have k: "keras_predict_ok ex_libs" using ex_contracts by simp
  have e: "label_encoder (obj \<lparr>obj = ex_trained, rng_pos = 4\<rparr>) = Some [5, 7::nat]" by (simp add: ex_trained_def)
  have p: "fst (predict ex_libs 1 [[0], [2]] \<lparr>obj = ex_trained, rng_pos = 4\<rparr>) = Inr [5, 5]"
    using ex_predict [of 4] by simp
  note o1 = Pipeline.evaluate_outcome [OF k e p, of "[5, 9]"]
  note o2 = Pipeline.evaluate_outcome [OF k e p, of "[5]"]
  note o3 = Pipeline.evaluate_outcome [OF k e p, of "[5, 7]"]
  show ?thesis using k e p o1 o2 o3 by simp
qed

theorem fit_targets_total_witness:
  "choice_ok (ros_choice ex_libs) \<and> permutation_ok (split_perm ex_libs) \<and>
   fst (fit_encode_balance ex_libs [[0], [2], [0], [2]] [5, 5, 7, 7::nat] True ex_model) =
     Inr ([[0], [2], [0], [2]], [0, 0, 1, 1]) \<and>
   train_test_split (split_perm ex_libs) (1 / 2) [[0::real], [2], [0], [2]] [0, 0, 1, 1::nat] =
     Inr ([[0], [2]], [[0], [2]], [1, 1], [0, 0]) \<and>
   (\<exists>Yt Yv. fit_targets [0, 0, 1, 1] [1, 1] [0, 0] = Inr (length (np_unique [5, 5, 7, 7::nat]), Yt, Yv))"
proof -
  have c: "choice_ok (ros_choice ex_libs)" "permutation_ok (split_perm ex_libs)" using ex_contracts by simp_all
  have e: "fst (fit_encode_balance ex_libs [[0], [2], [0], [2]] [5, 5, 7, 7::nat] True ex_model) =
     Inr ([[0], [2], [0], [2]], [0, 0, 1, 1])"
    by (simp add: fit_encode_balance_def ex_encode [simplified] ex_libs_def ex_resample [simplified])
  have t: "train_test_split (split_perm ex_libs) (1 / 2) [[0::real], [2], [0], [2]] [0, 0, 1, 1::nat] =
     Inr ([[0], [2]], [[0], [2]], [1, 1], [0, 0])"
    using ex_split by (simp add: ex_libs_def)
  show ?thesis using c e t Pipeline.fit_targets_total [OF c e t] by blast
qed

theorem evaluate_accuracy_trace_witness:
  "label_encoder (obj \<lparr>obj = ex_trained, rng_pos = 4\<rparr>) = le_fit [5, 7::nat] \<and>
   fst (evaluate ex_libs 1 [[0], [2]] [5, 7] \<lparr>obj = ex_trained, rng_pos = 4\<rparr>) \<noteq> Inl NotTrained \<and>
   (1 / 2 :: real) * real (length [5, 7::nat]) = real (sum_list (map (\<lambda>i. [[1, 0], [1, 0::nat]] ! i ! i) [0..<2]))"
proof -
  have e: "label_encoder (obj \<lparr>obj = ex_trained, rng_pos = 4\<rparr>) = le_fit [5, 7::nat]"
    by (simp add: ex_trained_def le_fit_def np_unique_def)
  note v = ex_evaluate [of 4, simplified]
  from Pipeline.evaluate_accuracy_trace [OF e v] e v show ?thesis by (simp add: upt_rec)
qed

theorem lstm_last_is_last_witness:
  "[[1 :: real]] \<noteq> [] \<and>
   lstm_last 1 ex_lstm [[1]] = last (lstm_seq 1 ex_lstm [[1]])"
proof -
  have h: "[[1 :: real]] \<noteq> []" by simp
  show ?thesis using lstm_last_is_last [OF h, of 1 ex_lstm] by simp
qed

theorem network_forward_distribution_witness:
  "0 < (2::nat) \<and> length (network_forward (tn_cfg ex_net) 2 ex_net_params [[1]]) = 2 \<and>
   sum_list (network_forward (tn_cfg ex_net) 2 ex_net_params [[1]]) = 1"
proof -
  have h: "0 < (2::nat)" by simp
  show ?thesis using network_forward_distribution [OF h, of "tn_cfg ex_net" ex_net_params "[[1]]"] by simp
qed

theorem reachable_obj_wt_witness:
  "pca_solver_ok (pca_svd ex_libs) \<and> reachable ex_libs \<lparr>obj = ex_trained, rng_pos = 4\<rparr> \<and>
   obj_wt (obj \<lparr>obj = ex_trained, rng_pos = 4 :: nat\<rparr>)"
proof -
  have s: "pca_solver_ok (pca_svd ex_libs)" using ex_contracts by simp
  show ?thesis using s ex_reachable reachable_obj_wt [OF s ex_reachable] by simp
qed

theorem usage_example_few_features_witness:
  "1 < (20::nat) \<and>
   isl (fst (usage_example ex_libs 1 [[0], [2], [0], [2]] [5, 5, 7, 7::nat] [[0], [2]] [5, 7] 0))"
proof -
  have h: "1 < (20::nat)" by simp
  show ?thesis using usage_example_few_features [OF h] by simp
qed

theorem predict_batch_split_witness:
  "keras_rowwise ex_libs \<and> [[0::real]] \<noteq> [] \<and> [[2::real]] \<noteq> [] \<and>
   (fst (predict ex_libs 1 ([[0]] @ [[2]]) \<lparr>obj = ex_trained, rng_pos = 4\<rparr>) = Inr [5, 5] \<longleftrightarrow>
    (\<exists>a b. fst (predict ex_libs 1 [[0]] \<lparr>obj = ex_trained, rng_pos = 4\<rparr>) = Inr a \<and>
           fst (predict ex_libs 1 [[2]] \<lparr>obj = ex_trained, rng_pos = 4\<rparr>) = Inr b \<and> [5, 5] = a @ b))"
proof -
  have k: "keras_rowwise ex_libs" by (simp add: keras_rowwise_def ex_libs_def rappend_def)
  have h1: "[[0::real]] \<noteq> []" and h2: "[[2::real]] \<noteq> []" by simp_all
  show ?thesis
    using k h1 h2 predict_batch_split [OF k h1 h2, of 1 "\<lparr>obj = ex_trained, rng_pos = 4\<rparr>" "[5, 5]"]
    by blast
qed

text \<open>
  C13. With Keras' training loop as \<open>keras_fit\<close>, the training stage of \<open>fit\<close> returns
  whenever the data are well formed (as many targets as samples, non-empty parts, a
  positive batch size, samples of shape \<open>(k, 1)\<close> and one-hot targets of width \<open>nc\<close>) and
  the network fits them: it is built now from a configuration Keras accepts (and
  \<open>compile\<close> gives it the graph's shapes), or the object already holds one with input
  shape \<open>(k, 1)\<close> and \<open>nc\<close> outputs. Then \<open>plot_training_history\<close> draws two panels of two
  curves, each with one point per epoch.
\<close>

theorem fit_network_trains_history:
  assumes keras: "keras_fit L = keras_fit_loop net_shape step test shuffle"
    and net: "(model (obj w) = None \<and> \<not> isl (build_model (obj w) [k, 1] nc) \<and> keras_compile_shape_ok L net_shape) \<or>
              (\<exists>n. model (obj w) = Some n \<and> net_shape n = ([k, 1], [nc]))"
    and shapes: "list_all (\<lambda>x. length x = k \<and> list_all (\<lambda>r. length r = 1) x) Xt" "list_all (\<lambda>y. length y = nc) yt"
      "list_all (\<lambda>x. length x = k \<and> list_all (\<lambda>r. length r = 1) x) Xv" "list_all (\<lambda>y. length y = nc) yv"
    and sizes: "length yt = length Xt" "length yv = length Xv" and ne: "Xt \<noteq> []" "Xv \<noteq> []"
    and b: "0 < b"
  shows "\<exists>fig. fst (fit_network L k nc epochs b Xt yt Xv yv (obj w)) = Inr () \<and>
           plot_training_history_fig (w\<lparr>obj := snd (fit_network L k nc epochs b Xt yt Xv yv (obj w))\<rparr>) = Inr fig \<and>
           length (fig_axes fig) = 2 \<and>
           (\<forall>ax \<in> set (fig_axes fig). length (ax_lines ax) = 2 \<and> (\<forall>c \<in> set (ax_lines ax). length c = epochs))"
proof -
  obtain net' h where
    r: "fit_network L k nc epochs b Xt yt Xv yv (obj w) = (Inr (), (obj w)\<lparr>model := Some net', history := Some h\<rparr>)"
    and l: "length (hist_loss h) = epochs" "length (hist_accuracy h) = epochs"
      "length (hist_val_loss h) = epochs" "length (hist_val_accuracy h) = epochs"
    using fit_network_loop_returns [OF keras net shapes sizes ne b] by blast
  show ?thesis
    using l by (simp add: r plot_training_history_fig_def plot_training_history_def history_panel_def)
qed

theorem fit_network_trains_history_witness:
  "keras_fit ex_train_libs = keras_fit_loop (\<lambda>n. ([1, 1], [2])) (\<lambda>n x y. (Suc n, 0, 1)) (\<lambda>n x y. (0, 1)) (\<lambda>e n. rev [0..<n]) \<and>
   model (obj \<lparr>obj = (default_model :: (nat, nat) hybrid_model)\<lparr>model := Some 0\<rparr>, rng_pos = 0\<rparr>) = Some 0 \<and>
   (\<lambda>n::nat. ([1::nat, 1], [2::nat])) 0 = ([1, 1], [2]) \<and>
   list_all (\<lambda>x. length x = 1 \<and> list_all (\<lambda>r. length r = 1) x) [[[1]], [[2]], [[3::real]]] \<and>
   list_all (\<lambda>y. length y = 2) [[1, 0], [0, 1], [1, 0::real]] \<and>
   list_all (\<lambda>x. length x = 1 \<and> list_all (\<lambda>r. length r = 1) x) [[[1::real]]] \<and>
   list_all (\<lambda>y. length y = 2) [[0, 1::real]] \<and>
   length [[1, 0], [0, 1], [1, 0::real]] = length [[[1]], [[2]], [[3::real]]] \<and>
   length [[0, 1::real]] = length [[[1::real]]] \<and> [[[1]], [[2]], [[3::real]]] \<noteq> [] \<and> [[[1::real]]] \<noteq> [] \<and>
   0 < (2::nat) \<and>
   (\<exists>fig. fst (fit_network ex_train_libs 1 2 2 2 [[[1]], [[2]], [[3]]] [[1, 0], [0, 1], [1, 0]] [[[1]]] [[0, 1]]
                 (obj \<lparr>obj = (default_model :: (nat, nat) hybrid_model)\<lparr>model := Some 0\<rparr>, rng_pos = 0\<rparr>)) = Inr () \<and>
      plot_training_history_fig (\<lparr>obj = (default_model :: (nat, nat) hybrid_model)\<lparr>model := Some 0\<rparr>, rng_pos = 0\<rparr>\<lparr>obj :=
          snd (fit_network ex_train_libs 1 2 2 2 [[[1]], [[2]], [[3]]] [[1, 0], [0, 1], [1, 0]] [[[1]]] [[0, 1]]
                 (obj \<lparr>obj = (default_model :: (nat, nat) hybrid_model)\<lparr>model := Some 0\<rparr>, rng_pos = 0\<rparr>))\<rparr>) = Inr fig \<and>
      length (fig_axes fig) = 2 \<and>
      (\<forall>ax \<in> set (fig_axes fig). length (ax_lines ax) = 2 \<and> (\<forall>c \<in> set (ax_lines ax). length c = 2)))"
proof -
  have k: "keras_fit ex_train_libs = keras_fit_loop (\<lambda>n. ([1, 1], [2])) (\<lambda>n x y. (Suc n, 0, 1)) (\<lambda>n x y. (0, 1)) (\<lambda>e n. rev [0..<n])"
    by (simp add: ex_train_libs_def)
  have n: "(model (obj \<lparr>obj = (default_model :: (nat, nat) hybrid_model)\<lparr>model := Some 0\<rparr>, rng_pos = 0\<rparr>) = None \<and>
      \<not> isl (build_model (obj \<lparr>obj = (default_model :: (nat, nat) hybrid_model)\<lparr>model := Some 0\<rparr>, rng_pos = 0\<rparr>) [1, 1] 2) \<and>
      keras_compile_shape_ok ex_train_libs (\<lambda>n. ([1, 1], [2]))) \<or>
    (\<exists>n. model (obj \<lparr>obj = (default_model :: (nat, nat) hybrid_model)\<lparr>model := Some 0\<rparr>, rng_pos = 0\<rparr>) = Some n \<and>
         (\<lambda>n::nat. ([1::nat, 1], [2::nat])) n = ([1, 1], [2]))"
    by simp
  show ?thesis
    using k fit_network_trains_history [OF k n, where Xt = "[[[1]], [[2]], [[3]]]" and yt = "[[1, 0], [0, 1], [1, 0]]"
        and Xv = "[[[1]]]" and yv = "[[0, 1]]" and b = 2 and epochs = 2] by simp
qed

end
